theory Spec2Isabelle
  imports Main
begin

section \<open>The APOGEE downloader: data model\<close>

text \<open>
  A shallow embedding of \<^verbatim>\<open>src/downloader.py\<close>. Everything the Python does beyond
  returning a value is explicit: the local disk, the two module-level credential
  globals, the installed URL opener, what the user types at the prompts, the warnings
  emitted and the network requests made are fields of the record \<open>world\<close>; an
  exception is the left injection of the result. \<^verbatim>\<open>logging.info\<close> calls and the
  progress bar are not modelled: they never influence control flow or results.
\<close>

datatype py_error =
    ValueError string
  | ConnectionError string
  | HTTPError string          \<comment> \<open>carries \<^verbatim>\<open>str(emsg)\<close>\<close>
  | URLError string           \<comment> \<open>any transport failure that is not an HTTPError\<close>
  | RecursionError
  | EOFError
  | IndexError
  | TypeError
  | FileNotFoundError

text \<open>What a public function returns: \<^verbatim>\<open>fullfilename\<close>, or \<^verbatim>\<open>warning_flag\<close> (False).\<close>

datatype retval = Path string | PyFalse

text \<open>
  A file is modelled by the two observations the program makes of it: the hex digest
  that \<^verbatim>\<open>filehash(..., algorithm="sha1")\<close> reports, and the rows (checksum, filename)
  that \<^verbatim>\<open>np.loadtxt(..., dtype="str")\<close> reads from it.
\<close>

record blob =
  sha1 :: string
  table :: "(string \<times> string) list"

datatype netop = Urlopen string | Urlretrieve string

datatype response = Body blob | HTTPErr string | URLErr string

type_synonym passman = "string \<times> string option \<times> string option"

record world =
  files :: "string \<rightharpoonup> blob"
  dirs :: "string list"
  cred_username :: "string option"
  cred_pw :: "string option"
  opener :: "passman option"
  typed :: "string list"
  warned :: "string list"
  netlog :: "netop list"

text \<open>
  The imports that are not part of the source file are parameters: the root directory
  \<^verbatim>\<open>apogee_env()\<close>, the function \<^verbatim>\<open>apogee_default_dr\<close>, and the remote server, which
  answers a request knowing the requests made before it and the installed opener.
\<close>

record deps =
  apogee_env :: string
  apogee_default_dr :: "int option \<Rightarrow> int"
  remote :: "netop list \<Rightarrow> passman option \<Rightarrow> netop \<Rightarrow> response"

type_synonym 'a prog = "world \<Rightarrow> (py_error + 'a) \<times> world"

definition ret :: "'a \<Rightarrow> 'a prog" where
  "ret x w = (Inr x, w)"

definition raise_exc :: "py_error \<Rightarrow> 'a prog" where
  "raise_exc e w = (Inl e, w)"

definition seq :: "'a prog \<Rightarrow> ('a \<Rightarrow> 'b prog) \<Rightarrow> 'b prog" where
  "seq m f w = (case m w of (Inl e, w') \<Rightarrow> (Inl e, w') | (Inr x, w') \<Rightarrow> f x w')"

text \<open>\<^verbatim>\<open>try: m except urllib.error.HTTPError as emsg: h\<close>: only HTTPError is caught.\<close>

definition except_HTTPError :: "'a prog \<Rightarrow> (string \<Rightarrow> 'a prog) \<Rightarrow> 'a prog" where
  "except_HTTPError m h w =
     (case m w of
        (Inl (HTTPError emsg), w') \<Rightarrow> h emsg w'
      | r \<Rightarrow> r)"

subsection \<open>Strings and paths\<close>

fun startswith :: "string \<Rightarrow> string \<Rightarrow> bool" where
  "startswith s [] = True"
| "startswith [] (p # ps) = False"
| "startswith (c # cs) (p # ps) = (c = p \<and> startswith cs ps)"

text \<open>Python's \<^verbatim>\<open>needle in hay\<close> on strings.\<close>

fun str_in :: "string \<Rightarrow> string \<Rightarrow> bool" where
  "str_in needle [] = (needle = [])"
| "str_in needle (c # cs) = (startswith (c # cs) needle \<or> str_in needle cs)"

text \<open>An f-string field: \<^verbatim>\<open>None\<close> is rendered as the text None.\<close>

definition fmt :: "string option \<Rightarrow> string" where
  "fmt x = (case x of None \<Rightarrow> ''None'' | Some s \<Rightarrow> s)"

text \<open>One step of \<^verbatim>\<open>posixpath.join\<close>, and the whole of it.\<close>

definition join2 :: "string \<Rightarrow> string \<Rightarrow> string" where
  "join2 path b =
     (if startswith b ''/'' then b
      else if path = [] \<or> last path = CHR ''/'' then path @ b
      else path @ ''/'' @ b)"

definition os_path_join :: "string \<Rightarrow> string list \<Rightarrow> string" where
  "os_path_join a ps = foldl join2 a ps"

definition dirname :: "string \<Rightarrow> string" where
  "dirname p =
     (let head = rev (dropWhile (\<lambda>c. c \<noteq> CHR ''/'') (rev p))
      in if head \<noteq> [] \<and> \<not> (\<forall>c \<in> set head. c = CHR ''/'')
         then rev (dropWhile (\<lambda>c. c = CHR ''/'') (rev head))
         else head)"

subsection \<open>The local disk, warnings, the network\<close>

definition isfile :: "world \<Rightarrow> string \<Rightarrow> bool" where
  "isfile w p = (files w p \<noteq> None)"

definition path_exists :: "world \<Rightarrow> string \<Rightarrow> bool" where
  "path_exists w p = (p \<in> set (dirs w) \<or> files w p \<noteq> None)"

text \<open>\<^verbatim>\<open>if not os.path.exists(d): os.makedirs(d)\<close>; the disk is taken to be writable.\<close>

definition ensure_dir :: "string \<Rightarrow> unit prog" where
  "ensure_dir d w =
     (if \<not> path_exists w d then (Inr (), w\<lparr>dirs := d # dirs w\<rparr>) else (Inr (), w))"

definition filehash :: "string \<Rightarrow> string prog" where
  "filehash p w =
     (case files w p of
        None \<Rightarrow> (Inl FileNotFoundError, w)
      | Some b \<Rightarrow> (Inr (sha1 b), w))"

definition loadtxt :: "string \<Rightarrow> ((string \<times> string) list) prog" where
  "loadtxt p w =
     (case files w p of
        None \<Rightarrow> (Inl FileNotFoundError, w)
      | Some b \<Rightarrow> (Inr (table b), w))"

definition warn :: "string \<Rightarrow> unit prog" where
  "warn msg w = (Inr (), w\<lparr>warned := warned w @ [msg]\<rparr>)"

definition corruption_msg :: string where
  "corruption_msg = ''File corruption detected, astroNN is attempting to download again''"

definition not_found_msg :: "string \<Rightarrow> string" where
  "not_found_msg url = url @ '' cannot be found on server, skipped''"

definition unknown_msg :: "string \<Rightarrow> string" where
  "unknown_msg emsg = ''Unknown error occurred - '' @ emsg"

definition urlopen :: "deps \<Rightarrow> string \<Rightarrow> unit prog" where
  "urlopen E url w =
     (let w' = w\<lparr>netlog := netlog w @ [Urlopen url]\<rparr>
      in case remote E (netlog w) (opener w) (Urlopen url) of
           Body b \<Rightarrow> (Inr (), w')
         | HTTPErr emsg \<Rightarrow> (Inl (HTTPError emsg), w')
         | URLErr emsg \<Rightarrow> (Inl (URLError emsg), w'))"

definition urlretrieve :: "deps \<Rightarrow> string \<Rightarrow> string \<Rightarrow> unit prog" where
  "urlretrieve E url dest w =
     (let w' = w\<lparr>netlog := netlog w @ [Urlretrieve url]\<rparr>
      in case remote E (netlog w) (opener w) (Urlretrieve url) of
           Body b \<Rightarrow> (Inr (), w'\<lparr>files := (files w')(dest \<mapsto> b)\<rparr>)
         | HTTPErr emsg \<Rightarrow> (Inl (HTTPError emsg), w')
         | URLErr emsg \<Rightarrow> (Inl (URLError emsg), w'))"

subsection \<open>Authenticated download\<close>

text \<open>
  The prompt of \<^verbatim>\<open>__apogee_credentials_downloader\<close>: \<^verbatim>\<open>input\<close> then
  \<^verbatim>\<open>getpass.getpass\<close>, each taking the next line the user types; with nothing left to
  read the call raises EOFError (after the username has been stored, for the second).
\<close>

definition prompt_credentials :: "unit prog" where
  "prompt_credentials w =
     (if cred_username w = None then
        (case typed w of
           [] \<Rightarrow> (Inl EOFError, w)
         | u # rest \<Rightarrow>
             (case rest of
                [] \<Rightarrow> (Inl EOFError, w\<lparr>cred_username := Some u, typed := []\<rparr>)
              | p # rest' \<Rightarrow>
                  (Inr (), w\<lparr>cred_username := Some u, cred_pw := Some p, typed := rest'\<rparr>)))
      else (Inr (), w))"

definition install_opener :: "string \<Rightarrow> unit prog" where
  "install_opener url w =
     (Inr (), w\<lparr>opener := Some (url, cred_username w, cred_pw w)\<rparr>)"

definition clear_credentials :: "unit prog" where
  "clear_credentials w = (Inr (), w\<lparr>cred_username := None, cred_pw := None\<rparr>)"

definition apogee_credentials_downloader :: "deps \<Rightarrow> string \<Rightarrow> string \<Rightarrow> retval prog" where
  "apogee_credentials_downloader E url fullfilename =
     seq prompt_credentials (\<lambda>_.
     seq (install_opener url) (\<lambda>_.
     seq (ensure_dir (dirname fullfilename)) (\<lambda>_.
     except_HTTPError
       (seq (urlretrieve E url fullfilename) (\<lambda>_. ret (Path fullfilename)))
       (\<lambda>emsg.
          if str_in ''401'' emsg then
            seq clear_credentials (\<lambda>_.
            raise_exc (ConnectionError ''Wrong username or password''))
          else if str_in ''404'' emsg then
            seq (warn (not_found_msg url)) (\<lambda>_. ret PyFalse)
          else
            seq (warn (unknown_msg emsg)) (\<lambda>_. ret PyFalse)))))"

text \<open>
  The handler shared by \<^verbatim>\<open>allstar\<close>, \<^verbatim>\<open>apogee_astronn\<close>, \<^verbatim>\<open>combined_spectra\<close>,
  \<^verbatim>\<open>visit_spectra\<close> and \<^verbatim>\<open>apogee_rc\<close>: the body of their
  \<^verbatim>\<open>except urllib.error.HTTPError as emsg\<close>.
\<close>

definition on_http_error :: "deps \<Rightarrow> string \<Rightarrow> string \<Rightarrow> string \<Rightarrow> retval prog" where
  "on_http_error E url fullfilename emsg =
     (if str_in ''401'' emsg then apogee_credentials_downloader E url fullfilename
      else if str_in ''404'' emsg then
        seq (warn (not_found_msg url)) (\<lambda>_. ret PyFalse)
      else
        seq (warn (unknown_msg emsg)) (\<lambda>_. ret PyFalse))"

section \<open>The catalogue downloads\<close>

text \<open>
  Two blocks occur verbatim in every public function, each time with the function's own
  recursive call (\<open>again\<close>), whose returned value the source does not use.

  \<open>recheck\<close> is the body of \<^verbatim>\<open>if os.path.isfile(fullfilename) and flag is None\<close>:
  hash the local file and, on a mismatch, warn and call the function again with
  \<^verbatim>\<open>flag=1\<close>.

  \<open>download_checked\<close> is the body of the download branch: retrieve, hash, and on a
  mismatch warn and call the function again with \<^verbatim>\<open>flag=1\<close>; the value of
  \<^verbatim>\<open>fullfilename\<close> is left as it was.
\<close>

definition recheck :: "string \<Rightarrow> string \<Rightarrow> retval prog \<Rightarrow> unit prog" where
  "recheck fullfilename file_hash again =
     seq (filehash fullfilename) (\<lambda>checksum.
       if checksum \<noteq> file_hash then
         seq (warn corruption_msg) (\<lambda>_.
         seq again (\<lambda>_. ret ()))
       else ret ())"

definition download_checked ::
  "deps \<Rightarrow> string \<Rightarrow> string \<Rightarrow> string \<Rightarrow> retval prog \<Rightarrow> retval prog" where
  "download_checked E url fullfilename file_hash again =
     seq (urlretrieve E url fullfilename) (\<lambda>_.
     seq (filehash fullfilename) (\<lambda>checksum.
       if checksum \<noteq> file_hash then
         seq (warn corruption_msg) (\<lambda>_.
         seq again (\<lambda>_. ret (Path fullfilename)))
       else ret (Path fullfilename)))"

subsection \<open>allstar\<close>

definition allstar_file_hash :: string where
  "allstar_file_hash = ''0e70c02323132af4045545d2329e3f1cb8fdb1e0''"

definition allstar_fullfoldername :: "deps \<Rightarrow> string" where
  "allstar_fullfoldername E =
     os_path_join ''/'' [apogee_env E, ''dr17/apogee/spectro/aspcap/dr17/synspec/'']"

definition allstar_filename :: string where
  "allstar_filename = ''allStar-dr17-synspec.fits''"

definition allstar_fullfilename :: "deps \<Rightarrow> string" where
  "allstar_fullfilename E = os_path_join ''/'' [allstar_fullfoldername E, allstar_filename]"

definition allstar_url :: string where
  "allstar_url =
     ''https://data.sdss.org/sas/dr17/apogee/spectro/aspcap/dr17/synspec/'' @ allstar_filename"

text \<open>
  The first argument after the parameters is the number of nested calls the interpreter
  still allows; at zero the call raises RecursionError. In the branch taken, \<^verbatim>\<open>dr\<close> is
  17, which is what the recursive call passes on. The two conditionals are separate
  \<^verbatim>\<open>if\<close> statements here (and in \<^verbatim>\<open>apogee_astronn\<close>), not \<^verbatim>\<open>if\<close>/\<^verbatim>\<open>elif\<close>.
\<close>

fun allstar :: "deps \<Rightarrow> nat \<Rightarrow> int option \<Rightarrow> int option \<Rightarrow> retval prog" where
  "allstar E 0 dr flag = raise_exc RecursionError"
| "allstar E (Suc n) dr flag =
     (if apogee_default_dr E dr = 17 then
        seq (ensure_dir (allstar_fullfoldername E)) (\<lambda>_.
        seq (\<lambda>w.
               if isfile w (allstar_fullfilename E) \<and> flag = None then
                 recheck (allstar_fullfilename E) allstar_file_hash
                   (allstar E n (Some 17) (Some 1)) w
               else ret () w) (\<lambda>_.
        (\<lambda>w.
           if \<not> isfile w (allstar_fullfilename E) \<or> flag = Some 1 then
             except_HTTPError
               (download_checked E allstar_url (allstar_fullfilename E) allstar_file_hash
                  (allstar E n (Some 17) (Some 1)))
               (on_http_error E allstar_url (allstar_fullfilename E)) w
           else ret (Path (allstar_fullfilename E)) w)))
      else raise_exc (ValueError ''allstar() only supports APOGEE DR13-DR17''))"

subsection \<open>apogee\_astronn\<close>

definition astronn_file_hash :: string where
  "astronn_file_hash = ''c422b9adba840b3415af2fe6dec6500219f1b68f''"

definition astronn_fullfoldername :: "deps \<Rightarrow> string" where
  "astronn_fullfoldername E =
     os_path_join ''/'' [apogee_env E, ''dr17/apogee/vac/apogee-astronn/'']"

definition astronn_filename :: string where
  "astronn_filename = ''apogee_astroNN-DR17.fits''"

definition astronn_fullfilename :: "deps \<Rightarrow> string" where
  "astronn_fullfilename E = os_path_join ''/'' [astronn_fullfoldername E, astronn_filename]"

definition astronn_url :: string where
  "astronn_url = ''https://data.sdss.org/sas/dr17/apogee/vac/apogee-astronn/'' @ astronn_filename"

fun apogee_astronn :: "deps \<Rightarrow> nat \<Rightarrow> int option \<Rightarrow> int option \<Rightarrow> retval prog" where
  "apogee_astronn E 0 dr flag = raise_exc RecursionError"
| "apogee_astronn E (Suc n) dr flag =
     (if apogee_default_dr E dr = 17 then
        seq (ensure_dir (astronn_fullfoldername E)) (\<lambda>_.
        seq (\<lambda>w.
               if isfile w (astronn_fullfilename E) \<and> flag = None then
                 recheck (astronn_fullfilename E) astronn_file_hash
                   (apogee_astronn E n (Some 17) (Some 1)) w
               else ret () w) (\<lambda>_.
        (\<lambda>w.
           if \<not> isfile w (astronn_fullfilename E) \<or> flag = Some 1 then
             except_HTTPError
               (download_checked E astronn_url (astronn_fullfilename E) astronn_file_hash
                  (apogee_astronn E n (Some 17) (Some 1)))
               (on_http_error E astronn_url (astronn_fullfilename E)) w
           else ret (Path (astronn_fullfilename E)) w)))
      else raise_exc (ValueError ''apogee_astroNN() only supports APOGEE DR16-DR17''))"

subsection \<open>allvisit\<close>

definition allvisit_file_hash :: string where
  "allvisit_file_hash = ''fb2f5ecbabbe156f8ec37b420e095f3ba8323cc6''"

definition allvisit_fullfilepath :: "deps \<Rightarrow> string" where
  "allvisit_fullfilepath E =
     os_path_join ''/'' [apogee_env E, ''dr17/apogee/spectro/aspcap/dr17/synspec/'']"

definition allvisit_filename :: string where
  "allvisit_filename = ''allVisit-dr17-synspec.fits''"

definition allvisit_fullfilename :: "deps \<Rightarrow> string" where
  "allvisit_fullfilename E = os_path_join ''/'' [allvisit_fullfilepath E, allvisit_filename]"

definition allvisit_url :: string where
  "allvisit_url =
     ''https://data.sdss.org/sas/dr17/apogee/spectro/aspcap/dr17/synspec/'' @ allvisit_filename"

text \<open>Here the download is not inside any \<^verbatim>\<open>try\<close>, and the branches are \<^verbatim>\<open>if\<close>/\<^verbatim>\<open>elif\<close>.\<close>

fun allvisit :: "deps \<Rightarrow> nat \<Rightarrow> int option \<Rightarrow> int option \<Rightarrow> retval prog" where
  "allvisit E 0 dr flag = raise_exc RecursionError"
| "allvisit E (Suc n) dr flag =
     (if apogee_default_dr E dr = 17 then
        seq (ensure_dir (allvisit_fullfilepath E)) (\<lambda>_.
        (\<lambda>w.
           if isfile w (allvisit_fullfilename E) \<and> flag = None then
             seq (recheck (allvisit_fullfilename E) allvisit_file_hash
                    (allvisit E n (Some 17) (Some 1)))
                 (\<lambda>_. ret (Path (allvisit_fullfilename E))) w
           else if \<not> isfile w (allvisit_fullfilename E) \<or> flag = Some 1 then
             download_checked E allvisit_url (allvisit_fullfilename E) allvisit_file_hash
               (allvisit E n (Some 17) (Some 1)) w
           else ret (Path (allvisit_fullfilename E)) w))
      else raise_exc (ValueError ''allvisit() only supports APOGEE DR13-DR17''))"

subsection \<open>apogee\_rc\<close>

definition rc_file_hash :: string where
  "rc_file_hash = ''d54e0ea4e6a3f5cc3c02a73b93260e992d9836d0''"

definition rc_filename :: string where
  "rc_filename = ''apogee-rc-DR17.fits''"

definition rc_urlstr :: string where
  "rc_urlstr = ''https://data.sdss.org/sas/dr17/apogee/vac/apogee-rc/cat/'' @ rc_filename"

definition rc_fullfoldername :: "deps \<Rightarrow> string" where
  "rc_fullfoldername E = os_path_join ''/'' [apogee_env E, ''dr17/apogee/vac/apogee-rc/cat/'']"

definition rc_fullfilename :: "deps \<Rightarrow> string" where
  "rc_fullfilename E = os_path_join ''/'' [rc_fullfoldername E, rc_filename]"

fun apogee_rc :: "deps \<Rightarrow> nat \<Rightarrow> int option \<Rightarrow> int option \<Rightarrow> retval prog" where
  "apogee_rc E 0 dr flag = raise_exc RecursionError"
| "apogee_rc E (Suc n) dr flag =
     (if apogee_default_dr E dr = 17 then
        seq (ensure_dir (rc_fullfoldername E)) (\<lambda>_.
        (\<lambda>w.
           if isfile w (rc_fullfilename E) \<and> flag = None then
             seq (recheck (rc_fullfilename E) rc_file_hash
                    (apogee_rc E n (Some 17) (Some 1)))
                 (\<lambda>_. ret (Path (rc_fullfilename E))) w
           else if \<not> isfile w (rc_fullfilename E) \<or> flag = Some 1 then
             except_HTTPError
               (download_checked E rc_urlstr (rc_fullfilename E) rc_file_hash
                  (apogee_rc E n (Some 17) (Some 1)))
               (on_http_error E rc_urlstr (rc_fullfilename E)) w
           else ret (Path (rc_fullfilename E)) w))
      else raise_exc (ValueError ''apogee_rc() only supports APOGEE DR13-DR17''))"

subsection \<open>apogee\_distances\<close>

definition distances_file_hash :: string where
  "distances_file_hash = ''2502e2f7703046163f81ecc4054dce39b2038e4f''"

definition distances_filename :: string where
  "distances_filename = ''APOGEE_DR17_EDR3_STARHORSE_v2.fits''"

definition distances_urlstr :: string where
  "distances_urlstr =
     ''https://data.sdss.org/sas/dr17/apogee/vac/apogee-starhorse/'' @ distances_filename"

definition distances_fullfoldername :: "deps \<Rightarrow> string" where
  "distances_fullfoldername E =
     os_path_join ''/'' [apogee_env E, ''dr17/apogee/vac/apogee-starhorse/'']"

definition distances_fullfilename :: "deps \<Rightarrow> string" where
  "distances_fullfilename E =
     os_path_join ''/'' [distances_fullfoldername E, distances_filename]"

text \<open>The handler here is a bare \<^verbatim>\<open>except urllib.error.HTTPError\<close>: every status is skipped.\<close>

fun apogee_distances :: "deps \<Rightarrow> nat \<Rightarrow> int option \<Rightarrow> int option \<Rightarrow> retval prog" where
  "apogee_distances E 0 dr flag = raise_exc RecursionError"
| "apogee_distances E (Suc n) dr flag =
     (if apogee_default_dr E dr = 17 then
        seq (ensure_dir (distances_fullfoldername E)) (\<lambda>_.
        (\<lambda>w.
           if isfile w (distances_fullfilename E) \<and> flag = None then
             seq (recheck (distances_fullfilename E) distances_file_hash
                    (apogee_distances E n (Some 17) (Some 1)))
                 (\<lambda>_. ret (Path (distances_fullfilename E))) w
           else if \<not> isfile w (distances_fullfilename E) \<or> flag = Some 1 then
             except_HTTPError
               (download_checked E distances_urlstr (distances_fullfilename E)
                  distances_file_hash (apogee_distances E n (Some 17) (Some 1)))
               (\<lambda>emsg. seq (warn (not_found_msg distances_urlstr)) (\<lambda>_. ret PyFalse)) w
           else ret (Path (distances_fullfilename E)) w))
      else raise_exc (ValueError ''apogee_distances() only supports APOGEE DR14-DR17''))"

section \<open>The spectra downloads\<close>

subsection \<open>The checksum manifest\<close>

text \<open>
  \<^verbatim>\<open>hash_list = np.loadtxt(full_hash_filename, dtype="str").T\<close> is a 2 by n array for a
  manifest of n rows when n is at least 2: \<^verbatim>\<open>hash_list[0]\<close> the checksums,
  \<^verbatim>\<open>hash_list[1]\<close> the filenames. An empty manifest gives an empty array, and
  \<^verbatim>\<open>hash_list[0]\<close> raises IndexError; a manifest of one row gives a one-dimensional
  array of two strings, whose element \<^verbatim>\<open>hash_list[0]\<close> is a string that the index
  array cannot subscript (TypeError).
\<close>

definition argwhere :: "('a \<Rightarrow> bool) \<Rightarrow> 'a list \<Rightarrow> nat list" where
  "argwhere P xs = filter (\<lambda>i. P (xs ! i)) [0..<length xs]"

definition take_at :: "'a list \<Rightarrow> nat list \<Rightarrow> 'a list" where
  "take_at xs idx = map (\<lambda>i. xs ! i) idx"

text \<open>\<^verbatim>\<open>file_hash = hash_list[0][np.argwhere(hash_list[1] == filename)]\<close>\<close>

definition combined_file_hash :: "(string \<times> string) list \<Rightarrow> string \<Rightarrow> py_error + string list" where
  "combined_file_hash tbl filename =
     (case tbl of
        [] \<Rightarrow> Inl IndexError
      | [r] \<Rightarrow> Inl TypeError
      | _ \<Rightarrow> Inr (take_at (map fst tbl) (argwhere (\<lambda>item. item = filename) (map snd tbl))))"

text \<open>
  \<^verbatim>\<open>hash_idx = [i for i, item in enumerate(hash_list[1]) if f"apStar-{reduce_prefix}-{apogee}" in item]\<close>
  and \<^verbatim>\<open>file_hash = hash_list[0][hash_idx]\<close>
\<close>

definition visit_hash_idx :: "(string \<times> string) list \<Rightarrow> string option \<Rightarrow> nat list" where
  "visit_hash_idx tbl apogee =
     argwhere (\<lambda>item. str_in (''apStar-dr17-'' @ fmt apogee) item) (map snd tbl)"

definition visit_file_hash :: "(string \<times> string) list \<Rightarrow> string option \<Rightarrow> py_error + string list" where
  "visit_file_hash tbl apogee =
     (case tbl of
        [] \<Rightarrow> Inl IndexError
      | [r] \<Rightarrow> Inl TypeError
      | _ \<Rightarrow> Inr (take_at (map fst tbl) (visit_hash_idx tbl apogee)))"

text \<open>
  \<^verbatim>\<open>checksum != file_hash and len(file_hash) != 0\<close>, where \<^verbatim>\<open>file_hash\<close> is an array:
  the comparison is elementwise, and \<^verbatim>\<open>and\<close> takes the truth value of its result
  before \<^verbatim>\<open>len(file_hash)\<close> is looked at. The truth value of an empty array raises
  ValueError (NumPy 2.2 and later; earlier versions gave False with a
  DeprecationWarning), one element gives that element's comparison, more than one raises
  ValueError.
\<close>

definition mismatch :: "string \<Rightarrow> string list \<Rightarrow> py_error + bool" where
  "mismatch checksum file_hash =
     (case file_hash of
        [] \<Rightarrow> Inl (ValueError ''The truth value of an empty array is ambiguous'')
      | [h] \<Rightarrow> Inr (checksum \<noteq> h)
      | _ \<Rightarrow> Inl (ValueError ''The truth value of an array with more than one element is ambiguous''))"

definition lift :: "py_error + 'a \<Rightarrow> 'a prog" where
  "lift r w = (r, w)"

text \<open>
  The block under \<^verbatim>\<open># check hash file\<close>; False stands for the early
  \<^verbatim>\<open>return warning_flag\<close>. The retrieval of the manifest is outside the \<^verbatim>\<open>try\<close>.
\<close>

definition check_hash_file :: "deps \<Rightarrow> string \<Rightarrow> string \<Rightarrow> string \<Rightarrow> bool prog" where
  "check_hash_file E str1 hash_filename full_hash_filename w =
     (if \<not> isfile w full_hash_filename then
        seq (except_HTTPError (seq (urlopen E str1) (\<lambda>_. ret True)) (\<lambda>emsg. ret False))
          (\<lambda>reachable.
             if reachable then
               seq (urlretrieve E (str1 @ hash_filename) full_hash_filename) (\<lambda>_. ret True)
             else ret False) w
      else ret True w)"

definition recheck_np :: "string \<Rightarrow> string list \<Rightarrow> retval prog \<Rightarrow> unit prog" where
  "recheck_np fullfilename file_hash again =
     seq (filehash fullfilename) (\<lambda>checksum.
     seq (lift (mismatch checksum file_hash)) (\<lambda>bad.
       if bad then
         seq (warn corruption_msg) (\<lambda>_.
         seq again (\<lambda>_. ret ()))
       else ret ()))"

definition download_checked_np ::
  "deps \<Rightarrow> string \<Rightarrow> string \<Rightarrow> string list \<Rightarrow> retval prog \<Rightarrow> retval prog" where
  "download_checked_np E url fullfilename file_hash again =
     seq (urlretrieve E url fullfilename) (\<lambda>_.
     seq (filehash fullfilename) (\<lambda>checksum.
     seq (lift (mismatch checksum file_hash)) (\<lambda>bad.
       if bad then
         seq (warn corruption_msg) (\<lambda>_.
         seq again (\<lambda>_. ret (Path fullfilename)))
       else ret (Path fullfilename))))"

subsection \<open>combined\_spectra\<close>

definition combined_str1 :: "string option \<Rightarrow> string option \<Rightarrow> string" where
  "combined_str1 telescope field =
     ''https://data.sdss.org/sas/dr17/apogee/spectro/aspcap/dr17/synspec/''
       @ fmt telescope @ ''/'' @ fmt field @ ''/''"

definition combined_filename :: "string option \<Rightarrow> string" where
  "combined_filename apogee = ''aspcapStar-dr17-'' @ fmt apogee @ ''.fits''"

definition combined_hash_filename :: "string option \<Rightarrow> string option \<Rightarrow> string" where
  "combined_hash_filename telescope field =
     ''dr17_synspec_'' @ fmt telescope @ ''_'' @ fmt field @ ''.sha1sum''"

definition combined_urlstr :: "string option \<Rightarrow> string option \<Rightarrow> string option \<Rightarrow> string" where
  "combined_urlstr telescope field apogee =
     combined_str1 telescope field @ combined_filename apogee"

definition combined_fullfoldername :: "deps \<Rightarrow> string option \<Rightarrow> string option \<Rightarrow> string" where
  "combined_fullfoldername E telescope field =
     os_path_join ''/''
       [apogee_env E,
        ''dr17/apogee/spectro/aspcap/dr17/synspec/'' @ fmt telescope,
        fmt field]"

definition combined_fullfilename ::
  "deps \<Rightarrow> string option \<Rightarrow> string option \<Rightarrow> string option \<Rightarrow> string" where
  "combined_fullfilename E telescope field apogee =
     os_path_join ''/'' [combined_fullfoldername E telescope field, combined_filename apogee]"

definition combined_full_hash_filename :: "deps \<Rightarrow> string option \<Rightarrow> string option \<Rightarrow> string" where
  "combined_full_hash_filename E telescope field =
     os_path_join ''/''
       [combined_fullfoldername E telescope field, combined_hash_filename telescope field]"

text \<open>
  The recursive call is
  \<^verbatim>\<open>combined_spectra(dr=dr, location=location, apogee=apogee, verbose=verbose, flag=1)\<close>:
  \<^verbatim>\<open>field\<close> and \<^verbatim>\<open>telescope\<close> take their defaults, None.
\<close>

fun combined_spectra ::
  "deps \<Rightarrow> nat \<Rightarrow> int option \<Rightarrow> int option \<Rightarrow> string option \<Rightarrow> string option \<Rightarrow>
   string option \<Rightarrow> int \<Rightarrow> int option \<Rightarrow> retval prog" where
  "combined_spectra E 0 dr location field apogee telescope verbose flag =
     raise_exc RecursionError"
| "combined_spectra E (Suc n) dr location field apogee telescope verbose flag =
     (if apogee_default_dr E dr = 17 then
        seq (ensure_dir (combined_fullfoldername E telescope field)) (\<lambda>_.
        seq (check_hash_file E (combined_str1 telescope field)
               (combined_hash_filename telescope field)
               (combined_full_hash_filename E telescope field)) (\<lambda>proceed.
          if \<not> proceed then ret PyFalse
          else
            seq (loadtxt (combined_full_hash_filename E telescope field)) (\<lambda>tbl.
            seq (lift (combined_file_hash tbl (combined_filename apogee))) (\<lambda>file_hash.
            (\<lambda>w.
               if isfile w (combined_fullfilename E telescope field apogee) \<and> flag = None then
                 seq (recheck_np (combined_fullfilename E telescope field apogee) file_hash
                        (combined_spectra E n (Some 17) location None apogee None verbose
                           (Some 1)))
                     (\<lambda>_. ret (Path (combined_fullfilename E telescope field apogee))) w
               else if \<not> isfile w (combined_fullfilename E telescope field apogee)
                       \<or> flag = Some 1 then
                 except_HTTPError
                   (download_checked_np E (combined_urlstr telescope field apogee)
                      (combined_fullfilename E telescope field apogee) file_hash
                      (combined_spectra E n (Some 17) location None apogee None verbose
                         (Some 1)))
                   (on_http_error E (combined_urlstr telescope field apogee)
                      (combined_fullfilename E telescope field apogee)) w
               else ret (Path (combined_fullfilename E telescope field apogee)) w)))))
      else raise_exc (ValueError ''combined_spectra() only supports APOGEE DR13-DR17''))"

subsection \<open>visit\_spectra\<close>

definition visit_str1 :: "string option \<Rightarrow> string option \<Rightarrow> string" where
  "visit_str1 telescope field =
     ''https://data.sdss.org/sas/dr17/apogee/spectro/redux/dr17/stars/''
       @ fmt telescope @ ''/'' @ fmt field @ ''/''"

definition visit_filename :: "string option \<Rightarrow> bool \<Rightarrow> string option \<Rightarrow> string" where
  "visit_filename telescope commission apogee =
     (if telescope = Some ''lco25m'' then
        (if commission then ''asStarC-dr17-'' @ fmt apogee @ ''.fits''
         else ''asStar-dr17-'' @ fmt apogee @ ''.fits'')
      else
        (if commission then ''apStarC-dr17-'' @ fmt apogee @ ''.fits''
         else ''apStar-dr17-'' @ fmt apogee @ ''.fits''))"

definition visit_urlstr ::
  "string option \<Rightarrow> string option \<Rightarrow> bool \<Rightarrow> string option \<Rightarrow> string" where
  "visit_urlstr telescope field commission apogee =
     visit_str1 telescope field @ visit_filename telescope commission apogee"

definition visit_hash_filename :: "string option \<Rightarrow> string option \<Rightarrow> string" where
  "visit_hash_filename telescope field =
     ''dr17_stars_'' @ fmt telescope @ ''_'' @ fmt field @ ''.sha1sum''"

definition visit_fullfoldername :: "deps \<Rightarrow> string option \<Rightarrow> string option \<Rightarrow> string" where
  "visit_fullfoldername E telescope field =
     os_path_join ''/''
       [apogee_env E,
        ''dr17/apogee/spectro/redux/dr17/stars/'' @ fmt telescope @ ''/'',
        fmt field]"

definition visit_full_hash_filename :: "deps \<Rightarrow> string option \<Rightarrow> string option \<Rightarrow> string" where
  "visit_full_hash_filename E telescope field =
     os_path_join ''/''
       [visit_fullfoldername E telescope field, visit_hash_filename telescope field]"

definition visit_fullfilename ::
  "deps \<Rightarrow> string option \<Rightarrow> string option \<Rightarrow> bool \<Rightarrow> string option \<Rightarrow> string" where
  "visit_fullfilename E telescope field commission apogee =
     os_path_join ''/''
       [visit_fullfoldername E telescope field, visit_filename telescope commission apogee]"

text \<open>
  The recursive call is
  \<^verbatim>\<open>visit_spectra(dr=dr, location=location, apogee=apogee, verbose=verbose, flag=1)\<close>:
  \<^verbatim>\<open>field\<close>, \<^verbatim>\<open>telescope\<close> and \<^verbatim>\<open>commission\<close> take their defaults.
\<close>

fun visit_spectra ::
  "deps \<Rightarrow> nat \<Rightarrow> int option \<Rightarrow> int option \<Rightarrow> string option \<Rightarrow> string option \<Rightarrow>
   string option \<Rightarrow> int \<Rightarrow> int option \<Rightarrow> bool \<Rightarrow> retval prog" where
  "visit_spectra E 0 dr location field apogee telescope verbose flag commission =
     raise_exc RecursionError"
| "visit_spectra E (Suc n) dr location field apogee telescope verbose flag commission =
     (if apogee_default_dr E dr = 17 then
        seq (ensure_dir (visit_fullfoldername E telescope field)) (\<lambda>_.
        seq (check_hash_file E (visit_str1 telescope field)
               (visit_hash_filename telescope field)
               (visit_full_hash_filename E telescope field)) (\<lambda>proceed.
          if \<not> proceed then ret PyFalse
          else
            seq (loadtxt (visit_full_hash_filename E telescope field)) (\<lambda>tbl.
            seq (lift (visit_file_hash tbl apogee)) (\<lambda>file_hash.
            (\<lambda>w.
               if isfile w (visit_fullfilename E telescope field commission apogee)
                  \<and> flag = None then
                 seq (recheck_np (visit_fullfilename E telescope field commission apogee)
                        file_hash
                        (visit_spectra E n (Some 17) location None apogee None verbose
                           (Some 1) False))
                     (\<lambda>_. ret (Path (visit_fullfilename E telescope field commission apogee))) w
               else if \<not> isfile w (visit_fullfilename E telescope field commission apogee)
                       \<or> flag = Some 1 then
                 except_HTTPError
                   (download_checked_np E (visit_urlstr telescope field commission apogee)
                      (visit_fullfilename E telescope field commission apogee) file_hash
                      (visit_spectra E n (Some 17) location None apogee None verbose
                         (Some 1) False))
                   (on_http_error E (visit_urlstr telescope field commission apogee)
                      (visit_fullfilename E telescope field commission apogee)) w
               else ret (Path (visit_fullfilename E telescope field commission apogee)) w)))))
      else raise_exc (ValueError ''visit_spectra() only supports APOGEE DR13-DR17''))"

section \<open>Auxiliary definitions\<close>

subsection \<open>The five catalogue functions, indexed\<close>

datatype catalog = Allstar | ApogeeAstronn | Allvisit | ApogeeRc | ApogeeDistances

fun download_catalog :: "catalog \<Rightarrow> deps \<Rightarrow> nat \<Rightarrow> int option \<Rightarrow> int option \<Rightarrow> retval prog" where
  "download_catalog Allstar = allstar"
| "download_catalog ApogeeAstronn = apogee_astronn"
| "download_catalog Allvisit = allvisit"
| "download_catalog ApogeeRc = apogee_rc"
| "download_catalog ApogeeDistances = apogee_distances"

fun catalog_fullfoldername :: "catalog \<Rightarrow> deps \<Rightarrow> string" where
  "catalog_fullfoldername Allstar = allstar_fullfoldername"
| "catalog_fullfoldername ApogeeAstronn = astronn_fullfoldername"
| "catalog_fullfoldername Allvisit = allvisit_fullfilepath"
| "catalog_fullfoldername ApogeeRc = rc_fullfoldername"
| "catalog_fullfoldername ApogeeDistances = distances_fullfoldername"

fun catalog_fullfilename :: "catalog \<Rightarrow> deps \<Rightarrow> string" where
  "catalog_fullfilename Allstar = allstar_fullfilename"
| "catalog_fullfilename ApogeeAstronn = astronn_fullfilename"
| "catalog_fullfilename Allvisit = allvisit_fullfilename"
| "catalog_fullfilename ApogeeRc = rc_fullfilename"
| "catalog_fullfilename ApogeeDistances = distances_fullfilename"

fun catalog_url :: "catalog \<Rightarrow> string" where
  "catalog_url Allstar = allstar_url"
| "catalog_url ApogeeAstronn = astronn_url"
| "catalog_url Allvisit = allvisit_url"
| "catalog_url ApogeeRc = rc_urlstr"
| "catalog_url ApogeeDistances = distances_urlstr"

fun catalog_file_hash :: "catalog \<Rightarrow> string" where
  "catalog_file_hash Allstar = allstar_file_hash"
| "catalog_file_hash ApogeeAstronn = astronn_file_hash"
| "catalog_file_hash Allvisit = allvisit_file_hash"
| "catalog_file_hash ApogeeRc = rc_file_hash"
| "catalog_file_hash ApogeeDistances = distances_file_hash"

text \<open>
  The state in which a function makes its recursive call after finding the local file
  corrupt: the folder has been created if it was missing, the warning has been emitted.
\<close>

definition recovery_state :: "string \<Rightarrow> world \<Rightarrow> world" where
  "recovery_state folder w = snd (warn corruption_msg (snd (ensure_dir folder w)))"

subsection \<open>The common shape of the functions\<close>

text \<open>
  What each catalogue function puts around its download: nothing in \<^verbatim>\<open>allvisit\<close>, the
  bare handler in \<^verbatim>\<open>apogee_distances\<close>, the handler with the authenticated retry in
  the other three.
\<close>

fun catalog_wrap :: "catalog \<Rightarrow> deps \<Rightarrow> retval prog \<Rightarrow> retval prog" where
  "catalog_wrap Allvisit E m = m"
| "catalog_wrap ApogeeDistances E m =
     except_HTTPError m (\<lambda>emsg. seq (warn (not_found_msg distances_urlstr)) (\<lambda>_. ret PyFalse))"
| "catalog_wrap k E m =
     except_HTTPError m (on_http_error E (catalog_url k) (catalog_fullfilename k E))"

fun catalog_error :: "catalog \<Rightarrow> string" where
  "catalog_error Allstar = ''allstar() only supports APOGEE DR13-DR17''"
| "catalog_error ApogeeAstronn = ''apogee_astroNN() only supports APOGEE DR16-DR17''"
| "catalog_error Allvisit = ''allvisit() only supports APOGEE DR13-DR17''"
| "catalog_error ApogeeRc = ''apogee_rc() only supports APOGEE DR13-DR17''"
| "catalog_error ApogeeDistances = ''apogee_distances() only supports APOGEE DR14-DR17''"

text \<open>
  The body of a catalogue function in \<^verbatim>\<open>if\<close>/\<^verbatim>\<open>elif\<close> form; lemma
  \<open>download_catalog_Suc\<close> shows that each of the five functions is an instance (for the two
  written with separate \<^verbatim>\<open>if\<close> statements because files are never removed).
\<close>

definition elif_body ::
  "deps \<Rightarrow> string \<Rightarrow> string \<Rightarrow> string \<Rightarrow> string \<Rightarrow> int option \<Rightarrow>
   (retval prog \<Rightarrow> retval prog) \<Rightarrow> retval prog \<Rightarrow> retval prog" where
  "elif_body E folder p h url flag wrap again =
     seq (ensure_dir folder) (\<lambda>_.
     (\<lambda>w.
        if isfile w p \<and> flag = None then
          seq (recheck p h again) (\<lambda>_. ret (Path p)) w
        else if \<not> isfile w p \<or> flag = Some 1 then
          wrap (download_checked E url p h again) w
        else ret (Path p) w))"

text \<open>The body of the two spectra functions, which differ in names and in the lookup.\<close>

definition spectra_body ::
  "deps \<Rightarrow> string \<Rightarrow> string \<Rightarrow> string \<Rightarrow> string \<Rightarrow>
   ((string \<times> string) list \<Rightarrow> py_error + string list) \<Rightarrow> string \<Rightarrow> string \<Rightarrow>
   int option \<Rightarrow> retval prog \<Rightarrow> retval prog" where
  "spectra_body E folder str1 hash_filename full_hash_filename lookup p url flag again =
     seq (ensure_dir folder) (\<lambda>_.
     seq (check_hash_file E str1 hash_filename full_hash_filename) (\<lambda>proceed.
       if \<not> proceed then ret PyFalse
       else
         seq (loadtxt full_hash_filename) (\<lambda>tbl.
         seq (lift (lookup tbl)) (\<lambda>file_hash.
         (\<lambda>w.
            if isfile w p \<and> flag = None then
              seq (recheck_np p file_hash again) (\<lambda>_. ret (Path p)) w
            else if \<not> isfile w p \<or> flag = Some 1 then
              except_HTTPError (download_checked_np E url p file_hash again)
                (on_http_error E url p) w
            else ret (Path p) w)))))"

text \<open>The state after a request for \<open>url\<close> has failed, and after it has stored \<open>b\<close> at \<open>p\<close>.\<close>

definition requested :: "string \<Rightarrow> world \<Rightarrow> world" where
  "requested url w = w\<lparr>netlog := netlog w @ [Urlretrieve url]\<rparr>"

definition fetched :: "string \<Rightarrow> string \<Rightarrow> blob \<Rightarrow> world \<Rightarrow> world" where
  "fetched url p b w = w\<lparr>files := (files w)(p \<mapsto> b), netlog := netlog w @ [Urlretrieve url]\<rparr>"

definition opened :: "string \<Rightarrow> world \<Rightarrow> world" where
  "opened url w = w\<lparr>netlog := netlog w @ [Urlopen url]\<rparr>"

subsection \<open>Properties of programs\<close>

text \<open>\<open>keeps R m\<close>: every run of \<open>m\<close> relates the state before to the state after.\<close>

definition keeps :: "(world \<Rightarrow> world \<Rightarrow> bool) \<Rightarrow> 'a prog \<Rightarrow> bool" where
  "keeps R m = (\<forall>w. R w (snd (m w)))"

text \<open>
  \<open>prims_keep R E U\<close>: \<open>R\<close> is a preorder kept by every primitive effect, the network
  requests being those that \<open>U\<close> allows.
\<close>

definition prims_keep :: "(world \<Rightarrow> world \<Rightarrow> bool) \<Rightarrow> deps \<Rightarrow> (netop \<Rightarrow> bool) \<Rightarrow> bool" where
  "prims_keep R E U =
     (reflp R \<and> transp R
      \<and> (\<forall>msg. keeps R (warn msg))
      \<and> (\<forall>d. keeps R (ensure_dir d))
      \<and> keeps R prompt_credentials
      \<and> (\<forall>u. keeps R (install_opener u))
      \<and> keeps R clear_credentials
      \<and> (\<forall>u p. U (Urlretrieve u) \<longrightarrow> keeps R (urlretrieve E u p))
      \<and> (\<forall>u. U (Urlopen u) \<longrightarrow> keeps R (urlopen E u)))"

definition files_grow :: "world \<Rightarrow> world \<Rightarrow> bool" where
  "files_grow w w' = (\<forall>p. files w p \<noteq> None \<longrightarrow> files w' p \<noteq> None)"




subsection \<open>Concrete scenarios\<close>

definition dr_or_17 :: "int option \<Rightarrow> int" where
  "dr_or_17 dr = (case dr of None \<Rightarrow> 17 | Some d \<Rightarrow> d)"

definition world0 :: world where
  "world0 = \<lparr>files = Map.empty, dirs = [], cred_username = None, cred_pw = None,
             opener = None, typed = [], warned = [], netlog = []\<rparr>"

text \<open>A server that answers every request with 404.\<close>

definition srv404 :: deps where
  "srv404 = \<lparr>apogee_env = ''/sas'', apogee_default_dr = dr_or_17,
             remote = (\<lambda>hist c op. HTTPErr ''HTTP Error 404: Not Found'')\<rparr>"

definition world_files :: "(string \<times> blob) list \<Rightarrow> world" where
  "world_files fs = world0\<lparr>files := map_of fs\<rparr>"

definition corrupt_blob :: blob where
  "corrupt_blob = \<lparr>sha1 = ''corrupt'', table = []\<rparr>"

text \<open>A local copy of the allStar file whose checksum is wrong.\<close>

definition world_corrupt_allstar :: world where
  "world_corrupt_allstar = world_files [(allstar_fullfilename srv404, corrupt_blob)]"

text \<open>
  A local manifest of two rows and a local spectrum file whose checksum is not the listed
  one, for \<^verbatim>\<open>combined_spectra\<close> and for \<^verbatim>\<open>visit_spectra\<close>
  (telescope apo25m, field F1, star X).
\<close>

definition combined_manifest :: blob where
  "combined_manifest =
     \<lparr>sha1 = ''m1'', table = [(''aa'', ''aspcapStar-dr17-X.fits''), (''bb'', ''other.fits'')]\<rparr>"

definition world_corrupt_combined :: world where
  "world_corrupt_combined = world_files
     [(combined_full_hash_filename srv404 (Some ''apo25m'') (Some ''F1''), combined_manifest),
      (combined_fullfilename srv404 (Some ''apo25m'') (Some ''F1'') (Some ''X''), corrupt_blob)]"

definition visit_manifest :: blob where
  "visit_manifest =
     \<lparr>sha1 = ''m2'', table = [(''aa'', ''apStar-dr17-X.fits''), (''bb'', ''other.fits'')]\<rparr>"

definition world_corrupt_visit :: world where
  "world_corrupt_visit = world_files
     [(visit_full_hash_filename srv404 (Some ''apo25m'') (Some ''F1''), visit_manifest),
      (visit_fullfilename srv404 (Some ''apo25m'') (Some ''F1'') False (Some ''X''), corrupt_blob)]"

text \<open>A server that answers every request with the same body.\<close>

definition srv_serving :: "blob \<Rightarrow> deps" where
  "srv_serving b = \<lparr>apogee_env = ''/sas'', apogee_default_dr = dr_or_17,
                     remote = (\<lambda>hist c op. Body b)\<rparr>"

definition allstar_blob :: blob where
  "allstar_blob = \<lparr>sha1 = allstar_file_hash, table = []\<rparr>"

text \<open>A server whose first answer is a corrupt body and whose later answers are the allStar file.\<close>

definition srv_corrupt_once :: deps where
  "srv_corrupt_once =
     \<lparr>apogee_env = ''/sas'', apogee_default_dr = dr_or_17,
      remote = (\<lambda>hist c op. if hist = [] then Body corrupt_blob else Body allstar_blob)\<rparr>"

text \<open>A spectrum file whose checksum is the one the manifests above list.\<close>

definition listed_blob :: blob where
  "listed_blob = \<lparr>sha1 = ''aa'', table = []\<rparr>"

definition world_valid_combined_no_manifest :: world where
  "world_valid_combined_no_manifest = world_files
     [(combined_fullfilename srv404 (Some ''apo25m'') (Some ''F1'') (Some ''X''), listed_blob)]"

definition world_valid_allstar :: world where
  "world_valid_allstar = world_files [(allstar_fullfilename srv404, allstar_blob)]"

definition world_valid_combined :: world where
  "world_valid_combined = world_files
     [(combined_full_hash_filename srv404 (Some ''apo25m'') (Some ''F1''), combined_manifest),
      (combined_fullfilename srv404 (Some ''apo25m'') (Some ''F1'') (Some ''X''), listed_blob)]"

definition world_valid_visit :: world where
  "world_valid_visit = world_files
     [(visit_full_hash_filename srv404 (Some ''apo25m'') (Some ''F1''), visit_manifest),
      (visit_fullfilename srv404 (Some ''apo25m'') (Some ''F1'') False (Some ''X''), listed_blob)]"

text \<open>
  As \<open>world_corrupt_combined\<close> and \<open>world_corrupt_visit\<close>, with the manifest of the
  directory of field None, telescope None on disk as well.
\<close>

definition world_refetch_combined :: world where
  "world_refetch_combined = world_files
     [(combined_full_hash_filename srv404 (Some ''apo25m'') (Some ''F1''), combined_manifest),
      (combined_fullfilename srv404 (Some ''apo25m'') (Some ''F1'') (Some ''X''), corrupt_blob),
      (combined_full_hash_filename srv404 None None, combined_manifest)]"

definition world_refetch_visit :: world where
  "world_refetch_visit = world_files
     [(visit_full_hash_filename srv404 (Some ''apo25m'') (Some ''F1''), visit_manifest),
      (visit_fullfilename srv404 (Some ''apo25m'') (Some ''F1'') False (Some ''X''), corrupt_blob),
      (visit_full_hash_filename srv404 None None, visit_manifest)]"

text \<open>
  A star Y that the manifests do not list, with a local file.
\<close>

definition world_unlisted_combined :: world where
  "world_unlisted_combined = world_files
     [(combined_full_hash_filename srv404 (Some ''apo25m'') (Some ''F1''), combined_manifest),
      (combined_fullfilename srv404 (Some ''apo25m'') (Some ''F1'') (Some ''Y''), corrupt_blob)]"

definition world_unlisted_visit :: world where
  "world_unlisted_visit = world_files
     [(visit_full_hash_filename srv404 (Some ''apo25m'') (Some ''F1''), visit_manifest),
      (visit_fullfilename srv404 (Some ''apo25m'') (Some ''F1'') False (Some ''Y''), corrupt_blob)]"

subsection \<open>The shape of a local path\<close>

text \<open>
  \<open>root_prefix E\<close> is what \<^verbatim>\<open>os.path.join(os.sep, apogee_env(), "dr17/...")\<close> puts before
  \<^verbatim>\<open>dr17/...\<close>; \<open>seg x\<close> is a path component followed by its separator.
\<close>

definition root_prefix :: "deps \<Rightarrow> string" where
  "root_prefix E =
     join2 ''/'' (apogee_env E)
       @ (if last (join2 ''/'' (apogee_env E)) = CHR ''/'' then [] else ''/'')"

definition seg :: "string \<Rightarrow> string" where
  "seg x = (if x = [] then [] else x @ ''/'')"

subsection \<open>Scenarios with credentials\<close>

text \<open>A server that answers every request with 401.\<close>

definition srv401 :: deps where
  "srv401 = \<lparr>apogee_env = ''/sas'', apogee_default_dr = dr_or_17,
             remote = (\<lambda>hist c op. HTTPErr ''HTTP Error 401: Unauthorized'')\<rparr>"

definition world_cached :: world where
  "world_cached = world0\<lparr>cred_username := Some ''user'', cred_pw := Some ''secret''\<rparr>"

definition world_typing :: world where
  "world_typing = world0\<lparr>typed := [''user'', ''secret'']\<rparr>"


section \<open>Lemmas\<close>

lemmas prog_defs = ret_def raise_exc_def seq_def except_HTTPError_def lift_def

lemmas disk_defs = isfile_def path_exists_def ensure_dir_def filehash_def loadtxt_def warn_def
  urlopen_def urlretrieve_def

subsection \<open>Substrings\<close>

lemma startswith_length: "startswith s p \<Longrightarrow> length p \<le> length s"
  by (induction s p rule: startswith.induct) auto

lemma str_in_length: "str_in needle hay \<Longrightarrow> length needle \<le> length hay"
  by (induction hay) (auto dest: startswith_length)

lemma apStar_not_in_asStar:
  "\<not> str_in (''apStar-dr17-'' @ a) (''asStar-dr17-'' @ a @ ''.fits'')"
proof -
  have "\<not> str_in (''apStar-dr17-'' @ a) (a @ ''.fits'')"
    using str_in_length by fastforce
  then show ?thesis by simp
qed

lemma apStar_not_in_asStarC:
  "\<not> str_in (''apStar-dr17-'' @ a) (''asStarC-dr17-'' @ a @ ''.fits'')"
proof -
  have "\<not> str_in (''apStar-dr17-'' @ a) (a @ ''.fits'')"
    using str_in_length by fastforce
  then show ?thesis by simp
qed

lemma lco25m_filename_not_matched:
  "\<not> str_in (''apStar-dr17-'' @ fmt apogee) (visit_filename (Some ''lco25m'') commission apogee)"
  using apStar_not_in_asStar [of "fmt apogee"] apStar_not_in_asStarC [of "fmt apogee"]
  by (simp add: visit_filename_def)

lemma argwhere_set: "set (argwhere P xs) = {i. i < length xs \<and> P (xs ! i)}"
  by (auto simp: argwhere_def)

subsection \<open>Relations kept by every run\<close>

lemma keeps_ret: "prims_keep R E U \<Longrightarrow> keeps R (ret x)"
  by (simp add: keeps_def prims_keep_def ret_def reflp_def)

lemma keeps_raise: "prims_keep R E U \<Longrightarrow> keeps R (raise_exc e)"
  by (simp add: keeps_def prims_keep_def raise_exc_def reflp_def)


lemma keeps_filehash: "prims_keep R E U \<Longrightarrow> keeps R (filehash p)"
  by (simp add: keeps_def prims_keep_def filehash_def reflp_def split: option.splits)


lemma keeps_seq:
  assumes "prims_keep R E U" "keeps R m" "\<And>x. keeps R (f x)"
  shows "keeps R (seq m f)"
proof -
  have tr: "\<And>a b c. R a b \<Longrightarrow> R b c \<Longrightarrow> R a c"
    using assms(1) by (auto simp: prims_keep_def transp_def)
  show ?thesis
    unfolding keeps_def
  proof
    fix w
    obtain r w1 where m: "m w = (r, w1)" by (cases "m w")
    have 1: "R w w1" using assms(2) m by (auto simp: keeps_def dest: spec [of _ w])
    show "R w (snd (seq m f w))"
    proof (cases r)
      case (Inl e)
      then show ?thesis using m 1 by (simp add: seq_def)
    next
      case (Inr x)
      have "R w1 (snd (f x w1))" using assms(3) [of x] by (simp add: keeps_def)
      then show ?thesis using Inr m 1 tr by (auto simp: seq_def)
    qed
  qed
qed

lemma keeps_except:
  assumes "prims_keep R E U" "keeps R m" "\<And>e. keeps R (h e)"
  shows "keeps R (except_HTTPError m h)"
proof -
  have tr: "\<And>a b c. R a b \<Longrightarrow> R b c \<Longrightarrow> R a c"
    using assms(1) by (auto simp: prims_keep_def transp_def)
  show ?thesis
    unfolding keeps_def
  proof
    fix w
    obtain r w1 where m: "m w = (r, w1)" by (cases "m w")
    have 1: "R w w1" using assms(2) m by (auto simp: keeps_def dest: spec [of _ w])
    have 2: "\<And>e. R w1 (snd (h e w1))" using assms(3) by (simp add: keeps_def)
    show "R w (snd (except_HTTPError m h w))"
      using m 1 2 tr by (auto simp: except_HTTPError_def split: sum.splits py_error.splits)
  qed
qed

lemma keeps_if:
  "keeps R a \<Longrightarrow> keeps R b \<Longrightarrow> keeps R (\<lambda>w. if c w then a w else b w)"
  by (simp add: keeps_def)


lemma keeps_cond: "(c \<Longrightarrow> keeps R a) \<Longrightarrow> (\<not> c \<Longrightarrow> keeps R b) \<Longrightarrow> keeps R (if c then a else b)"
  by simp

lemma keeps_warn: "prims_keep R E U \<Longrightarrow> keeps R (warn msg)"
  by (simp add: prims_keep_def)

lemma keeps_ensure_dir: "prims_keep R E U \<Longrightarrow> keeps R (ensure_dir d)"
  by (simp add: prims_keep_def)

lemma keeps_urlretrieve: "prims_keep R E U \<Longrightarrow> U (Urlretrieve u) \<Longrightarrow> keeps R (urlretrieve E u p)"
  by (simp add: prims_keep_def)


lemma keeps_prompt: "prims_keep R E U \<Longrightarrow> keeps R prompt_credentials"
  by (simp add: prims_keep_def)

lemma keeps_install: "prims_keep R E U \<Longrightarrow> keeps R (install_opener u)"
  by (simp add: prims_keep_def)

lemma keeps_clear: "prims_keep R E U \<Longrightarrow> keeps R clear_credentials"
  by (simp add: prims_keep_def)

lemma keeps_credentials_downloader:
  assumes "prims_keep R E U" "U (Urlretrieve url)"
  shows "keeps R (apogee_credentials_downloader E url p)"
  unfolding apogee_credentials_downloader_def
  by (intro keeps_seq [OF assms(1)] keeps_except [OF assms(1)] keeps_cond
      keeps_ret [OF assms(1)] keeps_raise [OF assms(1)] keeps_warn [OF assms(1)]
      keeps_ensure_dir [OF assms(1)] keeps_urlretrieve [OF assms] keeps_prompt [OF assms(1)]
      keeps_install [OF assms(1)] keeps_clear [OF assms(1)])

lemma keeps_on_http_error:
  assumes "prims_keep R E U" "U (Urlretrieve url)"
  shows "keeps R (on_http_error E url p emsg)"
  unfolding on_http_error_def
  by (intro keeps_seq [OF assms(1)] keeps_cond keeps_ret [OF assms(1)] keeps_warn [OF assms(1)]
      keeps_credentials_downloader [OF assms])

lemma keeps_recheck:
  assumes "prims_keep R E U" "keeps R again"
  shows "keeps R (recheck p h again)"
  unfolding recheck_def
  by (intro keeps_seq [OF assms(1)] keeps_cond keeps_ret [OF assms(1)] keeps_warn [OF assms(1)]
      keeps_filehash [OF assms(1)] assms(2))

lemma keeps_download_checked:
  assumes "prims_keep R E U" "U (Urlretrieve url)" "keeps R again"
  shows "keeps R (download_checked E url p h again)"
  unfolding download_checked_def
  by (intro keeps_seq [OF assms(1)] keeps_cond keeps_ret [OF assms(1)] keeps_warn [OF assms(1)]
      keeps_filehash [OF assms(1)] keeps_urlretrieve [OF assms(1,2)] assms(3))




lemma keeps_allstar:
  assumes "prims_keep R E U" "U (Urlretrieve allstar_url)"
  shows "keeps R (allstar E n dr flag)"
proof (induction n arbitrary: dr flag)
  case 0
  show ?case by (simp add: keeps_raise [OF assms(1)])
next
  case (Suc n)
  show ?case
    unfolding allstar.simps
    by (intro keeps_seq [OF assms(1)] keeps_cond keeps_if keeps_except [OF assms(1)]
        keeps_ret [OF assms(1)] keeps_raise [OF assms(1)] keeps_ensure_dir [OF assms(1)]
        keeps_recheck [OF assms(1)] keeps_download_checked [OF assms]
        keeps_on_http_error [OF assms] Suc.IH)
qed

lemma keeps_apogee_astronn:
  assumes "prims_keep R E U" "U (Urlretrieve astronn_url)"
  shows "keeps R (apogee_astronn E n dr flag)"
proof (induction n arbitrary: dr flag)
  case 0
  show ?case by (simp add: keeps_raise [OF assms(1)])
next
  case (Suc n)
  show ?case
    unfolding apogee_astronn.simps
    by (intro keeps_seq [OF assms(1)] keeps_cond keeps_if keeps_except [OF assms(1)]
        keeps_ret [OF assms(1)] keeps_raise [OF assms(1)] keeps_ensure_dir [OF assms(1)]
        keeps_recheck [OF assms(1)] keeps_download_checked [OF assms]
        keeps_on_http_error [OF assms] Suc.IH)
qed











subsection \<open>Two relations: files are never removed; requests stay within a set\<close>

lemma prims_keep_files_grow: "prims_keep files_grow E (\<lambda>op. True)"
  unfolding prims_keep_def
  by (auto simp: keeps_def files_grow_def reflp_def transp_def warn_def ensure_dir_def
      prompt_credentials_def install_opener_def clear_credentials_def urlretrieve_def
      urlopen_def Let_def split: list.splits response.splits)


subsection \<open>What a run returns\<close>




















subsection \<open>Every function is an instance of the common shape\<close>

lemma ensure_dir_fields:
  "files (snd (ensure_dir d w)) = files w"
  "netlog (snd (ensure_dir d w)) = netlog w"
  "warned (snd (ensure_dir d w)) = warned w"
  "opener (snd (ensure_dir d w)) = opener w"
  "cred_username (snd (ensure_dir d w)) = cred_username w"
  "cred_pw (snd (ensure_dir d w)) = cred_pw w"
  "typed (snd (ensure_dir d w)) = typed w"
  by (simp_all add: ensure_dir_def)

lemma recovery_state_fields:
  "files (recovery_state d w) = files w"
  "netlog (recovery_state d w) = netlog w"
  "warned (recovery_state d w) = warned w @ [corruption_msg]"
  "opener (recovery_state d w) = opener w"
  "cred_username (recovery_state d w) = cred_username w"
  "cred_pw (recovery_state d w) = cred_pw w"
  "typed (recovery_state d w) = typed w"
  by (simp_all add: recovery_state_def warn_def ensure_dir_def)

lemma files_grow_isfile: "files_grow w w' \<Longrightarrow> isfile w p \<Longrightarrow> isfile w' p"
  by (simp add: files_grow_def isfile_def)

text \<open>
  Two separate \<^verbatim>\<open>if\<close> statements behave as \<^verbatim>\<open>if\<close>/\<^verbatim>\<open>elif\<close>: when the first is
  taken, the file is still there afterwards and \<^verbatim>\<open>flag\<close> is None, so the second is not.
\<close>

lemma two_ifs_elif:
  assumes again: "keeps files_grow again"
  shows
    "seq (ensure_dir folder) (\<lambda>_.
       seq (\<lambda>w. if isfile w p \<and> flag = None then recheck p h again w else ret () w) (\<lambda>_.
       (\<lambda>w. if \<not> isfile w p \<or> flag = Some 1 then
               except_HTTPError (download_checked E url p h again) handler w
             else ret (Path p) w)))
     = elif_body E folder p h url flag (\<lambda>m. except_HTTPError m handler) again"
proof (rule ext)
  fix w
  define w0 where "w0 = snd (ensure_dir folder w)"
  have e: "ensure_dir folder w = (Inr (), w0)"
    by (simp add: w0_def ensure_dir_def)
  show "seq (ensure_dir folder) (\<lambda>_.
       seq (\<lambda>w. if isfile w p \<and> flag = None then recheck p h again w else ret () w) (\<lambda>_.
       (\<lambda>w. if \<not> isfile w p \<or> flag = Some 1 then
               except_HTTPError (download_checked E url p h again) handler w
             else ret (Path p) w))) w
     = elif_body E folder p h url flag (\<lambda>m. except_HTTPError m handler) again w"
  proof (cases "isfile w0 p \<and> flag = None")
    case True
    obtain r w2 where run: "recheck p h again w0 = (r, w2)"
      by (cases "recheck p h again w0")
    have "files_grow w0 w2"
      using keeps_recheck [OF prims_keep_files_grow again, of p h] run
      by (auto simp: keeps_def dest: spec [of _ w0])
    then have "isfile w2 p"
      using True by (auto intro: files_grow_isfile)
    then show ?thesis
      using True e run by (cases r) (simp_all add: elif_body_def seq_def ret_def)
  next
    case False
    then show ?thesis
      using e by (auto simp: elif_body_def seq_def ret_def)
  qed
qed

lemma catalog_wrap_fun:
  "catalog_wrap Allstar E =
     (\<lambda>m. except_HTTPError m (on_http_error E allstar_url (allstar_fullfilename E)))"
  "catalog_wrap ApogeeAstronn E =
     (\<lambda>m. except_HTTPError m (on_http_error E astronn_url (astronn_fullfilename E)))"
  "catalog_wrap ApogeeRc E =
     (\<lambda>m. except_HTTPError m (on_http_error E rc_urlstr (rc_fullfilename E)))"
  "catalog_wrap ApogeeDistances E =
     (\<lambda>m. except_HTTPError m
        (\<lambda>emsg. seq (warn (not_found_msg distances_urlstr)) (\<lambda>_. ret PyFalse)))"
  "catalog_wrap Allvisit E = (\<lambda>m. m)"
  by (rule ext, simp)+

lemma download_catalog_Suc:
  "download_catalog k E (Suc n) dr flag =
     (if apogee_default_dr E dr = 17 then
        elif_body E (catalog_fullfoldername k E) (catalog_fullfilename k E)
          (catalog_file_hash k) (catalog_url k) flag (catalog_wrap k E)
          (download_catalog k E n (Some 17) (Some 1))
      else raise_exc (ValueError (catalog_error k)))"
proof (cases k)
  case Allstar
  show ?thesis
    unfolding Allstar
    using two_ifs_elif [OF keeps_allstar [OF prims_keep_files_grow]]
    by (simp add: catalog_wrap_fun)
next
  case ApogeeAstronn
  show ?thesis
    unfolding ApogeeAstronn
    using two_ifs_elif [OF keeps_apogee_astronn [OF prims_keep_files_grow]]
    by (simp add: catalog_wrap_fun)
next
  case Allvisit
  show ?thesis unfolding Allvisit by (simp add: elif_body_def catalog_wrap_fun)
next
  case ApogeeRc
  show ?thesis unfolding ApogeeRc by (simp add: elif_body_def catalog_wrap_fun)
next
  case ApogeeDistances
  show ?thesis unfolding ApogeeDistances by (simp add: elif_body_def catalog_wrap_fun)
qed

lemma download_catalog_0: "download_catalog k E 0 dr flag = raise_exc RecursionError"
  by (cases k) simp_all

lemma combined_spectra_Suc:
  "combined_spectra E (Suc n) dr location field apogee telescope verbose flag =
     (if apogee_default_dr E dr = 17 then
        spectra_body E (combined_fullfoldername E telescope field)
          (combined_str1 telescope field) (combined_hash_filename telescope field)
          (combined_full_hash_filename E telescope field)
          (\<lambda>tbl. combined_file_hash tbl (combined_filename apogee))
          (combined_fullfilename E telescope field apogee)
          (combined_urlstr telescope field apogee) flag
          (combined_spectra E n (Some 17) location None apogee None verbose (Some 1))
      else raise_exc (ValueError ''combined_spectra() only supports APOGEE DR13-DR17''))"
  by (simp add: spectra_body_def)

lemma visit_spectra_Suc:
  "visit_spectra E (Suc n) dr location field apogee telescope verbose flag commission =
     (if apogee_default_dr E dr = 17 then
        spectra_body E (visit_fullfoldername E telescope field)
          (visit_str1 telescope field) (visit_hash_filename telescope field)
          (visit_full_hash_filename E telescope field)
          (\<lambda>tbl. visit_file_hash tbl apogee)
          (visit_fullfilename E telescope field commission apogee)
          (visit_urlstr telescope field commission apogee) flag
          (visit_spectra E n (Some 17) location None apogee None verbose (Some 1) False)
      else raise_exc (ValueError ''visit_spectra() only supports APOGEE DR13-DR17''))"
  by (simp add: spectra_body_def)

subsection \<open>The download step\<close>

lemma fetched_fields:
  "files (fetched url p b w) = (files w)(p \<mapsto> b)"
  "netlog (fetched url p b w) = netlog w @ [Urlretrieve url]"
  "warned (fetched url p b w) = warned w"
  "opener (fetched url p b w) = opener w"
  "cred_username (fetched url p b w) = cred_username w"
  "cred_pw (fetched url p b w) = cred_pw w"
  "typed (fetched url p b w) = typed w"
  "dirs (fetched url p b w) = dirs w"
  by (simp_all add: fetched_def)

lemma requested_fields:
  "files (requested url w) = files w"
  "netlog (requested url w) = netlog w @ [Urlretrieve url]"
  "warned (requested url w) = warned w"
  "opener (requested url w) = opener w"
  "cred_username (requested url w) = cred_username w"
  "cred_pw (requested url w) = cred_pw w"
  "typed (requested url w) = typed w"
  "dirs (requested url w) = dirs w"
  by (simp_all add: requested_def)

lemma urlretrieve_cases:
  "urlretrieve E url p w =
     (case remote E (netlog w) (opener w) (Urlretrieve url) of
        Body b \<Rightarrow> (Inr (), fetched url p b w)
      | HTTPErr emsg \<Rightarrow> (Inl (HTTPError emsg), requested url w)
      | URLErr emsg \<Rightarrow> (Inl (URLError emsg), requested url w))"
  by (simp add: urlretrieve_def fetched_def requested_def Let_def split: response.splits)

lemma download_checked_cases:
  "download_checked E url p h again w =
     (case remote E (netlog w) (opener w) (Urlretrieve url) of
        Body b \<Rightarrow>
          if sha1 b \<noteq> h then
            (case again (snd (warn corruption_msg (fetched url p b w))) of
               (Inl e, w2) \<Rightarrow> (Inl e, w2)
             | (Inr v, w2) \<Rightarrow> (Inr (Path p), w2))
          else (Inr (Path p), fetched url p b w)
      | HTTPErr emsg \<Rightarrow> (Inl (HTTPError emsg), requested url w)
      | URLErr emsg \<Rightarrow> (Inl (URLError emsg), requested url w))"
  by (simp add: download_checked_def seq_def urlretrieve_cases filehash_def fetched_fields
      warn_def ret_def split: response.splits prod.splits sum.splits)

lemma download_checked_np_cases:
  "download_checked_np E url p fh again w =
     (case remote E (netlog w) (opener w) (Urlretrieve url) of
        Body b \<Rightarrow>
          (case mismatch (sha1 b) fh of
             Inl e \<Rightarrow> (Inl e, fetched url p b w)
           | Inr bad \<Rightarrow>
               if bad then
                 (case again (snd (warn corruption_msg (fetched url p b w))) of
                    (Inl e, w2) \<Rightarrow> (Inl e, w2)
                  | (Inr v, w2) \<Rightarrow> (Inr (Path p), w2))
               else (Inr (Path p), fetched url p b w))
      | HTTPErr emsg \<Rightarrow> (Inl (HTTPError emsg), requested url w)
      | URLErr emsg \<Rightarrow> (Inl (URLError emsg), requested url w))"
  by (simp add: download_checked_np_def seq_def urlretrieve_cases filehash_def fetched_fields
      warn_def ret_def lift_def split: response.splits prod.splits sum.splits)

subsection \<open>The body of a catalogue function, case by case\<close>

lemma elif_body_cases:
  "elif_body E folder p h url flag wrap again w =
     (if isfile w p \<and> flag = None then
        seq (recheck p h again) (\<lambda>_. ret (Path p)) (snd (ensure_dir folder w))
      else if \<not> isfile w p \<or> flag = Some 1 then
        wrap (download_checked E url p h again) (snd (ensure_dir folder w))
      else (Inr (Path p), snd (ensure_dir folder w)))"
  by (simp add: elif_body_def seq_def ensure_dir_def isfile_def ret_def)

lemma elif_body_recover:
  assumes "files w p = Some b" "sha1 b \<noteq> h"
  shows "elif_body E folder p h url None wrap again w =
           (case again (recovery_state folder w) of
              (Inl e, w2) \<Rightarrow> (Inl e, w2)
            | (Inr v, w2) \<Rightarrow> (Inr (Path p), w2))"
  using assms
  by (simp add: elif_body_cases isfile_def recheck_def seq_def filehash_def ensure_dir_fields
      recovery_state_def ret_def warn_def split: prod.splits sum.splits)

lemma elif_body_valid:
  assumes "files w p = Some b" "sha1 b = h"
  shows "elif_body E folder p h url None wrap again w
           = (Inr (Path p), snd (ensure_dir folder w))"
  using assms
  by (simp add: elif_body_cases isfile_def recheck_def seq_def filehash_def ensure_dir_fields
      ret_def)

lemma elif_body_download:
  assumes "flag = Some 1 \<or> files w p = None"
  shows "elif_body E folder p h url flag wrap again w
           = wrap (download_checked E url p h again) (snd (ensure_dir folder w))"
  using assms by (auto simp: elif_body_cases isfile_def)

lemma catalog_wrap_Inr: "m w = (Inr v, w') \<Longrightarrow> catalog_wrap k E m w = (Inr v, w')"
  by (cases k) (simp_all add: except_HTTPError_def)

lemma catalog_wrap_RecursionError:
  "m w = (Inl RecursionError, w') \<Longrightarrow> catalog_wrap k E m w = (Inl RecursionError, w')"
  by (cases k) (simp_all add: except_HTTPError_def)

subsection \<open>A catalogue function on a corrupt, a valid, or no local file\<close>

lemma catalog_recover:
  assumes "apogee_default_dr E dr = 17"
    and "files w (catalog_fullfilename k E) = Some b"
    and "sha1 b \<noteq> catalog_file_hash k"
  shows "download_catalog k E (Suc n) dr None w =
           (case download_catalog k E n (Some 17) (Some 1)
                   (recovery_state (catalog_fullfoldername k E) w) of
              (Inl e, w2) \<Rightarrow> (Inl e, w2)
            | (Inr v, w2) \<Rightarrow> (Inr (Path (catalog_fullfilename k E)), w2))"
  using assms by (simp add: download_catalog_Suc elif_body_recover)

lemma catalog_valid:
  assumes "apogee_default_dr E dr = 17"
    and "files w (catalog_fullfilename k E) = Some b"
    and "sha1 b = catalog_file_hash k"
  shows "download_catalog k E (Suc n) dr None w =
           (Inr (Path (catalog_fullfilename k E)),
            snd (ensure_dir (catalog_fullfoldername k E) w))"
  using assms by (simp add: download_catalog_Suc elif_body_valid)

lemma catalog_fetch_valid:
  assumes "apogee_default_dr E dr = 17"
    and "flag = Some 1 \<or> files w (catalog_fullfilename k E) = None"
    and "remote E (netlog w) (opener w) (Urlretrieve (catalog_url k)) = Body b"
    and "sha1 b = catalog_file_hash k"
  shows "download_catalog k E (Suc n) dr flag w =
           (Inr (Path (catalog_fullfilename k E)),
            fetched (catalog_url k) (catalog_fullfilename k E) b
              (snd (ensure_dir (catalog_fullfoldername k E) w)))"
proof -
  have "download_checked E (catalog_url k) (catalog_fullfilename k E) (catalog_file_hash k)
          (download_catalog k E n (Some 17) (Some 1))
          (snd (ensure_dir (catalog_fullfoldername k E) w))
        = (Inr (Path (catalog_fullfilename k E)),
            fetched (catalog_url k) (catalog_fullfilename k E) b
              (snd (ensure_dir (catalog_fullfoldername k E) w)))"
    using assms(3,4) by (simp add: download_checked_cases ensure_dir_fields)
  then show ?thesis
    using assms(1,2) by (simp add: download_catalog_Suc elif_body_download catalog_wrap_Inr)
qed

subsection \<open>The body of a spectra function, case by case\<close>

lemma opened_fields:
  "files (opened url w) = files w"
  "netlog (opened url w) = netlog w @ [Urlopen url]"
  "warned (opened url w) = warned w"
  "opener (opened url w) = opener w"
  "cred_username (opened url w) = cred_username w"
  "cred_pw (opened url w) = cred_pw w"
  "typed (opened url w) = typed w"
  "dirs (opened url w) = dirs w"
  by (simp_all add: opened_def)

lemma urlopen_cases:
  "urlopen E url w =
     (case remote E (netlog w) (opener w) (Urlopen url) of
        Body b \<Rightarrow> (Inr (), opened url w)
      | HTTPErr emsg \<Rightarrow> (Inl (HTTPError emsg), opened url w)
      | URLErr emsg \<Rightarrow> (Inl (URLError emsg), opened url w))"
  by (simp add: urlopen_def opened_def Let_def split: response.splits)

lemma check_hash_file_cases:
  "check_hash_file E str1 hf fhf w =
     (if isfile w fhf then (Inr True, w)
      else
        (case remote E (netlog w) (opener w) (Urlopen str1) of
           HTTPErr emsg \<Rightarrow> (Inr False, opened str1 w)
         | URLErr emsg \<Rightarrow> (Inl (URLError emsg), opened str1 w)
         | Body x \<Rightarrow>
             (case remote E (netlog w @ [Urlopen str1]) (opener w) (Urlretrieve (str1 @ hf)) of
                Body mb \<Rightarrow> (Inr True, fetched (str1 @ hf) fhf mb (opened str1 w))
              | HTTPErr emsg \<Rightarrow> (Inl (HTTPError emsg), requested (str1 @ hf) (opened str1 w))
              | URLErr emsg \<Rightarrow> (Inl (URLError emsg), requested (str1 @ hf) (opened str1 w)))))"
  by (simp add: check_hash_file_def seq_def except_HTTPError_def urlopen_cases urlretrieve_cases
      opened_fields ret_def split: response.splits)

lemma spectra_body_local:
  assumes "files w fhf = Some mb" "lookup (table mb) = Inr fh"
  shows "spectra_body E folder str1 hf fhf lookup p url flag again w =
     (if isfile w p \<and> flag = None then
        seq (recheck_np p fh again) (\<lambda>_. ret (Path p)) (snd (ensure_dir folder w))
      else if \<not> isfile w p \<or> flag = Some 1 then
        except_HTTPError (download_checked_np E url p fh again) (on_http_error E url p)
          (snd (ensure_dir folder w))
      else (Inr (Path p), snd (ensure_dir folder w)))"
  using assms
  by (simp add: spectra_body_def seq_def ensure_dir_def check_hash_file_cases isfile_def
      loadtxt_def lift_def ret_def)

lemma spectra_body_recover:
  assumes "files w fhf = Some mb" "lookup (table mb) = Inr fh"
    and "files w p = Some b" "mismatch (sha1 b) fh = Inr True"
  shows "spectra_body E folder str1 hf fhf lookup p url None again w =
           (case again (recovery_state folder w) of
              (Inl e, w2) \<Rightarrow> (Inl e, w2)
            | (Inr v, w2) \<Rightarrow> (Inr (Path p), w2))"
  using assms(3,4)
  by (simp add: spectra_body_local [where lookup = lookup, OF assms(1,2)] isfile_def recheck_np_def seq_def
      filehash_def ensure_dir_fields lift_def recovery_state_def ret_def warn_def
      split: prod.splits sum.splits)

lemma spectra_body_valid:
  assumes "files w fhf = Some mb" "lookup (table mb) = Inr fh"
    and "files w p = Some b" "mismatch (sha1 b) fh = Inr False"
  shows "spectra_body E folder str1 hf fhf lookup p url None again w
           = (Inr (Path p), snd (ensure_dir folder w))"
  using assms(3,4)
  by (simp add: spectra_body_local [where lookup = lookup, OF assms(1,2)] isfile_def recheck_np_def seq_def
      filehash_def ensure_dir_fields lift_def ret_def)

lemma spectra_body_download:
  assumes "files w fhf = Some mb" "lookup (table mb) = Inr fh"
    and "flag = Some 1 \<or> files w p = None"
  shows "spectra_body E folder str1 hf fhf lookup p url flag again w =
           except_HTTPError (download_checked_np E url p fh again) (on_http_error E url p)
             (snd (ensure_dir folder w))"
  using assms(3) by (auto simp: spectra_body_local [where lookup = lookup, OF assms(1,2)] isfile_def)

lemma spectra_body_fetch_valid:
  assumes "files w fhf = Some mb" "lookup (table mb) = Inr fh"
    and "flag = Some 1 \<or> files w p = None"
    and "remote E (netlog w) (opener w) (Urlretrieve url) = Body b"
    and "mismatch (sha1 b) fh = Inr False"
  shows "spectra_body E folder str1 hf fhf lookup p url flag again w =
           (Inr (Path p), fetched url p b (snd (ensure_dir folder w)))"
  using assms(4,5)
  by (simp add: spectra_body_download [where lookup = lookup, OF assms(1,2,3)] except_HTTPError_def
      download_checked_np_cases ensure_dir_fields)

subsection \<open>Looking a checksum up\<close>

lemma take_at_argwhere:
  "take_at (map f xs) (argwhere P (map g xs)) = map f (filter (\<lambda>x. P (g x)) xs)"
proof (induction xs rule: rev_induct)
  case Nil
  show ?case by (simp add: take_at_def argwhere_def)
next
  case (snoc x xs)
  have a: "filter (\<lambda>i. P (map g (xs @ [x]) ! i)) [0..<length xs]
             = filter (\<lambda>i. P (map g xs ! i)) [0..<length xs]"
    by (rule filter_cong) (auto simp: nth_append)
  have b: "map (\<lambda>i. map f (xs @ [x]) ! i) (filter (\<lambda>i. P (map g xs ! i)) [0..<length xs])
             = map (\<lambda>i. map f xs ! i) (filter (\<lambda>i. P (map g xs ! i)) [0..<length xs])"
    by (rule map_cong) (auto simp: nth_append)
  show ?case
    using snoc a b by (simp add: take_at_def argwhere_def nth_append)
qed

lemma combined_file_hash_rows:
  assumes "2 \<le> length tbl"
  shows "combined_file_hash tbl filename
           = Inr (map fst (filter (\<lambda>r. snd r = filename) tbl))"
proof -
  obtain r1 r2 rest where "tbl = r1 # r2 # rest"
    using assms by (cases tbl; cases "tl tbl") auto
  then have "combined_file_hash tbl filename =
      Inr (take_at (map fst tbl) (argwhere (\<lambda>item. item = filename) (map snd tbl)))"
    by (simp only: combined_file_hash_def list.case)
  then show ?thesis
    by (simp only: take_at_argwhere)
qed

lemma visit_file_hash_rows:
  assumes "2 \<le> length tbl"
  shows "visit_file_hash tbl apogee
       = Inr (map fst (filter (\<lambda>r. str_in (''apStar-dr17-'' @ fmt apogee) (snd r)) tbl))"
proof -
  obtain r1 r2 rest where "tbl = r1 # r2 # rest"
    using assms by (cases tbl; cases "tl tbl") auto
  then have "visit_file_hash tbl apogee =
      Inr (take_at (map fst tbl)
             (argwhere (\<lambda>item. str_in (''apStar-dr17-'' @ fmt apogee) item) (map snd tbl)))"
    by (simp only: visit_file_hash_def visit_hash_idx_def list.case)
  then show ?thesis
    by (simp only: take_at_argwhere)
qed

lemmas scenario_defs = srv404_def world0_def world_files_def dr_or_17_def corrupt_blob_def
  world_corrupt_allstar_def combined_manifest_def world_corrupt_combined_def
  visit_manifest_def world_corrupt_visit_def
  world_valid_allstar_def world_valid_combined_def world_valid_visit_def
  world_refetch_combined_def world_refetch_visit_def world_unlisted_combined_def
  world_unlisted_visit_def

lemmas name_defs = os_path_join_def join2_def fmt_def
  allstar_fullfoldername_def allstar_fullfilename_def allstar_filename_def allstar_url_def
  allstar_file_hash_def
  combined_str1_def combined_filename_def combined_hash_filename_def combined_urlstr_def
  combined_fullfoldername_def combined_fullfilename_def combined_full_hash_filename_def
  visit_str1_def visit_filename_def visit_hash_filename_def visit_urlstr_def
  visit_fullfoldername_def visit_fullfilename_def visit_full_hash_filename_def

lemmas run_defs = prog_defs disk_defs recheck_def download_checked_def recheck_np_def
  download_checked_np_def check_hash_file_def on_http_error_def mismatch_def
  combined_file_hash_def visit_file_hash_def visit_hash_idx_def argwhere_def take_at_def
  recovery_state_def

subsection \<open>A spectra function on a corrupt local file\<close>

lemma combined_recover:
  assumes "apogee_default_dr E dr = 17"
    and "files w (combined_full_hash_filename E telescope field) = Some mb"
    and "combined_file_hash (table mb) (combined_filename apogee) = Inr fh"
    and "files w (combined_fullfilename E telescope field apogee) = Some b"
    and "mismatch (sha1 b) fh = Inr True"
  shows "combined_spectra E (Suc n) dr location field apogee telescope verbose None w =
           (case combined_spectra E n (Some 17) location None apogee None verbose (Some 1)
                   (recovery_state (combined_fullfoldername E telescope field) w) of
              (Inl e, w2) \<Rightarrow> (Inl e, w2)
            | (Inr v, w2) \<Rightarrow> (Inr (Path (combined_fullfilename E telescope field apogee)), w2))"
  using assms(1)
    spectra_body_recover [where lookup = "\<lambda>tbl. combined_file_hash tbl (combined_filename apogee)",
      OF assms(2,3,4,5)]
  by (simp add: combined_spectra_Suc del: combined_spectra.simps)

lemma visit_recover:
  assumes "apogee_default_dr E dr = 17"
    and "files w (visit_full_hash_filename E telescope field) = Some mb"
    and "visit_file_hash (table mb) apogee = Inr fh"
    and "files w (visit_fullfilename E telescope field commission apogee) = Some b"
    and "mismatch (sha1 b) fh = Inr True"
  shows "visit_spectra E (Suc n) dr location field apogee telescope verbose None commission w =
           (case visit_spectra E n (Some 17) location None apogee None verbose (Some 1) False
                   (recovery_state (visit_fullfoldername E telescope field) w) of
              (Inl e, w2) \<Rightarrow> (Inl e, w2)
            | (Inr v, w2) \<Rightarrow>
                (Inr (Path (visit_fullfilename E telescope field commission apogee)), w2))"
  using assms(1)
    spectra_body_recover [where lookup = "\<lambda>tbl. visit_file_hash tbl apogee",
      OF assms(2,3,4,5)]
  by (simp add: visit_spectra_Suc del: visit_spectra.simps)

lemma fst_pair: "fst x = a \<Longrightarrow> x = (a, snd x)"
  by (cases x) simp

lemmas scenario2_defs = srv_serving_def allstar_blob_def srv_corrupt_once_def listed_blob_def
  world_valid_combined_no_manifest_def

subsection \<open>A valid local file, a fresh download\<close>

lemma ensure_dir_recovery_state:
  "snd (ensure_dir folder (recovery_state folder w)) = recovery_state folder w"
  by (simp add: ensure_dir_def recovery_state_def warn_def path_exists_def)

lemma catalog_refetch_valid:
  assumes "apogee_default_dr E dr = 17" "apogee_default_dr E (Some 17) = 17"
    and "files w (catalog_fullfilename k E) = Some b"
    and "sha1 b \<noteq> catalog_file_hash k"
    and "remote E (netlog w) (opener w) (Urlretrieve (catalog_url k)) = Body b'"
    and "sha1 b' = catalog_file_hash k"
  shows "download_catalog k E (Suc (Suc n)) dr None w =
           (Inr (Path (catalog_fullfilename k E)),
            fetched (catalog_url k) (catalog_fullfilename k E) b'
              (recovery_state (catalog_fullfoldername k E) w))"
proof -
  let ?w1 = "recovery_state (catalog_fullfoldername k E) w"
  have "download_catalog k E (Suc n) (Some 17) (Some 1) ?w1 =
          (Inr (Path (catalog_fullfilename k E)),
           fetched (catalog_url k) (catalog_fullfilename k E) b'
             (snd (ensure_dir (catalog_fullfoldername k E) ?w1)))"
    using assms(2,5,6)
    by (intro catalog_fetch_valid) (simp_all add: recovery_state_fields)
  then show ?thesis
    using catalog_recover [OF assms(1,3,4), of "Suc n"]
    by (simp add: ensure_dir_recovery_state)
qed

lemma mismatch_same: "mismatch c [c] = Inr False"
  by (simp add: mismatch_def)

lemma combined_valid:
  assumes "apogee_default_dr E dr = 17"
    and "files w (combined_full_hash_filename E telescope field) = Some mb"
    and "combined_file_hash (table mb) (combined_filename apogee) = Inr fh"
    and "files w (combined_fullfilename E telescope field apogee) = Some b"
    and "mismatch (sha1 b) fh = Inr False"
  shows "combined_spectra E (Suc n) dr location field apogee telescope verbose None w =
           (Inr (Path (combined_fullfilename E telescope field apogee)),
            snd (ensure_dir (combined_fullfoldername E telescope field) w))"
  using assms(1)
    spectra_body_valid [where lookup = "\<lambda>tbl. combined_file_hash tbl (combined_filename apogee)",
      OF assms(2,3,4,5)]
  by (simp add: combined_spectra_Suc del: combined_spectra.simps)

lemma visit_valid:
  assumes "apogee_default_dr E dr = 17"
    and "files w (visit_full_hash_filename E telescope field) = Some mb"
    and "visit_file_hash (table mb) apogee = Inr fh"
    and "files w (visit_fullfilename E telescope field commission apogee) = Some b"
    and "mismatch (sha1 b) fh = Inr False"
  shows "visit_spectra E (Suc n) dr location field apogee telescope verbose None commission w =
           (Inr (Path (visit_fullfilename E telescope field commission apogee)),
            snd (ensure_dir (visit_fullfoldername E telescope field) w))"
  using assms(1)
    spectra_body_valid [where lookup = "\<lambda>tbl. visit_file_hash tbl apogee",
      OF assms(2,3,4,5)]
  by (simp add: visit_spectra_Suc del: visit_spectra.simps)

lemma combined_fetch_valid:
  assumes "apogee_default_dr E dr = 17"
    and "files w (combined_full_hash_filename E telescope field) = Some mb"
    and "combined_file_hash (table mb) (combined_filename apogee) = Inr fh"
    and "flag = Some 1 \<or> files w (combined_fullfilename E telescope field apogee) = None"
    and "remote E (netlog w) (opener w) (Urlretrieve (combined_urlstr telescope field apogee))
           = Body b"
    and "mismatch (sha1 b) fh = Inr False"
  shows "combined_spectra E (Suc n) dr location field apogee telescope verbose flag w =
           (Inr (Path (combined_fullfilename E telescope field apogee)),
            fetched (combined_urlstr telescope field apogee)
              (combined_fullfilename E telescope field apogee) b
              (snd (ensure_dir (combined_fullfoldername E telescope field) w)))"
  using assms(1)
    spectra_body_fetch_valid
      [where lookup = "\<lambda>tbl. combined_file_hash tbl (combined_filename apogee)",
       OF assms(2,3,4,5,6)]
  by (simp add: combined_spectra_Suc del: combined_spectra.simps)

lemma visit_fetch_valid:
  assumes "apogee_default_dr E dr = 17"
    and "files w (visit_full_hash_filename E telescope field) = Some mb"
    and "visit_file_hash (table mb) apogee = Inr fh"
    and "flag = Some 1 \<or> files w (visit_fullfilename E telescope field commission apogee) = None"
    and "remote E (netlog w) (opener w)
           (Urlretrieve (visit_urlstr telescope field commission apogee)) = Body b"
    and "mismatch (sha1 b) fh = Inr False"
  shows "visit_spectra E (Suc n) dr location field apogee telescope verbose flag commission w =
           (Inr (Path (visit_fullfilename E telescope field commission apogee)),
            fetched (visit_urlstr telescope field commission apogee)
              (visit_fullfilename E telescope field commission apogee) b
              (snd (ensure_dir (visit_fullfoldername E telescope field) w)))"
  using assms(1)
    spectra_body_fetch_valid [where lookup = "\<lambda>tbl. visit_file_hash tbl apogee",
       OF assms(2,3,4,5,6)]
  by (simp add: visit_spectra_Suc del: visit_spectra.simps)

text \<open>The re-fetch of a spectra function addresses the directory of field None, telescope None.\<close>

lemma combined_refetch_valid:
  assumes "apogee_default_dr E dr = 17" "apogee_default_dr E (Some 17) = 17"
    and "files w (combined_full_hash_filename E telescope field) = Some mb"
    and "combined_file_hash (table mb) (combined_filename apogee) = Inr fh"
    and "files w (combined_fullfilename E telescope field apogee) = Some b"
    and "mismatch (sha1 b) fh = Inr True"
    and "files w (combined_full_hash_filename E None None) = Some mb'"
    and "combined_file_hash (table mb') (combined_filename apogee) = Inr fh'"
    and "remote E (netlog w) (opener w) (Urlretrieve (combined_urlstr None None apogee))
           = Body b'"
    and "mismatch (sha1 b') fh' = Inr False"
  shows "combined_spectra E (Suc (Suc n)) dr location field apogee telescope verbose None w =
           (Inr (Path (combined_fullfilename E telescope field apogee)),
            fetched (combined_urlstr None None apogee)
              (combined_fullfilename E None None apogee) b'
              (snd (ensure_dir (combined_fullfoldername E None None)
                 (recovery_state (combined_fullfoldername E telescope field) w))))"
proof -
  let ?w1 = "recovery_state (combined_fullfoldername E telescope field) w"
  have "combined_spectra E (Suc n) (Some 17) location None apogee None verbose (Some 1) ?w1 =
          (Inr (Path (combined_fullfilename E None None apogee)),
           fetched (combined_urlstr None None apogee)
             (combined_fullfilename E None None apogee) b'
             (snd (ensure_dir (combined_fullfoldername E None None) ?w1)))"
    using assms(2,7,8,9,10)
    by (intro combined_fetch_valid [where mb = mb' and fh = fh'])
      (simp_all add: recovery_state_fields)
  then show ?thesis
    using combined_recover [OF assms(1,3,4,5,6), of "Suc n" location verbose]
    by simp
qed

lemma visit_refetch_valid:
  assumes "apogee_default_dr E dr = 17" "apogee_default_dr E (Some 17) = 17"
    and "files w (visit_full_hash_filename E telescope field) = Some mb"
    and "visit_file_hash (table mb) apogee = Inr fh"
    and "files w (visit_fullfilename E telescope field commission apogee) = Some b"
    and "mismatch (sha1 b) fh = Inr True"
    and "files w (visit_full_hash_filename E None None) = Some mb'"
    and "visit_file_hash (table mb') apogee = Inr fh'"
    and "remote E (netlog w) (opener w) (Urlretrieve (visit_urlstr None None False apogee))
           = Body b'"
    and "mismatch (sha1 b') fh' = Inr False"
  shows "visit_spectra E (Suc (Suc n)) dr location field apogee telescope verbose None
           commission w =
           (Inr (Path (visit_fullfilename E telescope field commission apogee)),
            fetched (visit_urlstr None None False apogee)
              (visit_fullfilename E None None False apogee) b'
              (snd (ensure_dir (visit_fullfoldername E None None)
                 (recovery_state (visit_fullfoldername E telescope field) w))))"
proof -
  let ?w1 = "recovery_state (visit_fullfoldername E telescope field) w"
  have "visit_spectra E (Suc n) (Some 17) location None apogee None verbose (Some 1) False ?w1 =
          (Inr (Path (visit_fullfilename E None None False apogee)),
           fetched (visit_urlstr None None False apogee)
             (visit_fullfilename E None None False apogee) b'
             (snd (ensure_dir (visit_fullfoldername E None None) ?w1)))"
    using assms(2,7,8,9,10)
    by (intro visit_fetch_valid [where mb = mb' and fh = fh'])
      (simp_all add: recovery_state_fields)
  then show ?thesis
    using visit_recover [OF assms(1,3,4,5,6), of "Suc n" location verbose]
    by simp
qed

subsection \<open>Reading a run off an equation\<close>

lemma observed:
  assumes "r = (x, s) \<and> netlog (snd r) = l \<and> files (snd r) = f" "l = l'"
  shows "netlog (snd r) = l' \<and> fst r = x"
  using assms by auto

subsection \<open>Paths and URLs as strings\<close>

lemma slash_split:
  assumes "CHR ''/'' \<notin> set t" "CHR ''/'' \<notin> set t'" "t @ CHR ''/'' # r = t' @ CHR ''/'' # r'"
  shows "t = t' \<and> r = r'"
  using assms
proof (induction t arbitrary: t')
  case Nil
  then show ?case by (cases t') auto
next
  case (Cons c t)
  then show ?case by (cases t') auto
qed

lemma not_startswith_slash: "CHR ''/'' \<notin> set b \<Longrightarrow> \<not> startswith b ''/''"
  by (cases b) auto

lemma startswith_slash_iff: "startswith b ''/'' \<longleftrightarrow> (\<exists>r. b = CHR ''/'' # r)"
  by (cases b) auto

lemma join2_relative:
  "\<not> startswith b ''/'' \<Longrightarrow>
     join2 p b = p @ (if p = [] \<or> last p = CHR ''/'' then [] else ''/'') @ b"
  by (simp add: join2_def)

lemma join2_root_absolute: "startswith (join2 ''/'' e) ''/''"
  by (cases e) (auto simp: join2_def)

lemma join2_absolute: "startswith p ''/'' \<Longrightarrow> startswith (join2 p b) ''/''"
  by (cases p) (auto simp: join2_def)

lemma join2_root_id: "startswith p ''/'' \<Longrightarrow> join2 ''/'' p = p"
  by (simp add: join2_def)

lemma join2_root_nonempty: "join2 ''/'' e \<noteq> []"
  using join2_root_absolute [of e] by (auto simp: startswith_slash_iff)

lemma None_None_split:
  "t @ ''/'' @ f @ ''/'' = ''None/None/'' \<longleftrightarrow> t = ''None'' \<and> f = ''None''"
  by (auto simp: append_eq_Cons_conv)

lemma join2_join2_shape:
  assumes "X \<noteq> []" "CHR ''/'' \<notin> set f" "\<not> startswith fn ''/''"
  shows "join2 (join2 X f) fn
           = X @ (if last X = CHR ''/'' then [] else ''/'') @ seg f @ fn"
proof -
  have rel: "\<not> startswith f ''/''"
    using assms(2) by (rule not_startswith_slash)
  define Y where "Y = X @ (if last X = CHR ''/'' then [] else ''/'') @ f"
  have 1: "join2 X f = Y"
    using assms(1) by (simp add: join2_relative [OF rel] Y_def)
  have Y: "Y \<noteq> []"
    using assms(1) by (simp add: Y_def)
  have last_Y: "last Y = CHR ''/'' \<longleftrightarrow> f = []"
    using assms(1,2) by (cases f rule: rev_cases) (auto simp: Y_def)
  have "join2 Y fn = Y @ (if f = [] then [] else ''/'') @ fn"
    using Y last_Y by (simp add: join2_relative [OF assms(3)])
  then show ?thesis
    unfolding 1 by (simp add: Y_def seg_def)
qed


lemma root_join:
  "\<not> startswith b ''/'' \<Longrightarrow> join2 (join2 ''/'' (apogee_env E)) b = root_prefix E @ b"
  using join2_root_nonempty [of "apogee_env E"]
  by (simp add: join2_relative root_prefix_def)

lemma root_prefix_nonempty: "root_prefix E \<noteq> []"
  using join2_root_nonempty [of "apogee_env E"] by (simp add: root_prefix_def)

lemma root_prefix_absolute: "startswith (root_prefix E @ b) ''/''"
  using join2_root_absolute [of "apogee_env E"]
  by (auto simp: root_prefix_def startswith_slash_iff)

lemma combined_filename_relative: "\<not> startswith (combined_filename apogee) ''/''"
  by (simp add: combined_filename_def)

lemma visit_filename_relative:
  "\<not> startswith (visit_filename telescope commission apogee) ''/''"
  by (simp add: visit_filename_def)

lemma combined_fullfilename_shape:
  assumes "CHR ''/'' \<notin> set (fmt telescope)" "CHR ''/'' \<notin> set (fmt field)"
  shows "combined_fullfilename E telescope field apogee =
           root_prefix E @ ''dr17/apogee/spectro/aspcap/dr17/synspec/''
             @ seg (fmt telescope) @ seg (fmt field) @ combined_filename apogee"
proof -
  define X where
    "X = root_prefix E @ ''dr17/apogee/spectro/aspcap/dr17/synspec/'' @ fmt telescope"
  have X: "join2 (join2 ''/'' (apogee_env E))
             (''dr17/apogee/spectro/aspcap/dr17/synspec/'' @ fmt telescope) = X"
    by (simp add: root_join X_def)
  have ne: "X \<noteq> []"
    by (simp add: X_def)
  have folder: "combined_fullfoldername E telescope field = join2 X (fmt field)"
    by (simp only: combined_fullfoldername_def os_path_join_def foldl.simps X)
  have "startswith X ''/''"
    using root_prefix_absolute [of E] by (simp add: X_def)
  then have "startswith (join2 X (fmt field)) ''/''"
    by (rule join2_absolute)
  then have "combined_fullfilename E telescope field apogee
               = join2 (join2 X (fmt field)) (combined_filename apogee)"
    by (simp only: combined_fullfilename_def os_path_join_def foldl.simps folder join2_root_id)
  also have "\<dots> = X @ (if last X = CHR ''/'' then [] else ''/'') @ seg (fmt field)
                      @ combined_filename apogee"
    by (rule join2_join2_shape [OF ne assms(2) combined_filename_relative])
  finally have "combined_fullfilename E telescope field apogee
                  = (X @ (if last X = CHR ''/'' then [] else ''/'')) @ seg (fmt field)
                      @ combined_filename apogee"
    by simp
  moreover have "last X = CHR ''/'' \<longleftrightarrow> fmt telescope = []"
    using assms(1) by (cases "fmt telescope" rule: rev_cases) (auto simp: X_def)
  then have "X @ (if last X = CHR ''/'' then [] else ''/'')
               = root_prefix E @ ''dr17/apogee/spectro/aspcap/dr17/synspec/''
                   @ seg (fmt telescope)"
    by (simp add: X_def seg_def)
  ultimately show ?thesis
    by (simp only: append_assoc)
qed

lemma visit_fullfilename_shape:
  assumes "CHR ''/'' \<notin> set (fmt telescope)" "CHR ''/'' \<notin> set (fmt field)"
  shows "visit_fullfilename E telescope field commission apogee =
           root_prefix E @ ''dr17/apogee/spectro/redux/dr17/stars/''
             @ fmt telescope @ ''/'' @ seg (fmt field)
             @ visit_filename telescope commission apogee"
proof -
  define X where
    "X = root_prefix E @ ''dr17/apogee/spectro/redux/dr17/stars/'' @ fmt telescope @ ''/''"
  have X: "join2 (join2 ''/'' (apogee_env E))
             (''dr17/apogee/spectro/redux/dr17/stars/'' @ fmt telescope @ ''/'') = X"
    by (simp add: root_join X_def)
  have ne: "X \<noteq> []"
    by (simp add: X_def)
  have folder: "visit_fullfoldername E telescope field = join2 X (fmt field)"
    by (simp only: visit_fullfoldername_def os_path_join_def foldl.simps X)
  have "startswith X ''/''"
    using root_prefix_absolute [of E] by (simp add: X_def)
  then have "startswith (join2 X (fmt field)) ''/''"
    by (rule join2_absolute)
  then have "visit_fullfilename E telescope field commission apogee
               = join2 (join2 X (fmt field)) (visit_filename telescope commission apogee)"
    by (simp only: visit_fullfilename_def os_path_join_def foldl.simps folder join2_root_id)
  also have "\<dots> = X @ (if last X = CHR ''/'' then [] else ''/'') @ seg (fmt field)
                      @ visit_filename telescope commission apogee"
    by (rule join2_join2_shape [OF ne assms(2) visit_filename_relative])
  finally have "visit_fullfilename E telescope field commission apogee
                  = X @ (if last X = CHR ''/'' then [] else ''/'') @ seg (fmt field)
                      @ visit_filename telescope commission apogee" .
  moreover have "(if last X = CHR ''/'' then [] else ''/'') = []"
    by (simp add: X_def)
  ultimately have "visit_fullfilename E telescope field commission apogee
                  = X @ seg (fmt field) @ visit_filename telescope commission apogee"
    by simp
  then show ?thesis by (simp add: X_def)
qed

subsection \<open>When the re-fetch addresses the same URL or path\<close>

lemma seg_None: "seg ''None'' = ''None/''"
  by (simp add: seg_def)

lemma seg_seg_None:
  assumes "CHR ''/'' \<notin> set t" "CHR ''/'' \<notin> set f"
  shows "seg t @ seg f = ''None/None/'' \<longleftrightarrow> t = ''None'' \<and> f = ''None''"
proof (cases "t = []")
  case True
  show ?thesis
  proof (cases "f = []")
    case True
    with \<open>t = []\<close> show ?thesis by (simp add: seg_def)
  next
    case False
    have "f @ ''/'' \<noteq> ''None/None/''"
      using slash_split [OF assms(2), of "''None''" "[]" "''None/''"] by auto
    with \<open>t = []\<close> False show ?thesis by (simp add: seg_def)
  qed
next
  case False
  show ?thesis
  proof (cases "f = []")
    case True
    have "t @ ''/'' \<noteq> ''None/None/''"
      using slash_split [OF assms(1), of "''None''" "[]" "''None/''"] by auto
    with \<open>t \<noteq> []\<close> True show ?thesis by (simp add: seg_def)
  next
    case f: False
    have "t @ ''/'' @ f @ ''/'' = ''None/None/'' \<longleftrightarrow> t = ''None'' \<and> f = ''None''"
      by (rule None_None_split)
    with False f show ?thesis by (simp add: seg_def)
  qed
qed

lemma combined_urlstr_same:
  "combined_urlstr telescope field apogee = combined_urlstr None None apogee
     \<longleftrightarrow> fmt telescope = ''None'' \<and> fmt field = ''None''"
proof -
  have "combined_urlstr telescope field apogee = combined_urlstr None None apogee
          \<longleftrightarrow> (fmt telescope @ ''/'' @ fmt field @ ''/'') @ combined_filename apogee
                = ''None/None/'' @ combined_filename apogee"
    by (simp add: combined_urlstr_def combined_str1_def fmt_def)
  also have "\<dots> \<longleftrightarrow> fmt telescope @ ''/'' @ fmt field @ ''/'' = ''None/None/''"
    by (rule append_same_eq)
  finally show ?thesis
    by (simp only: None_None_split)
qed

lemma combined_fullfilename_same:
  assumes "CHR ''/'' \<notin> set (fmt telescope)" "CHR ''/'' \<notin> set (fmt field)"
  shows "combined_fullfilename E telescope field apogee = combined_fullfilename E None None apogee
     \<longleftrightarrow> fmt telescope = ''None'' \<and> fmt field = ''None''"
proof -
  have n: "CHR ''/'' \<notin> set (fmt None)"
    by (simp add: fmt_def)
  have "combined_fullfilename E telescope field apogee = combined_fullfilename E None None apogee
          \<longleftrightarrow> (seg (fmt telescope) @ seg (fmt field)) @ combined_filename apogee
                = ''None/None/'' @ combined_filename apogee"
    by (simp add: combined_fullfilename_shape [OF assms] combined_fullfilename_shape [OF n n]
        seg_None fmt_def [of None])
  also have "\<dots> \<longleftrightarrow> seg (fmt telescope) @ seg (fmt field) = ''None/None/''"
    by (rule append_same_eq)
  finally show ?thesis
    by (simp only: seg_seg_None [OF assms])
qed

lemma visit_filename_split:
  "visit_filename telescope commission apogee
     = (if telescope = Some ''lco25m'' then (if commission then ''asStarC-dr17-'' else ''asStar-dr17-'')
        else (if commission then ''apStarC-dr17-'' else ''apStar-dr17-''))
       @ (fmt apogee @ ''.fits'')"
  by (simp add: visit_filename_def)

lemma visit_urlstr_same:
  "visit_urlstr telescope field commission apogee = visit_urlstr None None False apogee
     \<longleftrightarrow> fmt telescope = ''None'' \<and> fmt field = ''None'' \<and> \<not> commission"
proof -
  define p where "p = (if telescope = Some ''lco25m''
       then (if commission then ''asStarC-dr17-'' else ''asStar-dr17-'')
       else (if commission then ''apStarC-dr17-'' else ''apStar-dr17-''))"
  have "visit_urlstr telescope field commission apogee = visit_urlstr None None False apogee
          \<longleftrightarrow> (fmt telescope @ ''/'' @ fmt field @ ''/'' @ p) @ (fmt apogee @ ''.fits'')
                = ''None/None/apStar-dr17-'' @ (fmt apogee @ ''.fits'')"
    by (simp add: visit_urlstr_def visit_str1_def visit_filename_split p_def fmt_def [of None])
  also have "\<dots> \<longleftrightarrow> fmt telescope @ ''/'' @ fmt field @ ''/'' @ p = ''None/None/apStar-dr17-''"
    by (rule append_same_eq)
  also have "\<dots> \<longleftrightarrow> fmt telescope = ''None'' \<and> fmt field = ''None'' \<and> \<not> commission"
  proof (cases "telescope = Some ''lco25m''")
    case True
    then show ?thesis by (simp add: p_def fmt_def)
  next
    case False
    show ?thesis
    proof (cases commission)
      case True
      with False show ?thesis
        by (auto simp: p_def append_eq_Cons_conv)
    next
      case c: False
      with False show ?thesis
        by (auto simp: p_def append_eq_Cons_conv)
    qed
  qed
  finally show ?thesis .
qed


lemma visit_fullfilename_same:
  assumes "CHR ''/'' \<notin> set (fmt telescope)" "CHR ''/'' \<notin> set (fmt field)"
  shows "visit_fullfilename E telescope field commission apogee
           = visit_fullfilename E None None False apogee
     \<longleftrightarrow> fmt telescope = ''None'' \<and> fmt field = ''None'' \<and> \<not> commission"
proof -
  define p where "p = (if telescope = Some ''lco25m''
       then (if commission then ''asStarC-dr17-'' else ''asStar-dr17-'')
       else (if commission then ''apStarC-dr17-'' else ''apStar-dr17-''))"
  have n: "CHR ''/'' \<notin> set (fmt None)"
    by (simp add: fmt_def)
  have "visit_fullfilename E telescope field commission apogee
           = visit_fullfilename E None None False apogee
          \<longleftrightarrow> (fmt telescope @ ''/'' @ seg (fmt field) @ p) @ (fmt apogee @ ''.fits'')
                = ''None/None/apStar-dr17-'' @ (fmt apogee @ ''.fits'')"
    by (simp add: visit_fullfilename_shape [OF assms] visit_fullfilename_shape [OF n n]
        visit_filename_split p_def seg_None fmt_def [of None])
  also have "\<dots> \<longleftrightarrow> fmt telescope @ ''/'' @ seg (fmt field) @ p = ''None/None/apStar-dr17-''"
    by (rule append_same_eq)
  also have "\<dots> \<longleftrightarrow> fmt telescope = ''None'' \<and> fmt field = ''None'' \<and> \<not> commission"
  proof (cases "telescope = Some ''lco25m''")
    case True
    then show ?thesis by (simp add: p_def fmt_def)
  next
    case False
    show ?thesis
    proof (cases "fmt field = []")
      case True
      with False assms(1) show ?thesis
        by (cases commission) (auto simp: p_def seg_def append_eq_Cons_conv)
    next
      case f: False
      with False show ?thesis
        by (cases commission) (auto simp: p_def seg_def append_eq_Cons_conv)
    qed
  qed
  finally show ?thesis .
qed

subsection \<open>A server that keeps answering 401\<close>

lemmas scenario3_defs = srv401_def world_cached_def world_typing_def

lemma credentials_downloader_401:
  assumes "\<forall>hist c. remote E hist c (Urlretrieve url) = HTTPErr emsg"
    and "str_in ''401'' emsg"
    and "cred_username w \<noteq> None \<or> 2 \<le> length (typed w)"
  shows "fst (apogee_credentials_downloader E url p w)
           = Inl (ConnectionError ''Wrong username or password'')
         \<and> cred_username (snd (apogee_credentials_downloader E url p w)) = None
         \<and> cred_pw (snd (apogee_credentials_downloader E url p w)) = None"
proof (cases "cred_username w = None")
  case True
  then obtain u pw rest where "typed w = u # pw # rest"
    using assms(3) by (cases "typed w"; cases "tl (typed w)") auto
  then show ?thesis
    using True assms(1,2)
    by (simp add: apogee_credentials_downloader_def prompt_credentials_def install_opener_def
        ensure_dir_def clear_credentials_def urlretrieve_cases prog_defs)
next
  case False
  then obtain u where "cred_username w = Some u"
    by auto
  then show ?thesis
    using assms(1,2)
    by (simp add: apogee_credentials_downloader_def prompt_credentials_def install_opener_def
        ensure_dir_def clear_credentials_def urlretrieve_cases prog_defs)
qed

lemma handled_401:
  assumes "\<forall>hist c. remote E hist c (Urlretrieve url) = HTTPErr emsg"
    and "str_in ''401'' emsg"
    and "cred_username w \<noteq> None \<or> 2 \<le> length (typed w)"
    and m: "\<And>w. m w = (Inl (HTTPError emsg), requested url w)"
  shows "fst (except_HTTPError m (on_http_error E url p) (snd (ensure_dir d w)))
           = Inl (ConnectionError ''Wrong username or password'')
         \<and> cred_username (snd (except_HTTPError m (on_http_error E url p)
                                  (snd (ensure_dir d w)))) = None
         \<and> cred_pw (snd (except_HTTPError m (on_http_error E url p)
                            (snd (ensure_dir d w)))) = None"
proof -
  let ?w1 = "requested url (snd (ensure_dir d w))"
  have "except_HTTPError m (on_http_error E url p) (snd (ensure_dir d w))
          = apogee_credentials_downloader E url p ?w1"
    using assms(2) by (simp add: except_HTTPError_def m on_http_error_def)
  moreover have "cred_username ?w1 \<noteq> None \<or> 2 \<le> length (typed ?w1)"
    using assms(3) by (simp add: requested_fields ensure_dir_fields)
  ultimately show ?thesis
    using credentials_downloader_401 [OF assms(1,2), of ?w1 p] by simp
qed

lemma download_checked_HTTPErr:
  assumes "\<forall>hist c. remote E hist c (Urlretrieve url) = HTTPErr emsg"
  shows "download_checked E url p h again w = (Inl (HTTPError emsg), requested url w)"
  using assms by (simp add: download_checked_cases)

lemma download_checked_np_HTTPErr:
  assumes "\<forall>hist c. remote E hist c (Urlretrieve url) = HTTPErr emsg"
  shows "download_checked_np E url p fh again w = (Inl (HTTPError emsg), requested url w)"
  using assms by (simp add: download_checked_np_cases)

lemma catalog_401:
  assumes "k \<in> {Allstar, ApogeeAstronn, ApogeeRc}"
    and "apogee_default_dr E dr = 17"
    and "flag = Some 1 \<or> files w (catalog_fullfilename k E) = None"
    and "\<forall>hist c. remote E hist c (Urlretrieve (catalog_url k)) = HTTPErr emsg"
    and "str_in ''401'' emsg"
    and "cred_username w \<noteq> None \<or> 2 \<le> length (typed w)"
  shows "fst (download_catalog k E (Suc n) dr flag w)
           = Inl (ConnectionError ''Wrong username or password'')
         \<and> cred_username (snd (download_catalog k E (Suc n) dr flag w)) = None
         \<and> cred_pw (snd (download_catalog k E (Suc n) dr flag w)) = None"
proof -
  have wrap: "catalog_wrap k E =
      (\<lambda>m. except_HTTPError m (on_http_error E (catalog_url k) (catalog_fullfilename k E)))"
    using assms(1) by (auto simp: catalog_wrap_fun)
  show ?thesis
    using assms(2,3)
      handled_401 [OF assms(4,5,6) download_checked_HTTPErr [OF assms(4)]]
    by (simp add: download_catalog_Suc elif_body_download wrap)
qed

lemma distances_skips_any_HTTPError:
  assumes "apogee_default_dr E dr = 17"
    and "flag = Some 1 \<or> files w (distances_fullfilename E) = None"
    and "\<forall>hist c. remote E hist c (Urlretrieve distances_urlstr) = HTTPErr emsg"
  shows "fst (apogee_distances E (Suc n) dr flag w) = Inr PyFalse
         \<and> warned (snd (apogee_distances E (Suc n) dr flag w))
             = warned w @ [not_found_msg distances_urlstr]
         \<and> netlog (snd (apogee_distances E (Suc n) dr flag w))
             = netlog w @ [Urlretrieve distances_urlstr]
         \<and> cred_username (snd (apogee_distances E (Suc n) dr flag w)) = cred_username w
         \<and> cred_pw (snd (apogee_distances E (Suc n) dr flag w)) = cred_pw w"
proof -
  have "apogee_distances E (Suc n) dr flag w =
      catalog_wrap ApogeeDistances E
        (download_checked E distances_urlstr (distances_fullfilename E) distances_file_hash
           (apogee_distances E n (Some 17) (Some 1)))
        (snd (ensure_dir (distances_fullfoldername E) w))"
    using assms(1,2) download_catalog_Suc [of ApogeeDistances E n dr flag]
    by (simp add: elif_body_download del: apogee_distances.simps)
  then show ?thesis
    by (simp add: download_checked_HTTPErr [OF assms(3)] except_HTTPError_def seq_def
        warn_def ret_def requested_fields ensure_dir_fields del: apogee_distances.simps)
qed

lemma combined_401:
  assumes "apogee_default_dr E dr = 17"
    and "files w (combined_full_hash_filename E telescope field) = Some mb"
    and "combined_file_hash (table mb) (combined_filename apogee) = Inr fh"
    and "flag = Some 1 \<or> files w (combined_fullfilename E telescope field apogee) = None"
    and "\<forall>hist c. remote E hist c (Urlretrieve (combined_urlstr telescope field apogee))
           = HTTPErr emsg"
    and "str_in ''401'' emsg"
    and "cred_username w \<noteq> None \<or> 2 \<le> length (typed w)"
  shows "fst (combined_spectra E (Suc n) dr location field apogee telescope verbose flag w)
           = Inl (ConnectionError ''Wrong username or password'')
         \<and> cred_username (snd (combined_spectra E (Suc n) dr location field apogee telescope
                                  verbose flag w)) = None
         \<and> cred_pw (snd (combined_spectra E (Suc n) dr location field apogee telescope
                            verbose flag w)) = None"
  using assms(1)
    spectra_body_download
      [where lookup = "\<lambda>tbl. combined_file_hash tbl (combined_filename apogee)",
       OF assms(2,3,4)]
    handled_401 [OF assms(5,6,7) download_checked_np_HTTPErr [OF assms(5)]]
  by (simp add: combined_spectra_Suc del: combined_spectra.simps)

lemma visit_401:
  assumes "apogee_default_dr E dr = 17"
    and "files w (visit_full_hash_filename E telescope field) = Some mb"
    and "visit_file_hash (table mb) apogee = Inr fh"
    and "flag = Some 1 \<or> files w (visit_fullfilename E telescope field commission apogee) = None"
    and "\<forall>hist c. remote E hist c
           (Urlretrieve (visit_urlstr telescope field commission apogee)) = HTTPErr emsg"
    and "str_in ''401'' emsg"
    and "cred_username w \<noteq> None \<or> 2 \<le> length (typed w)"
  shows "fst (visit_spectra E (Suc n) dr location field apogee telescope verbose flag
                commission w)
           = Inl (ConnectionError ''Wrong username or password'')
         \<and> cred_username (snd (visit_spectra E (Suc n) dr location field apogee telescope
                                  verbose flag commission w)) = None
         \<and> cred_pw (snd (visit_spectra E (Suc n) dr location field apogee telescope
                            verbose flag commission w)) = None"
  using assms(1)
    spectra_body_download [where lookup = "\<lambda>tbl. visit_file_hash tbl apogee",
       OF assms(2,3,4)]
    handled_401 [OF assms(5,6,7) download_checked_np_HTTPErr [OF assms(5)]]
  by (simp add: visit_spectra_Suc del: visit_spectra.simps)

subsection \<open>A spectra function whose download is corrupt\<close>

lemma spectra_body_fetch_mismatch:
  assumes "files w fhf = Some mb" "lookup (table mb) = Inr fh"
    and "flag = Some 1 \<or> files w p = None"
    and "remote E (netlog w) (opener w) (Urlretrieve url) = Body b"
    and "mismatch (sha1 b) fh = Inr True"
  shows "spectra_body E folder str1 hf fhf lookup p url flag again w =
           (case again (snd (warn corruption_msg (fetched url p b (snd (ensure_dir folder w))))) of
              (Inl (HTTPError emsg), w2) \<Rightarrow> on_http_error E url p emsg w2
            | (Inl e, w2) \<Rightarrow> (Inl e, w2)
            | (Inr v, w2) \<Rightarrow> (Inr (Path p), w2))"
  using assms(4,5)
  by (simp add: spectra_body_download [where lookup = lookup, OF assms(1,2,3)]
      except_HTTPError_def download_checked_np_cases ensure_dir_fields
      split: prod.splits sum.splits py_error.splits)

lemma combined_fetch_mismatch:
  assumes "apogee_default_dr E dr = 17"
    and "files w (combined_full_hash_filename E telescope field) = Some mb"
    and "combined_file_hash (table mb) (combined_filename apogee) = Inr fh"
    and "flag = Some 1 \<or> files w (combined_fullfilename E telescope field apogee) = None"
    and "remote E (netlog w) (opener w) (Urlretrieve (combined_urlstr telescope field apogee))
           = Body b"
    and "mismatch (sha1 b) fh = Inr True"
  shows "combined_spectra E (Suc n) dr location field apogee telescope verbose flag w =
           (case combined_spectra E n (Some 17) location None apogee None verbose (Some 1)
                   (snd (warn corruption_msg
                      (fetched (combined_urlstr telescope field apogee)
                         (combined_fullfilename E telescope field apogee) b
                         (snd (ensure_dir (combined_fullfoldername E telescope field) w))))) of
              (Inl (HTTPError emsg), w2) \<Rightarrow>
                on_http_error E (combined_urlstr telescope field apogee)
                  (combined_fullfilename E telescope field apogee) emsg w2
            | (Inl e, w2) \<Rightarrow> (Inl e, w2)
            | (Inr v, w2) \<Rightarrow> (Inr (Path (combined_fullfilename E telescope field apogee)), w2))"
  using assms(1)
    spectra_body_fetch_mismatch
      [where lookup = "\<lambda>tbl. combined_file_hash tbl (combined_filename apogee)",
       OF assms(2,3,4,5,6)]
  by (simp add: combined_spectra_Suc del: combined_spectra.simps)

lemma visit_fetch_mismatch:
  assumes "apogee_default_dr E dr = 17"
    and "files w (visit_full_hash_filename E telescope field) = Some mb"
    and "visit_file_hash (table mb) apogee = Inr fh"
    and "flag = Some 1 \<or> files w (visit_fullfilename E telescope field commission apogee) = None"
    and "remote E (netlog w) (opener w)
           (Urlretrieve (visit_urlstr telescope field commission apogee)) = Body b"
    and "mismatch (sha1 b) fh = Inr True"
  shows "visit_spectra E (Suc n) dr location field apogee telescope verbose flag commission w =
           (case visit_spectra E n (Some 17) location None apogee None verbose (Some 1) False
                   (snd (warn corruption_msg
                      (fetched (visit_urlstr telescope field commission apogee)
                         (visit_fullfilename E telescope field commission apogee) b
                         (snd (ensure_dir (visit_fullfoldername E telescope field) w))))) of
              (Inl (HTTPError emsg), w2) \<Rightarrow>
                on_http_error E (visit_urlstr telescope field commission apogee)
                  (visit_fullfilename E telescope field commission apogee) emsg w2
            | (Inl e, w2) \<Rightarrow> (Inl e, w2)
            | (Inr v, w2) \<Rightarrow>
                (Inr (Path (visit_fullfilename E telescope field commission apogee)), w2))"
  using assms(1)
    spectra_body_fetch_mismatch
      [where lookup = "\<lambda>tbl. visit_file_hash tbl apogee",
       OF assms(2,3,4,5,6)]
  by (simp add: visit_spectra_Suc del: visit_spectra.simps)

subsection \<open>Path and URL depend on the descriptor and the environment root only\<close>






subsection \<open>Runs that do not reach the recursion limit\<close>

lemma credentials_downloader_no_overflow:
  "fst (apogee_credentials_downloader E url p w) \<noteq> Inl RecursionError"
  by (simp add: apogee_credentials_downloader_def seq_def prompt_credentials_def
      install_opener_def ensure_dir_def except_HTTPError_def urlretrieve_cases
      clear_credentials_def raise_exc_def warn_def ret_def
      split: list.splits response.splits)

lemma on_http_error_no_overflow:
  "fst (on_http_error E url p emsg w) \<noteq> Inl RecursionError"
  by (simp add: on_http_error_def credentials_downloader_no_overflow seq_def warn_def ret_def)

lemma catalog_wrap_no_overflow:
  "fst (m w) \<noteq> Inl RecursionError \<Longrightarrow> fst (catalog_wrap k E m w) \<noteq> Inl RecursionError"
  by (cases k)
    (auto simp: except_HTTPError_def on_http_error_no_overflow seq_def warn_def ret_def
      split: prod.splits sum.splits py_error.splits)

lemma catalog_wrap_cong: "m w = m' w \<Longrightarrow> catalog_wrap k E m w = catalog_wrap k E m' w"
  by (cases k) (simp_all add: except_HTTPError_def)

lemma download_checked_valid:
  assumes "\<forall>hist c b. remote E hist c (Urlretrieve url) = Body b \<longrightarrow> sha1 b = h"
  shows "download_checked E url p h again w = download_checked E url p h again' w"
    and "fst (download_checked E url p h again w) \<noteq> Inl RecursionError"
  using assms by (auto simp: download_checked_cases split: response.splits)

lemma catalog_download_bounded:
  assumes "\<forall>hist c b. remote E hist c (Urlretrieve (catalog_url k)) = Body b
             \<longrightarrow> sha1 b = catalog_file_hash k"
  shows "download_catalog k E (Suc n) dr (Some 1) w = download_catalog k E (Suc 0) dr (Some 1) w"
    and "fst (download_catalog k E (Suc n) dr (Some 1) w) \<noteq> Inl RecursionError"
proof -
  show "download_catalog k E (Suc n) dr (Some 1) w = download_catalog k E (Suc 0) dr (Some 1) w"
    by (simp add: download_catalog_Suc elif_body_download
        catalog_wrap_cong [OF download_checked_valid(1) [OF assms]])
  show "fst (download_catalog k E (Suc n) dr (Some 1) w) \<noteq> Inl RecursionError"
    by (simp add: download_catalog_Suc elif_body_download raise_exc_def
        catalog_wrap_no_overflow [OF download_checked_valid(2) [OF assms]])
qed

lemma elif_body_no_overflow:
  assumes "\<forall>hist c b. remote E hist c (Urlretrieve url) = Body b \<longrightarrow> sha1 b = h"
    and "\<And>w. fst (again w) \<noteq> Inl RecursionError"
  shows "fst (elif_body E folder p h url flag (catalog_wrap k E) again w) \<noteq> Inl RecursionError"
proof -
  let ?w = "snd (ensure_dir folder w)"
  have 1: "fst (seq (recheck p h again) (\<lambda>_. ret (Path p)) ?w) \<noteq> Inl RecursionError"
    using assms(2) [of "snd (warn corruption_msg ?w)"]
    by (auto simp: recheck_def seq_def filehash_def warn_def ret_def
        split: option.splits prod.splits sum.splits)
  have 2: "fst (catalog_wrap k E (download_checked E url p h again) ?w) \<noteq> Inl RecursionError"
    by (rule catalog_wrap_no_overflow [OF download_checked_valid(2) [OF assms(1)]])
  show ?thesis
    using 1 2 by (simp add: elif_body_cases)
qed

lemma catalog_bounded:
  assumes "\<forall>hist c b. remote E hist c (Urlretrieve (catalog_url k)) = Body b
             \<longrightarrow> sha1 b = catalog_file_hash k"
  shows "download_catalog k E (Suc (Suc n)) dr flag w
           = download_catalog k E (Suc (Suc 0)) dr flag w"
    and "fst (download_catalog k E (Suc (Suc n)) dr flag w) \<noteq> Inl RecursionError"
proof -
  have eq: "download_catalog k E (Suc n) (Some 17) (Some 1)
          = download_catalog k E (Suc 0) (Some 17) (Some 1)"
    by (rule ext) (rule catalog_download_bounded(1) [OF assms])
  show "download_catalog k E (Suc (Suc n)) dr flag w
           = download_catalog k E (Suc (Suc 0)) dr flag w"
    by (simp only: download_catalog_Suc [of k E "Suc n"] download_catalog_Suc [of k E "Suc 0"] eq)
  show "fst (download_catalog k E (Suc (Suc n)) dr flag w) \<noteq> Inl RecursionError"
    using elif_body_no_overflow [OF assms, of "download_catalog k E (Suc n) (Some 17) (Some 1)",
        OF catalog_download_bounded(2) [OF assms]]
    by (simp add: download_catalog_Suc [of k E "Suc n"] raise_exc_def)
qed

subsection \<open>A server whose file is always corrupt\<close>

lemma catalog_unbounded:
  assumes "\<forall>hist c. \<exists>b. remote E hist c (Urlretrieve (catalog_url k)) = Body b
             \<and> sha1 b \<noteq> catalog_file_hash k"
    and "apogee_default_dr E (Some 17) = 17"
  shows "fst (download_catalog k E n (Some 17) (Some 1) w) = Inl RecursionError"
proof (induction n arbitrary: w)
  case 0
  show ?case by (simp add: download_catalog_0 raise_exc_def)
next
  case (Suc n)
  let ?w = "snd (ensure_dir (catalog_fullfoldername k E) w)"
  obtain b where b: "remote E (netlog ?w) (opener ?w) (Urlretrieve (catalog_url k)) = Body b"
    "sha1 b \<noteq> catalog_file_hash k"
    using assms(1) by blast
  let ?w' = "snd (warn corruption_msg
                (fetched (catalog_url k) (catalog_fullfilename k E) b ?w))"
  obtain w2 where rec: "download_catalog k E n (Some 17) (Some 1) ?w' = (Inl RecursionError, w2)"
    using fst_pair [OF Suc.IH [of ?w']] by blast
  have "download_checked E (catalog_url k) (catalog_fullfilename k E) (catalog_file_hash k)
          (download_catalog k E n (Some 17) (Some 1)) ?w
        = (Inl RecursionError, w2)"
    using b rec by (simp add: download_checked_cases)
  then show ?case
    using assms(2)
    by (simp add: download_catalog_Suc elif_body_download catalog_wrap_RecursionError)
qed

subsection \<open>The phases of a spectra function\<close>

lemma spectra_body_phases:
  "spectra_body E folder str1 hf fhf lookup p url flag again w =
     (case check_hash_file E str1 hf fhf (snd (ensure_dir folder w)) of
        (Inl e, w2) \<Rightarrow> (Inl e, w2)
      | (Inr proceed, w2) \<Rightarrow>
          if \<not> proceed then (Inr PyFalse, w2)
          else
            (case files w2 fhf of
               None \<Rightarrow> (Inl FileNotFoundError, w2)
             | Some mb \<Rightarrow>
                 (case lookup (table mb) of
                    Inl e \<Rightarrow> (Inl e, w2)
                  | Inr fh \<Rightarrow>
                      if isfile w2 p \<and> flag = None then
                        seq (recheck_np p fh again) (\<lambda>_. ret (Path p)) w2
                      else if \<not> isfile w2 p \<or> flag = Some 1 then
                        except_HTTPError (download_checked_np E url p fh again)
                          (on_http_error E url p) w2
                      else (Inr (Path p), w2))))"
proof -
  define w1 where "w1 = snd (ensure_dir folder w)"
  have e: "ensure_dir folder w = (Inr (), w1)"
    by (simp add: w1_def ensure_dir_def)
  obtain r w2 where c: "check_hash_file E str1 hf fhf w1 = (r, w2)"
    by (cases "check_hash_file E str1 hf fhf w1")
  have l: "loadtxt fhf w2 = (case files w2 fhf of None \<Rightarrow> (Inl FileNotFoundError, w2)
                             | Some mb \<Rightarrow> (Inr (table mb), w2))"
    by (simp add: loadtxt_def split: option.splits)
  show ?thesis
    unfolding w1_def [symmetric]
    by (cases r; cases "files w2 fhf")
      (auto simp add: spectra_body_def seq_def e c l lift_def ret_def split: sum.splits)
qed

lemma check_hash_file_result:
  assumes "check_hash_file E str1 hf fhf w = (Inr True, w2)"
  shows "files w2 = files w
         \<or> (\<exists>mb. (\<exists>hist c. remote E hist c (Urlretrieve (str1 @ hf)) = Body mb)
                \<and> files w2 = (files w)(fhf \<mapsto> mb))"
proof (cases "isfile w fhf")
  case True
  then show ?thesis using assms by (simp add: check_hash_file_cases)
next
  case False
  then obtain x mb where
    "remote E (netlog w @ [Urlopen str1]) (opener w) (Urlretrieve (str1 @ hf)) = Body mb"
    "w2 = fetched (str1 @ hf) fhf mb (opened str1 w)"
    using assms by (simp add: check_hash_file_cases split: response.splits)
  then have "(\<exists>hist c. remote E hist c (Urlretrieve (str1 @ hf)) = Body mb)
                \<and> files w2 = (files w)(fhf \<mapsto> mb)"
    by (auto simp: fetched_fields opened_fields)
  then show ?thesis by blast
qed

lemma check_hash_file_no_overflow:
  "fst (check_hash_file E str1 hf fhf w) \<noteq> Inl RecursionError"
  by (simp add: check_hash_file_cases split: response.splits)

lemma mismatch_no_overflow: "mismatch c fh \<noteq> Inl RecursionError"
  by (simp add: mismatch_def split: list.splits)

lemma combined_file_hash_no_overflow: "combined_file_hash tbl f \<noteq> Inl RecursionError"
  by (simp add: combined_file_hash_def split: list.splits)

lemma visit_file_hash_no_overflow: "visit_file_hash tbl a \<noteq> Inl RecursionError"
  by (simp add: visit_file_hash_def split: list.splits)

lemma download_checked_np_valid:
  assumes "\<forall>b. (\<exists>hist c. remote E hist c (Urlretrieve url) = Body b)
             \<longrightarrow> mismatch (sha1 b) fh \<noteq> Inr True"
  shows "download_checked_np E url p fh again w = download_checked_np E url p fh again' w"
    and "fst (download_checked_np E url p fh again w) \<noteq> Inl RecursionError"
proof -
  have *: "\<And>b. remote E (netlog w) (opener w) (Urlretrieve url) = Body b
            \<Longrightarrow> mismatch (sha1 b) fh \<noteq> Inr True"
    using assms by blast
  show "download_checked_np E url p fh again w = download_checked_np E url p fh again' w"
    using * by (auto simp: download_checked_np_cases split: response.splits sum.splits)
  show "fst (download_checked_np E url p fh again w) \<noteq> Inl RecursionError"
    using * mismatch_no_overflow [of _ fh]
    by (auto simp: download_checked_np_cases split: response.splits sum.splits)
qed

lemma handled_cong:
  "m w = m' w \<Longrightarrow> except_HTTPError m h w = except_HTTPError m' h w"
  by (simp add: except_HTTPError_def)

lemma handled_no_overflow:
  "fst (m w) \<noteq> Inl RecursionError \<Longrightarrow>
   fst (except_HTTPError m (on_http_error E url p) w) \<noteq> Inl RecursionError"
  by (auto simp: except_HTTPError_def on_http_error_no_overflow
      split: prod.splits sum.splits py_error.splits)

lemma recheck_np_again:
  assumes "again (snd (warn corruption_msg w)) = again' (snd (warn corruption_msg w))"
    and "fst (again (snd (warn corruption_msg w))) \<noteq> Inl RecursionError"
  shows "seq (recheck_np p fh again) (\<lambda>_. ret (Path p)) w
           = seq (recheck_np p fh again') (\<lambda>_. ret (Path p)) w"
    and "fst (seq (recheck_np p fh again) (\<lambda>_. ret (Path p)) w) \<noteq> Inl RecursionError"
proof -
  show "seq (recheck_np p fh again) (\<lambda>_. ret (Path p)) w
           = seq (recheck_np p fh again') (\<lambda>_. ret (Path p)) w"
    using assms(1)
    by (simp add: recheck_np_def seq_def filehash_def lift_def warn_def ret_def
        split: option.splits sum.splits prod.splits)
  show "fst (seq (recheck_np p fh again) (\<lambda>_. ret (Path p)) w) \<noteq> Inl RecursionError"
    using assms(2) mismatch_no_overflow [of _ fh]
    by (auto simp: recheck_np_def seq_def filehash_def lift_def warn_def ret_def
        split: option.splits sum.splits prod.splits)
qed


subsection \<open>Recursion depth of a spectra function whose downloads are valid\<close>

lemma spectra_body_bounded:
  assumes pre: "\<forall>mb fh b.
        (files w fhf = Some mb
         \<or> (\<exists>hist c. remote E hist c (Urlretrieve (str1 @ hf)) = Body mb))
        \<longrightarrow> lookup (table mb) = Inr fh
        \<longrightarrow> (\<exists>hist c. remote E hist c (Urlretrieve url) = Body b)
        \<longrightarrow> mismatch (sha1 b) fh \<noteq> Inr True"
    and nolk: "\<And>tbl. lookup tbl \<noteq> Inl RecursionError"
    and ag: "flag = Some 1
        \<or> (\<forall>w3. (files w3 = files w
                  \<or> (\<exists>mb. (\<exists>hist c. remote E hist c (Urlretrieve (str1 @ hf)) = Body mb)
                         \<and> files w3 = (files w)(fhf \<mapsto> mb)))
                 \<longrightarrow> again w3 = again' w3 \<and> fst (again w3) \<noteq> Inl RecursionError)"
  shows "spectra_body E folder str1 hf fhf lookup p url flag again w
           = spectra_body E folder str1 hf fhf lookup p url flag again' w
         \<and> fst (spectra_body E folder str1 hf fhf lookup p url flag again w)
             \<noteq> Inl RecursionError"
proof -
  define w1 where "w1 = snd (ensure_dir folder w)"
  have f1: "files w1 = files w"
    by (simp add: w1_def ensure_dir_fields)
  obtain r w2 where c: "check_hash_file E str1 hf fhf w1 = (r, w2)"
    by (cases "check_hash_file E str1 hf fhf w1")
  have ph: "\<And>ag. spectra_body E folder str1 hf fhf lookup p url flag ag w =
     (case r of
        Inl e \<Rightarrow> (Inl e, w2)
      | Inr proceed \<Rightarrow>
          if \<not> proceed then (Inr PyFalse, w2)
          else
            (case files w2 fhf of
               None \<Rightarrow> (Inl FileNotFoundError, w2)
             | Some mb \<Rightarrow>
                 (case lookup (table mb) of
                    Inl e \<Rightarrow> (Inl e, w2)
                  | Inr fh \<Rightarrow>
                      if isfile w2 p \<and> flag = None then
                        seq (recheck_np p fh ag) (\<lambda>_. ret (Path p)) w2
                      else if \<not> isfile w2 p \<or> flag = Some 1 then
                        except_HTTPError (download_checked_np E url p fh ag)
                          (on_http_error E url p) w2
                      else (Inr (Path p), w2))))"
    by (simp add: spectra_body_phases w1_def [symmetric] c)
  show ?thesis
  proof (cases r)
    case (Inl e)
    have "e \<noteq> RecursionError"
      using check_hash_file_no_overflow [of E str1 hf fhf w1] c Inl by simp
    then show ?thesis by (simp add: ph Inl)
  next
    case (Inr proceed)
    show ?thesis
    proof (cases proceed)
      case False
      then show ?thesis by (simp add: ph Inr)
    next
      case True
      have F: "files w2 = files w
         \<or> (\<exists>mb. (\<exists>hist c. remote E hist c (Urlretrieve (str1 @ hf)) = Body mb)
                \<and> files w2 = (files w)(fhf \<mapsto> mb))"
        using check_hash_file_result [of E str1 hf fhf w1 w2] c Inr True f1 by simp
      show ?thesis
      proof (cases "files w2 fhf")
        case None
        then show ?thesis by (simp add: ph Inr True)
      next
        case (Some mb)
        have M: "files w fhf = Some mb
                 \<or> (\<exists>hist c. remote E hist c (Urlretrieve (str1 @ hf)) = Body mb)"
          using F Some by auto
        show ?thesis
        proof (cases "lookup (table mb)")
          case (Inl e)
          have "e \<noteq> RecursionError" using nolk [of "table mb"] Inl by simp
          then show ?thesis by (simp add: ph Inr True Some Inl)
        next
          case lk: (Inr fh)
          have V: "\<forall>b. (\<exists>hist c. remote E hist c (Urlretrieve url) = Body b)
                     \<longrightarrow> mismatch (sha1 b) fh \<noteq> Inr True"
            using pre M lk by blast
          consider (loc) "isfile w2 p \<and> flag = None"
            | (dl) "\<not> (isfile w2 p \<and> flag = None)" "\<not> isfile w2 p \<or> flag = Some 1"
            | (other) "\<not> (isfile w2 p \<and> flag = None)" "\<not> (\<not> isfile w2 p \<or> flag = Some 1)"
            by blast
          then show ?thesis
          proof cases
            case loc
            let ?w3 = "snd (warn corruption_msg w2)"
            have "files ?w3 = files w2" by (simp add: warn_def)
            then have "files ?w3 = files w
              \<or> (\<exists>mb. (\<exists>hist c. remote E hist c (Urlretrieve (str1 @ hf)) = Body mb)
                     \<and> files ?w3 = (files w)(fhf \<mapsto> mb))"
              using F by simp
            moreover have "\<forall>w3. (files w3 = files w
                  \<or> (\<exists>mb. (\<exists>hist c. remote E hist c (Urlretrieve (str1 @ hf)) = Body mb)
                         \<and> files w3 = (files w)(fhf \<mapsto> mb)))
                 \<longrightarrow> again w3 = again' w3 \<and> fst (again w3) \<noteq> Inl RecursionError"
            proof -
              have "flag \<noteq> Some 1" using loc by simp
              then show ?thesis using ag by blast
            qed
            ultimately
            have A: "again ?w3 = again' ?w3" and B: "fst (again ?w3) \<noteq> Inl RecursionError"
              by blast+
            have r1: "seq (recheck_np p fh again) (\<lambda>_. ret (Path p)) w2
                      = seq (recheck_np p fh again') (\<lambda>_. ret (Path p)) w2"
              by (rule recheck_np_again(1) [where again = again and again' = again' and w = w2, OF A B])
            have r2: "fst (seq (recheck_np p fh again) (\<lambda>_. ret (Path p)) w2)
                      \<noteq> Inl RecursionError"
              by (rule recheck_np_again(2) [where again = again and again' = again' and w = w2, OF A B])
            show ?thesis
              unfolding ph using r1 r2 loc by (simp add: Inr True Some lk)
          next
            case dl
            show ?thesis
              using handled_cong [where m = "download_checked_np E url p fh again"
                  and m' = "download_checked_np E url p fh again'" and w = w2,
                  OF download_checked_np_valid(1) [OF V]]
                handled_no_overflow [where m = "download_checked_np E url p fh again"
                  and w = w2, OF download_checked_np_valid(2) [OF V]]
              unfolding ph using dl by (auto simp add: Inr True Some lk)
          next
            case other
            then show ?thesis unfolding ph by (auto simp add: Inr True Some lk)
          qed
        qed
      qed
    qed
  qed
qed

lemma spectra_nested_bounded:
  assumes P: "\<forall>mb fh b.
        (files w fhf = Some mb \<or> files w fhfN = Some mb
         \<or> (\<exists>hist c. remote E hist c (Urlretrieve (str1 @ hf)) = Body mb)
         \<or> (\<exists>hist c. remote E hist c (Urlretrieve (str1N @ hfN)) = Body mb))
        \<longrightarrow> lookup (table mb) = Inr fh
        \<longrightarrow> ((\<exists>hist c. remote E hist c (Urlretrieve url) = Body b)
             \<or> (\<exists>hist c. remote E hist c (Urlretrieve urlN) = Body b))
        \<longrightarrow> mismatch (sha1 b) fh \<noteq> Inr True"
    and nolk: "\<And>tbl. lookup tbl \<noteq> Inl RecursionError"
    and inner: "\<And>a. again a =
        (if c then spectra_body E folderN str1N hfN fhfN lookup pN urlN (Some 1) a
         else raise_exc (ValueError m))"
  shows "spectra_body E folder str1 hf fhf lookup p url flag (again a1) w
           = spectra_body E folder str1 hf fhf lookup p url flag (again a2) w
         \<and> fst (spectra_body E folder str1 hf fhf lookup p url flag (again a1) w)
             \<noteq> Inl RecursionError"
proof (rule spectra_body_bounded [OF _ nolk])
  show "\<forall>mb fh b.
        (files w fhf = Some mb
         \<or> (\<exists>hist c. remote E hist c (Urlretrieve (str1 @ hf)) = Body mb))
        \<longrightarrow> lookup (table mb) = Inr fh
        \<longrightarrow> (\<exists>hist c. remote E hist c (Urlretrieve url) = Body b)
        \<longrightarrow> mismatch (sha1 b) fh \<noteq> Inr True"
    using P by blast
next
  have "\<forall>w3. (files w3 = files w
                  \<or> (\<exists>mb. (\<exists>hist c. remote E hist c (Urlretrieve (str1 @ hf)) = Body mb)
                         \<and> files w3 = (files w)(fhf \<mapsto> mb)))
                 \<longrightarrow> again a1 w3 = again a2 w3 \<and> fst (again a1 w3) \<noteq> Inl RecursionError"
  proof (intro allI impI)
    fix w3 :: world
    assume c3: "files w3 = files w
                  \<or> (\<exists>mb. (\<exists>hist c. remote E hist c (Urlretrieve (str1 @ hf)) = Body mb)
                         \<and> files w3 = (files w)(fhf \<mapsto> mb))"
    show "again a1 w3 = again a2 w3 \<and> fst (again a1 w3) \<noteq> Inl RecursionError"
    proof (cases c)
      case False
      then show ?thesis by (simp add: inner raise_exc_def)
    next
      case True
      have M: "\<And>mb. files w3 fhfN = Some mb \<Longrightarrow>
          files w fhf = Some mb \<or> files w fhfN = Some mb
          \<or> (\<exists>hist c. remote E hist c (Urlretrieve (str1 @ hf)) = Body mb)"
        using c3 by (auto split: if_splits)
      have pre3: "\<forall>mb fh b.
        (files w3 fhfN = Some mb
         \<or> (\<exists>hist c. remote E hist c (Urlretrieve (str1N @ hfN)) = Body mb))
        \<longrightarrow> lookup (table mb) = Inr fh
        \<longrightarrow> (\<exists>hist c. remote E hist c (Urlretrieve urlN) = Body b)
        \<longrightarrow> mismatch (sha1 b) fh \<noteq> Inr True"
      proof (intro allI impI)
        fix mb fh b
        assume m: "files w3 fhfN = Some mb
           \<or> (\<exists>hist c. remote E hist c (Urlretrieve (str1N @ hfN)) = Body mb)"
          and l: "lookup (table mb) = Inr fh"
          and s: "\<exists>hist c. remote E hist c (Urlretrieve urlN) = Body b"
        have "files w fhf = Some mb \<or> files w fhfN = Some mb
          \<or> (\<exists>hist c. remote E hist c (Urlretrieve (str1 @ hf)) = Body mb)
          \<or> (\<exists>hist c. remote E hist c (Urlretrieve (str1N @ hfN)) = Body mb)"
          using m M by blast
        then show "mismatch (sha1 b) fh \<noteq> Inr True"
          using P l s by blast
      qed
      have sb: "spectra_body E folderN str1N hfN fhfN lookup pN urlN (Some 1) a1 w3
           = spectra_body E folderN str1N hfN fhfN lookup pN urlN (Some 1) a2 w3
         \<and> fst (spectra_body E folderN str1N hfN fhfN lookup pN urlN (Some 1) a1 w3)
             \<noteq> Inl RecursionError"
        by (rule spectra_body_bounded [OF pre3 nolk]) simp
      have i: "\<And>a. again a w3
                 = spectra_body E folderN str1N hfN fhfN lookup pN urlN (Some 1) a w3"
        by (simp add: inner True)
      show ?thesis unfolding i by (rule sb)
    qed
  qed
  then show "flag = Some 1
        \<or> (\<forall>w3. (files w3 = files w
                  \<or> (\<exists>mb. (\<exists>hist c. remote E hist c (Urlretrieve (str1 @ hf)) = Body mb)
                         \<and> files w3 = (files w)(fhf \<mapsto> mb)))
                 \<longrightarrow> again a1 w3 = again a2 w3 \<and> fst (again a1 w3) \<noteq> Inl RecursionError)"
    by (rule disjI2)
qed

lemma combined_bounded:
  assumes "\<forall>mb fh b.
        (files w (combined_full_hash_filename E telescope field) = Some mb
         \<or> files w (combined_full_hash_filename E None None) = Some mb
         \<or> (\<exists>hist c. remote E hist c
               (Urlretrieve (combined_str1 telescope field
                             @ combined_hash_filename telescope field)) = Body mb)
         \<or> (\<exists>hist c. remote E hist c
               (Urlretrieve (combined_str1 None None @ combined_hash_filename None None))
               = Body mb))
        \<longrightarrow> combined_file_hash (table mb) (combined_filename apogee) = Inr fh
        \<longrightarrow> ((\<exists>hist c. remote E hist c
                 (Urlretrieve (combined_urlstr telescope field apogee)) = Body b)
             \<or> (\<exists>hist c. remote E hist c
                 (Urlretrieve (combined_urlstr None None apogee)) = Body b))
        \<longrightarrow> mismatch (sha1 b) fh \<noteq> Inr True"
  shows "combined_spectra E (Suc (Suc n)) dr location field apogee telescope verbose flag w
           = combined_spectra E (Suc (Suc 0)) dr location field apogee telescope verbose flag w
         \<and> fst (combined_spectra E (Suc (Suc n)) dr location field apogee telescope verbose
                  flag w) \<noteq> Inl RecursionError"
proof -
  define again where "again = (\<lambda>a.
      if apogee_default_dr E (Some 17) = 17 then
        spectra_body E (combined_fullfoldername E None None)
          (combined_str1 None None) (combined_hash_filename None None)
          (combined_full_hash_filename E None None)
          (\<lambda>tbl. combined_file_hash tbl (combined_filename apogee))
          (combined_fullfilename E None None apogee)
          (combined_urlstr None None apogee) (Some 1) a
      else raise_exc (ValueError ''combined_spectra() only supports APOGEE DR13-DR17''))"
  have inner: "\<And>a. again a =
     (if apogee_default_dr E (Some 17) = 17 then
        spectra_body E (combined_fullfoldername E None None)
          (combined_str1 None None) (combined_hash_filename None None)
          (combined_full_hash_filename E None None)
          (\<lambda>tbl. combined_file_hash tbl (combined_filename apogee))
          (combined_fullfilename E None None apogee)
          (combined_urlstr None None apogee) (Some 1) a
      else raise_exc (ValueError ''combined_spectra() only supports APOGEE DR13-DR17''))"
    by (simp add: again_def)
  have ag: "\<And>k. combined_spectra E (Suc k) (Some 17) location None apogee None verbose (Some 1)
              = again (combined_spectra E k (Some 17) location None apogee None verbose (Some 1))"
    by (simp add: again_def combined_spectra_Suc del: combined_spectra.simps)
  have body: "\<And>k. combined_spectra E (Suc (Suc k)) dr location field apogee telescope verbose flag =
     (if apogee_default_dr E dr = 17 then
        spectra_body E (combined_fullfoldername E telescope field)
          (combined_str1 telescope field) (combined_hash_filename telescope field)
          (combined_full_hash_filename E telescope field)
          (\<lambda>tbl. combined_file_hash tbl (combined_filename apogee))
          (combined_fullfilename E telescope field apogee)
          (combined_urlstr telescope field apogee) flag
          (again (combined_spectra E k (Some 17) location None apogee None verbose (Some 1)))
      else raise_exc (ValueError ''combined_spectra() only supports APOGEE DR13-DR17''))"
    by (simp only: combined_spectra_Suc [of E "Suc _"] ag)
  show ?thesis
  proof (cases "apogee_default_dr E dr = 17")
    case False
    then show ?thesis by (simp add: body raise_exc_def del: combined_spectra.simps)
  next
    case True
    have b: "\<And>k. combined_spectra E (Suc (Suc k)) dr location field apogee telescope verbose
                 flag w =
        spectra_body E (combined_fullfoldername E telescope field)
          (combined_str1 telescope field) (combined_hash_filename telescope field)
          (combined_full_hash_filename E telescope field)
          (\<lambda>tbl. combined_file_hash tbl (combined_filename apogee))
          (combined_fullfilename E telescope field apogee)
          (combined_urlstr telescope field apogee) flag
          (again (combined_spectra E k (Some 17) location None apogee None verbose (Some 1)))
          w"
      by (simp add: body True del: combined_spectra.simps)
    show ?thesis
      unfolding b
      by (rule spectra_nested_bounded
        [where lookup = "\<lambda>tbl. combined_file_hash tbl (combined_filename apogee)"
           and again = again, OF assms combined_file_hash_no_overflow inner])
  qed
qed

lemma visit_bounded:
  assumes "\<forall>mb fh b.
        (files w (visit_full_hash_filename E telescope field) = Some mb
         \<or> files w (visit_full_hash_filename E None None) = Some mb
         \<or> (\<exists>hist c. remote E hist c
               (Urlretrieve (visit_str1 telescope field
                             @ visit_hash_filename telescope field)) = Body mb)
         \<or> (\<exists>hist c. remote E hist c
               (Urlretrieve (visit_str1 None None @ visit_hash_filename None None))
               = Body mb))
        \<longrightarrow> visit_file_hash (table mb) apogee = Inr fh
        \<longrightarrow> ((\<exists>hist c. remote E hist c
                 (Urlretrieve (visit_urlstr telescope field commission apogee)) = Body b)
             \<or> (\<exists>hist c. remote E hist c
                 (Urlretrieve (visit_urlstr None None False apogee)) = Body b))
        \<longrightarrow> mismatch (sha1 b) fh \<noteq> Inr True"
  shows "visit_spectra E (Suc (Suc n)) dr location field apogee telescope verbose flag commission w
           = visit_spectra E (Suc (Suc 0)) dr location field apogee telescope verbose flag commission w
         \<and> fst (visit_spectra E (Suc (Suc n)) dr location field apogee telescope verbose
                  flag commission w) \<noteq> Inl RecursionError"
proof -
  define again where "again = (\<lambda>a.
      if apogee_default_dr E (Some 17) = 17 then
        spectra_body E (visit_fullfoldername E None None)
          (visit_str1 None None) (visit_hash_filename None None)
          (visit_full_hash_filename E None None)
          (\<lambda>tbl. visit_file_hash tbl apogee)
          (visit_fullfilename E None None False apogee)
          (visit_urlstr None None False apogee) (Some 1) a
      else raise_exc (ValueError ''visit_spectra() only supports APOGEE DR13-DR17''))"
  have inner: "\<And>a. again a =
     (if apogee_default_dr E (Some 17) = 17 then
        spectra_body E (visit_fullfoldername E None None)
          (visit_str1 None None) (visit_hash_filename None None)
          (visit_full_hash_filename E None None)
          (\<lambda>tbl. visit_file_hash tbl apogee)
          (visit_fullfilename E None None False apogee)
          (visit_urlstr None None False apogee) (Some 1) a
      else raise_exc (ValueError ''visit_spectra() only supports APOGEE DR13-DR17''))"
    by (simp add: again_def)
  have ag: "\<And>k. visit_spectra E (Suc k) (Some 17) location None apogee None verbose (Some 1) False
              = again (visit_spectra E k (Some 17) location None apogee None verbose (Some 1) False)"
    by (simp add: again_def visit_spectra_Suc del: visit_spectra.simps)
  have body: "\<And>k. visit_spectra E (Suc (Suc k)) dr location field apogee telescope verbose flag commission =
     (if apogee_default_dr E dr = 17 then
        spectra_body E (visit_fullfoldername E telescope field)
          (visit_str1 telescope field) (visit_hash_filename telescope field)
          (visit_full_hash_filename E telescope field)
          (\<lambda>tbl. visit_file_hash tbl apogee)
          (visit_fullfilename E telescope field commission apogee)
          (visit_urlstr telescope field commission apogee) flag
          (again (visit_spectra E k (Some 17) location None apogee None verbose (Some 1) False))
      else raise_exc (ValueError ''visit_spectra() only supports APOGEE DR13-DR17''))"
    by (simp only: visit_spectra_Suc [of E "Suc _"] ag)
  show ?thesis
  proof (cases "apogee_default_dr E dr = 17")
    case False
    then show ?thesis by (simp add: body raise_exc_def del: visit_spectra.simps)
  next
    case True
    have b: "\<And>k. visit_spectra E (Suc (Suc k)) dr location field apogee telescope verbose
                 flag commission w =
        spectra_body E (visit_fullfoldername E telescope field)
          (visit_str1 telescope field) (visit_hash_filename telescope field)
          (visit_full_hash_filename E telescope field)
          (\<lambda>tbl. visit_file_hash tbl apogee)
          (visit_fullfilename E telescope field commission apogee)
          (visit_urlstr telescope field commission apogee) flag
          (again (visit_spectra E k (Some 17) location None apogee None verbose (Some 1) False))
          w"
      by (simp add: body True del: visit_spectra.simps)
    show ?thesis
      unfolding b
      by (rule spectra_nested_bounded
        [where lookup = "\<lambda>tbl. visit_file_hash tbl apogee"
           and again = again, OF assms visit_file_hash_no_overflow inner])
  qed
qed


subsection \<open>A spectra function whose download is always corrupt\<close>

lemma combined_unbounded:
  assumes "apogee_default_dr E (Some 17) = 17"
    and "combined_file_hash (table mb) (combined_filename apogee) = Inr fh"
    and "\<forall>hist c. \<exists>b. remote E hist c (Urlretrieve (combined_urlstr None None apogee)) = Body b
           \<and> mismatch (sha1 b) fh = Inr True"
    and "combined_fullfilename E None None apogee \<noteq> combined_full_hash_filename E None None"
    and "files w (combined_full_hash_filename E None None) = Some mb"
  shows "fst (combined_spectra E n (Some 17) location None apogee None verbose (Some 1) w)
           = Inl RecursionError"
  using assms(5)
proof (induction n arbitrary: w)
  case 0
  show ?case by (simp add: raise_exc_def)
next
  case (Suc n)
  let ?w = "snd (ensure_dir (combined_fullfoldername E None None) w)"
  obtain b where b: "remote E (netlog w) (opener w)
      (Urlretrieve (combined_urlstr None None apogee)) = Body b"
    "mismatch (sha1 b) fh = Inr True"
    using assms(3) by blast
  let ?w' = "snd (warn corruption_msg
                (fetched (combined_urlstr None None apogee)
                   (combined_fullfilename E None None apogee) b ?w))"
  have "files ?w' (combined_full_hash_filename E None None) = Some mb"
    using Suc.prems assms(4) by (simp add: warn_def fetched_fields ensure_dir_fields)
  then obtain w2 where rec:
    "combined_spectra E n (Some 17) location None apogee None verbose (Some 1) ?w'
       = (Inl RecursionError, w2)"
    using fst_pair [OF Suc.IH [of ?w']] by blast
  show ?case
    by (simp add: combined_fetch_mismatch [OF assms(1) Suc.prems assms(2) _ b] rec
        del: combined_spectra.simps)
qed

lemma visit_unbounded:
  assumes "apogee_default_dr E (Some 17) = 17"
    and "visit_file_hash (table mb) apogee = Inr fh"
    and "\<forall>hist c. \<exists>b. remote E hist c (Urlretrieve (visit_urlstr None None False apogee))
             = Body b \<and> mismatch (sha1 b) fh = Inr True"
    and "visit_fullfilename E None None False apogee \<noteq> visit_full_hash_filename E None None"
    and "files w (visit_full_hash_filename E None None) = Some mb"
  shows "fst (visit_spectra E n (Some 17) location None apogee None verbose (Some 1) False w)
           = Inl RecursionError"
  using assms(5)
proof (induction n arbitrary: w)
  case 0
  show ?case by (simp add: raise_exc_def)
next
  case (Suc n)
  let ?w = "snd (ensure_dir (visit_fullfoldername E None None) w)"
  obtain b where b: "remote E (netlog w) (opener w)
      (Urlretrieve (visit_urlstr None None False apogee)) = Body b"
    "mismatch (sha1 b) fh = Inr True"
    using assms(3) by blast
  let ?w' = "snd (warn corruption_msg
                (fetched (visit_urlstr None None False apogee)
                   (visit_fullfilename E None None False apogee) b ?w))"
  have "files ?w' (visit_full_hash_filename E None None) = Some mb"
    using Suc.prems assms(4) by (simp add: warn_def fetched_fields ensure_dir_fields)
  then obtain w2 where rec:
    "visit_spectra E n (Some 17) location None apogee None verbose (Some 1) False ?w'
       = (Inl RecursionError, w2)"
    using fst_pair [OF Suc.IH [of ?w']] by blast
  show ?case
    by (simp add: visit_fetch_mismatch [OF assms(1) Suc.prems assms(2) _ b] rec
        del: visit_spectra.simps)
qed

subsection \<open>Files are written at the paths of the call only\<close>


















section \<open>The claims\<close>

text \<open>
  C2. Claim: in every public download function an HTTP 404 during the download yields a
  warning and the not-found sentinel, and no exception reaches the caller. In
  \<^verbatim>\<open>allvisit\<close> the download is not inside a \<^verbatim>\<open>try\<close>: with no local file and a server
  answering 404, the call ends in the HTTPError itself, and no warning is emitted.
\<close>

theorem allvisit_404_propagates:
  "fst (allvisit srv404 (Suc 0) None None world0)
     = Inl (HTTPError ''HTTP Error 404: Not Found'')
   \<and> warned (snd (allvisit srv404 (Suc 0) None None world0)) = []"
  by (simp add: prog_defs disk_defs download_checked_def recheck_def srv404_def world0_def
      dr_or_17_def)

text \<open>
  C10. In \<^verbatim>\<open>visit_spectra\<close> the rows of the manifest that give the expected checksum
  are those whose filename contains \<^verbatim>\<open>apStar-dr17-{apogee}\<close>, whatever the telescope;
  for telescope \<^verbatim>\<open>lco25m\<close>, whose file is named \<^verbatim>\<open>asStar-...\<close> or \<^verbatim>\<open>asStarC-...\<close>,
  no selected row is the row of the file that is downloaded.
\<close>

theorem visit_lookup_never_selects_lco25m_file:
  "set (visit_hash_idx tbl apogee) =
     {i. i < length tbl \<and> str_in (''apStar-dr17-'' @ fmt apogee) (snd (tbl ! i))}
   \<and> (\<forall>i \<in> set (visit_hash_idx tbl apogee).
         snd (tbl ! i) \<noteq> visit_filename (Some ''lco25m'') commission apogee)"
proof -
  have idx: "set (visit_hash_idx tbl apogee) =
     {i. i < length tbl \<and> str_in (''apStar-dr17-'' @ fmt apogee) (snd (tbl ! i))}"
    by (auto simp: visit_hash_idx_def argwhere_set)
  show ?thesis
    unfolding idx using lco25m_filename_not_matched by auto
qed

theorem visit_lookup_never_selects_lco25m_file_witness:
  "visit_hash_idx [(''aa'', ''apStar-dr17-X.fits''), (''bb'', ''asStar-dr17-X.fits'')] (Some ''X'') = [0]
   \<and> snd ([(''aa'', ''apStar-dr17-X.fits''), (''bb'', ''asStar-dr17-X.fits'')] ! 0)
       \<noteq> visit_filename (Some ''lco25m'') False (Some ''X'')"
proof -
  let ?tbl = "[(''aa'', ''apStar-dr17-X.fits''), (''bb'', ''asStar-dr17-X.fits'')]"
  have sel: "visit_hash_idx ?tbl (Some ''X'') = [0]"
    by (simp add: visit_hash_idx_def argwhere_def fmt_def)
  then have "0 \<in> set (visit_hash_idx ?tbl (Some ''X''))" by simp
  with visit_lookup_never_selects_lco25m_file [of ?tbl "Some ''X''" False]
  have "snd (?tbl ! 0) \<noteq> visit_filename (Some ''lco25m'') False (Some ''X'')"
    by blast
  with sel show ?thesis by simp
qed





text \<open>
  C6. Claim: in every public download function, a local copy whose checksum equals the
  expected one, with \<^verbatim>\<open>flag\<close> None, means no network operation at all, the manifest
  included, and the local path is returned. For the two spectra functions this fails when
  the manifest is not on disk: it is fetched (one \<^verbatim>\<open>urlopen\<close>, one \<^verbatim>\<open>urlretrieve\<close>)
  before the local file is looked at, here with a local file whose checksum is the one the
  manifest lists.
\<close>

theorem combined_valid_file_fetches_manifest:
  "combined_file_hash (table combined_manifest) (combined_filename (Some ''X''))
     = Inr [sha1 listed_blob]
   \<and> fst (combined_spectra (srv_serving combined_manifest) (Suc 0) None None (Some ''F1'')
            (Some ''X'') (Some ''apo25m'') 1 None world_valid_combined_no_manifest)
     = Inr (Path (combined_fullfilename srv404 (Some ''apo25m'') (Some ''F1'') (Some ''X'')))
   \<and> netlog (snd (combined_spectra (srv_serving combined_manifest) (Suc 0) None None
            (Some ''F1'') (Some ''X'') (Some ''apo25m'') 1 None
            world_valid_combined_no_manifest))
     = [Urlopen (combined_str1 (Some ''apo25m'') (Some ''F1'')),
        Urlretrieve (combined_str1 (Some ''apo25m'') (Some ''F1'')
                       @ combined_hash_filename (Some ''apo25m'') (Some ''F1''))]"
  by (simp add: run_defs scenario_defs scenario2_defs name_defs)

text \<open>
  C6, as amended. With \<^verbatim>\<open>flag\<close> None and a local copy whose checksum equals the
  expected one, the five catalogue functions return the local path and make no network
  request; so do \<^verbatim>\<open>combined_spectra\<close> and \<^verbatim>\<open>visit_spectra\<close> when the manifest of the
  directory is on disk as well and the checksum it gives for the file is the file's.
  Nothing is written but, at most, the folder.
\<close>

theorem valid_local_copy_no_network:
  "(apogee_default_dr E dr = 17
    \<and> files w (catalog_fullfilename k E) = Some b
    \<and> sha1 b = catalog_file_hash k
    \<longrightarrow> download_catalog k E (Suc n) dr None w
          = (Inr (Path (catalog_fullfilename k E)),
             snd (ensure_dir (catalog_fullfoldername k E) w))
      \<and> netlog (snd (download_catalog k E (Suc n) dr None w)) = netlog w
      \<and> files (snd (download_catalog k E (Suc n) dr None w)) = files w)
   \<and> (apogee_default_dr E dr = 17
    \<and> files w (combined_full_hash_filename E telescope field) = Some mb
    \<and> combined_file_hash (table mb) (combined_filename apogee) = Inr [sha1 b]
    \<and> files w (combined_fullfilename E telescope field apogee) = Some b
    \<longrightarrow> combined_spectra E (Suc n) dr location field apogee telescope verbose None w
          = (Inr (Path (combined_fullfilename E telescope field apogee)),
             snd (ensure_dir (combined_fullfoldername E telescope field) w))
      \<and> netlog (snd (combined_spectra E (Suc n) dr location field apogee telescope verbose
                       None w)) = netlog w
      \<and> files (snd (combined_spectra E (Suc n) dr location field apogee telescope verbose
                      None w)) = files w)
   \<and> (apogee_default_dr E dr = 17
    \<and> files w (visit_full_hash_filename E telescope field) = Some mb
    \<and> visit_file_hash (table mb) apogee = Inr [sha1 b]
    \<and> files w (visit_fullfilename E telescope field commission apogee) = Some b
    \<longrightarrow> visit_spectra E (Suc n) dr location field apogee telescope verbose None commission w
          = (Inr (Path (visit_fullfilename E telescope field commission apogee)),
             snd (ensure_dir (visit_fullfoldername E telescope field) w))
      \<and> netlog (snd (visit_spectra E (Suc n) dr location field apogee telescope verbose None
                       commission w)) = netlog w
      \<and> files (snd (visit_spectra E (Suc n) dr location field apogee telescope verbose None
                      commission w)) = files w)"
proof (intro conjI impI)
  assume h: "apogee_default_dr E dr = 17
    \<and> files w (catalog_fullfilename k E) = Some b
    \<and> sha1 b = catalog_file_hash k"
  then have run: "download_catalog k E (Suc n) dr None w
          = (Inr (Path (catalog_fullfilename k E)),
             snd (ensure_dir (catalog_fullfoldername k E) w))"
    using catalog_valid [of E dr w k b n] by simp
  show "download_catalog k E (Suc n) dr None w
          = (Inr (Path (catalog_fullfilename k E)),
             snd (ensure_dir (catalog_fullfoldername k E) w))"
    by (rule run)
  show "netlog (snd (download_catalog k E (Suc n) dr None w)) = netlog w"
    by (simp only: run snd_conv ensure_dir_fields)
  show "files (snd (download_catalog k E (Suc n) dr None w)) = files w"
    by (simp only: run snd_conv ensure_dir_fields)
next
  assume h: "apogee_default_dr E dr = 17
    \<and> files w (combined_full_hash_filename E telescope field) = Some mb
    \<and> combined_file_hash (table mb) (combined_filename apogee) = Inr [sha1 b]
    \<and> files w (combined_fullfilename E telescope field apogee) = Some b"
  then have run: "combined_spectra E (Suc n) dr location field apogee telescope verbose None w
          = (Inr (Path (combined_fullfilename E telescope field apogee)),
             snd (ensure_dir (combined_fullfoldername E telescope field) w))"
    using combined_valid [of E dr w telescope field mb apogee "[sha1 b]" b n location verbose]
      mismatch_same [of "sha1 b"]
    by blast
  show "combined_spectra E (Suc n) dr location field apogee telescope verbose None w
          = (Inr (Path (combined_fullfilename E telescope field apogee)),
             snd (ensure_dir (combined_fullfoldername E telescope field) w))"
    by (rule run)
  show "netlog (snd (combined_spectra E (Suc n) dr location field apogee telescope verbose
                       None w)) = netlog w"
    by (simp only: run snd_conv ensure_dir_fields)
  show "files (snd (combined_spectra E (Suc n) dr location field apogee telescope verbose
                      None w)) = files w"
    by (simp only: run snd_conv ensure_dir_fields)
next
  assume h: "apogee_default_dr E dr = 17
    \<and> files w (visit_full_hash_filename E telescope field) = Some mb
    \<and> visit_file_hash (table mb) apogee = Inr [sha1 b]
    \<and> files w (visit_fullfilename E telescope field commission apogee) = Some b"
  then have run: "visit_spectra E (Suc n) dr location field apogee telescope verbose None
                    commission w
          = (Inr (Path (visit_fullfilename E telescope field commission apogee)),
             snd (ensure_dir (visit_fullfoldername E telescope field) w))"
    using visit_valid
        [of E dr w telescope field mb apogee "[sha1 b]" commission b n location verbose]
      mismatch_same [of "sha1 b"]
    by blast
  show "visit_spectra E (Suc n) dr location field apogee telescope verbose None commission w
          = (Inr (Path (visit_fullfilename E telescope field commission apogee)),
             snd (ensure_dir (visit_fullfoldername E telescope field) w))"
    by (rule run)
  show "netlog (snd (visit_spectra E (Suc n) dr location field apogee telescope verbose None
                       commission w)) = netlog w"
    by (simp only: run snd_conv ensure_dir_fields)
  show "files (snd (visit_spectra E (Suc n) dr location field apogee telescope verbose None
                      commission w)) = files w"
    by (simp only: run snd_conv ensure_dir_fields)
qed

theorem valid_local_copy_no_network_witness:
  "netlog (snd (download_catalog Allstar srv404 (Suc 0) None None world_valid_allstar)) = []
   \<and> fst (download_catalog Allstar srv404 (Suc 0) None None world_valid_allstar)
       = Inr (Path (catalog_fullfilename Allstar srv404))
   \<and> netlog (snd (combined_spectra srv404 (Suc 0) None None (Some ''F1'') (Some ''X'')
                    (Some ''apo25m'') 1 None world_valid_combined)) = []
   \<and> fst (combined_spectra srv404 (Suc 0) None None (Some ''F1'') (Some ''X'')
            (Some ''apo25m'') 1 None world_valid_combined)
       = Inr (Path (combined_fullfilename srv404 (Some ''apo25m'') (Some ''F1'') (Some ''X'')))
   \<and> netlog (snd (visit_spectra srv404 (Suc 0) None None (Some ''F1'') (Some ''X'')
                    (Some ''apo25m'') 1 None False world_valid_visit)) = []
   \<and> fst (visit_spectra srv404 (Suc 0) None None (Some ''F1'') (Some ''X'')
            (Some ''apo25m'') 1 None False world_valid_visit)
       = Inr (Path (visit_fullfilename srv404 (Some ''apo25m'') (Some ''F1'') False (Some ''X'')))"
proof -
  note T = valid_local_copy_no_network
  have dr: "apogee_default_dr srv404 None = 17"
    by (simp add: scenario_defs)
  have a2: "files world_valid_allstar (catalog_fullfilename Allstar srv404) = Some allstar_blob"
    by (simp add: scenario_defs)
  have a3: "sha1 allstar_blob = catalog_file_hash Allstar"
    by (simp add: scenario2_defs)
  have a: "download_catalog Allstar srv404 (Suc 0) None None world_valid_allstar
          = (Inr (Path (catalog_fullfilename Allstar srv404)),
             snd (ensure_dir (catalog_fullfoldername Allstar srv404) world_valid_allstar))
      \<and> netlog (snd (download_catalog Allstar srv404 (Suc 0) None None world_valid_allstar))
          = netlog world_valid_allstar
      \<and> files (snd (download_catalog Allstar srv404 (Suc 0) None None world_valid_allstar))
          = files world_valid_allstar"
    by (rule T [where b = allstar_blob, THEN conjunct1, THEN mp]) (intro conjI dr a2 a3)
  have c2: "files world_valid_combined
              (combined_full_hash_filename srv404 (Some ''apo25m'') (Some ''F1''))
            = Some combined_manifest"
    by (simp add: scenario_defs name_defs)
  have c3: "combined_file_hash (table combined_manifest) (combined_filename (Some ''X''))
            = Inr [sha1 listed_blob]"
    by (simp add: run_defs scenario_defs scenario2_defs name_defs)
  have c4: "files world_valid_combined
              (combined_fullfilename srv404 (Some ''apo25m'') (Some ''F1'') (Some ''X''))
            = Some listed_blob"
    by (simp add: scenario_defs name_defs)
  note c = T [where mb = combined_manifest and b = listed_blob and E = srv404
      and w = world_valid_combined and n = 0 and location = None and verbose = 1,
      THEN conjunct2, THEN conjunct1, THEN mp, OF conjI [OF dr conjI [OF c2 conjI [OF c3 c4]]]]
  have v2: "files world_valid_visit
              (visit_full_hash_filename srv404 (Some ''apo25m'') (Some ''F1''))
            = Some visit_manifest"
    by (simp add: scenario_defs name_defs)
  have v3: "visit_file_hash (table visit_manifest) (Some ''X'') = Inr [sha1 listed_blob]"
    by (simp add: run_defs scenario_defs scenario2_defs name_defs)
  have v4: "files world_valid_visit
              (visit_fullfilename srv404 (Some ''apo25m'') (Some ''F1'') False (Some ''X''))
            = Some listed_blob"
    by (simp add: scenario_defs name_defs)
  note v = T [where mb = visit_manifest and b = listed_blob and E = srv404
      and w = world_valid_visit and n = 0 and location = None and verbose = 1,
      THEN conjunct2, THEN conjunct2, THEN mp, OF conjI [OF dr conjI [OF v2 conjI [OF v3 v4]]]]
  have n0: "netlog world_valid_allstar = []" "netlog world_valid_combined = []"
    "netlog world_valid_visit = []"
    by (simp_all add: scenario_defs)
  show ?thesis
    using observed [OF a n0(1)] observed [OF c n0(2)] observed [OF v n0(3)]
    by blast
qed

text \<open>
  C3. Claim: with a local copy, \<^verbatim>\<open>flag\<close> None and a checksum that differs from the
  expected one, exactly one re-fetch (one recursive call doing one download) happens
  before the function returns. Nothing bounds the number: the recursive call checks what
  it downloaded and calls again on a mismatch. With a server whose first answer is again
  corrupt and whose second is the right file, \<^verbatim>\<open>allstar\<close> downloads twice and warns
  twice before it returns.
\<close>

theorem allstar_refetches_twice:
  "fst (allstar srv_corrupt_once (Suc (Suc (Suc 0))) None None world_corrupt_allstar)
     = Inr (Path (allstar_fullfilename srv_corrupt_once))
   \<and> netlog (snd (allstar srv_corrupt_once (Suc (Suc (Suc 0))) None None world_corrupt_allstar))
     = [Urlretrieve allstar_url, Urlretrieve allstar_url]
   \<and> warned (snd (allstar srv_corrupt_once (Suc (Suc (Suc 0))) None None world_corrupt_allstar))
     = [corruption_msg, corruption_msg]"
  by (simp add: run_defs scenario_defs scenario2_defs name_defs)

text \<open>
  C3, as amended. In \<^verbatim>\<open>allstar\<close>, \<^verbatim>\<open>apogee_astronn\<close>, \<^verbatim>\<open>allvisit\<close>, \<^verbatim>\<open>apogee_rc\<close>
  and \<^verbatim>\<open>apogee_distances\<close>, with a local copy, \<^verbatim>\<open>flag\<close> None and a checksum that
  differs from the expected one, the function warns and calls itself with \<^verbatim>\<open>flag=1\<close>;
  when the file that call downloads has the expected checksum, this is the only recursive
  call and the only network request: one warning, one download, which replaces the local
  file, and the outer call returns its own local path.
\<close>

theorem one_refetch_when_download_valid:
  "apogee_default_dr E dr = 17 \<and> apogee_default_dr E (Some 17) = 17
    \<and> files w (catalog_fullfilename k E) = Some b
    \<and> sha1 b \<noteq> catalog_file_hash k
    \<and> remote E (netlog w) (opener w) (Urlretrieve (catalog_url k)) = Body b'
    \<and> sha1 b' = catalog_file_hash k
    \<longrightarrow> fst (download_catalog k E (Suc (Suc n)) dr None w)
          = Inr (Path (catalog_fullfilename k E))
      \<and> netlog (snd (download_catalog k E (Suc (Suc n)) dr None w))
          = netlog w @ [Urlretrieve (catalog_url k)]
      \<and> warned (snd (download_catalog k E (Suc (Suc n)) dr None w))
          = warned w @ [corruption_msg]
      \<and> files (snd (download_catalog k E (Suc (Suc n)) dr None w))
          = (files w)(catalog_fullfilename k E \<mapsto> b')"
proof (intro conjI impI)
  assume h: "apogee_default_dr E dr = 17 \<and> apogee_default_dr E (Some 17) = 17
    \<and> files w (catalog_fullfilename k E) = Some b
    \<and> sha1 b \<noteq> catalog_file_hash k
    \<and> remote E (netlog w) (opener w) (Urlretrieve (catalog_url k)) = Body b'
    \<and> sha1 b' = catalog_file_hash k"
  have run: "download_catalog k E (Suc (Suc n)) dr None w =
           (Inr (Path (catalog_fullfilename k E)),
            fetched (catalog_url k) (catalog_fullfilename k E) b'
              (recovery_state (catalog_fullfoldername k E) w))"
    using h by (intro catalog_refetch_valid [where b = b]) simp_all
  show "fst (download_catalog k E (Suc (Suc n)) dr None w)
          = Inr (Path (catalog_fullfilename k E))"
    by (simp only: run fst_conv)
  show "netlog (snd (download_catalog k E (Suc (Suc n)) dr None w))
          = netlog w @ [Urlretrieve (catalog_url k)]"
    by (simp only: run snd_conv fetched_fields recovery_state_fields)
  show "warned (snd (download_catalog k E (Suc (Suc n)) dr None w))
          = warned w @ [corruption_msg]"
    by (simp only: run snd_conv fetched_fields recovery_state_fields)
  show "files (snd (download_catalog k E (Suc (Suc n)) dr None w))
          = (files w)(catalog_fullfilename k E \<mapsto> b')"
    by (simp only: run snd_conv fetched_fields recovery_state_fields)
qed

theorem one_refetch_when_download_valid_witness:
  "fst (download_catalog Allstar (srv_serving allstar_blob) (Suc (Suc 0)) None None
          world_corrupt_allstar)
     = Inr (Path (catalog_fullfilename Allstar (srv_serving allstar_blob)))
   \<and> netlog (snd (download_catalog Allstar (srv_serving allstar_blob) (Suc (Suc 0)) None None
                    world_corrupt_allstar))
     = netlog world_corrupt_allstar @ [Urlretrieve (catalog_url Allstar)]
   \<and> warned (snd (download_catalog Allstar (srv_serving allstar_blob) (Suc (Suc 0)) None None
                    world_corrupt_allstar))
     = warned world_corrupt_allstar @ [corruption_msg]
   \<and> files (snd (download_catalog Allstar (srv_serving allstar_blob) (Suc (Suc 0)) None None
                   world_corrupt_allstar))
     = (files world_corrupt_allstar)
         (catalog_fullfilename Allstar (srv_serving allstar_blob) \<mapsto> allstar_blob)"
proof -
  note T = one_refetch_when_download_valid
  have a: "apogee_default_dr (srv_serving allstar_blob) None = 17
    \<and> apogee_default_dr (srv_serving allstar_blob) (Some 17) = 17
    \<and> files world_corrupt_allstar (catalog_fullfilename Allstar (srv_serving allstar_blob))
        = Some corrupt_blob
    \<and> sha1 corrupt_blob \<noteq> catalog_file_hash Allstar
    \<and> remote (srv_serving allstar_blob) (netlog world_corrupt_allstar)
        (opener world_corrupt_allstar) (Urlretrieve (catalog_url Allstar)) = Body allstar_blob
    \<and> sha1 allstar_blob = catalog_file_hash Allstar"
    by (simp add: scenario_defs scenario2_defs name_defs)
  show ?thesis
    by (rule T [where n = 0, THEN mp, OF a])
qed

text \<open>
  C8. Claim: in \<^verbatim>\<open>combined_spectra\<close> and \<^verbatim>\<open>visit_spectra\<close>, when the manifest has no
  entry for the requested filename, the list of expected checksums is empty, the check is
  skipped and no error is raised. The source provides for the case (its comment: the hash
  cannot be found, so check \<^verbatim>\<open>len(file_hash) != 0\<close> too), but tests
  \<^verbatim>\<open>checksum != file_hash\<close> first: the truth value of the empty comparison raises
  ValueError before the length is looked at. For a star Y that a manifest of two rows does
  not list, both functions raise it on a local file, and, called with \<^verbatim>\<open>flag=1\<close>, after
  having downloaded the file.
\<close>

theorem absent_entry_raises_ValueError:
  "combined_file_hash (table combined_manifest) (combined_filename (Some ''Y'')) = Inr []
   \<and> fst (combined_spectra srv404 (Suc 0) None None (Some ''F1'') (Some ''Y'')
            (Some ''apo25m'') 1 None world_unlisted_combined)
       = Inl (ValueError ''The truth value of an empty array is ambiguous'')
   \<and> visit_file_hash (table visit_manifest) (Some ''Y'') = Inr []
   \<and> fst (visit_spectra srv404 (Suc 0) None None (Some ''F1'') (Some ''Y'')
            (Some ''apo25m'') 1 None False world_unlisted_visit)
       = Inl (ValueError ''The truth value of an empty array is ambiguous'')
   \<and> fst (combined_spectra (srv_serving listed_blob) (Suc 0) None None (Some ''F1'')
            (Some ''Y'') (Some ''apo25m'') 1 (Some 1) world_unlisted_combined)
       = Inl (ValueError ''The truth value of an empty array is ambiguous'')
   \<and> netlog (snd (combined_spectra (srv_serving listed_blob) (Suc 0) None None (Some ''F1'')
                    (Some ''Y'') (Some ''apo25m'') 1 (Some 1) world_unlisted_combined))
       = [Urlretrieve (combined_urlstr (Some ''apo25m'') (Some ''F1'') (Some ''Y''))]
   \<and> fst (visit_spectra (srv_serving listed_blob) (Suc 0) None None (Some ''F1'')
            (Some ''Y'') (Some ''apo25m'') 1 (Some 1) False world_unlisted_visit)
       = Inl (ValueError ''The truth value of an empty array is ambiguous'')
   \<and> netlog (snd (visit_spectra (srv_serving listed_blob) (Suc 0) None None (Some ''F1'')
                    (Some ''Y'') (Some ''apo25m'') 1 (Some 1) False world_unlisted_visit))
       = [Urlretrieve (visit_urlstr (Some ''apo25m'') (Some ''F1'') False (Some ''Y''))]"
  by (simp add: run_defs scenario_defs scenario2_defs name_defs urlretrieve_def Let_def)

text \<open>
  C9. Claim: when \<^verbatim>\<open>combined_spectra\<close> or \<^verbatim>\<open>visit_spectra\<close>, called with a field or
  a telescope that is not None, makes its recursive call after a mismatch, the call omits
  \<^verbatim>\<open>field\<close> and \<^verbatim>\<open>telescope\<close>, so the re-fetch uses the URL and local path of
  field None, telescope None, which differ from those of the original call. They need
  not differ: the f-strings render None as the text None, so the field \<^verbatim>\<open>"None"\<close>
  (a string, not None) gives the very URL and path of the re-fetch.
\<close>

theorem field_named_None_same_target:
  "Some ''None'' \<noteq> (None :: string option)
   \<and> combined_urlstr None (Some ''None'') (Some ''X'') = combined_urlstr None None (Some ''X'')
   \<and> combined_fullfilename srv404 None (Some ''None'') (Some ''X'')
       = combined_fullfilename srv404 None None (Some ''X'')
   \<and> visit_urlstr None (Some ''None'') False (Some ''X'')
       = visit_urlstr None None False (Some ''X'')
   \<and> visit_fullfilename srv404 None (Some ''None'') False (Some ''X'')
       = visit_fullfilename srv404 None None False (Some ''X'')"
  by (simp add: scenario_defs name_defs)

text \<open>
  C9, as amended. After a mismatch on the local file, and after a mismatch on the file
  just downloaded, \<^verbatim>\<open>combined_spectra\<close> and \<^verbatim>\<open>visit_spectra\<close> run the same function
  with \<^verbatim>\<open>dr\<close>, \<^verbatim>\<open>location\<close>, \<^verbatim>\<open>apogee\<close>, \<^verbatim>\<open>verbose\<close> and \<^verbatim>\<open>flag=1\<close>, with field
  None and telescope None (and commission False), and return their own path when it
  returns; an HTTPError out of the call made after a download goes to the handler of the
  outer call. The URL of that call is the URL of the original call exactly when telescope
  and field both render as None (and, in \<^verbatim>\<open>visit_spectra\<close>, commission is false); for a
  telescope and a field without a slash the same holds of the local path. In every other
  case they differ.
\<close>

theorem refetch_targets_None_None:
  "(apogee_default_dr E dr = 17
    \<and> files w (combined_full_hash_filename E telescope field) = Some mb
    \<and> combined_file_hash (table mb) (combined_filename apogee) = Inr fh
    \<and> files w (combined_fullfilename E telescope field apogee) = Some b
    \<and> mismatch (sha1 b) fh = Inr True
    \<longrightarrow> combined_spectra E (Suc n) dr location field apogee telescope verbose None w =
          (case combined_spectra E n (Some 17) location None apogee None verbose (Some 1)
                  (recovery_state (combined_fullfoldername E telescope field) w) of
             (Inl e, w2) \<Rightarrow> (Inl e, w2)
           | (Inr v, w2) \<Rightarrow> (Inr (Path (combined_fullfilename E telescope field apogee)), w2)))
   \<and> (apogee_default_dr E dr = 17
    \<and> files w (visit_full_hash_filename E telescope field) = Some mb
    \<and> visit_file_hash (table mb) apogee = Inr fh
    \<and> files w (visit_fullfilename E telescope field commission apogee) = Some b
    \<and> mismatch (sha1 b) fh = Inr True
    \<longrightarrow> visit_spectra E (Suc n) dr location field apogee telescope verbose None commission w =
          (case visit_spectra E n (Some 17) location None apogee None verbose (Some 1) False
                  (recovery_state (visit_fullfoldername E telescope field) w) of
             (Inl e, w2) \<Rightarrow> (Inl e, w2)
           | (Inr v, w2) \<Rightarrow>
               (Inr (Path (visit_fullfilename E telescope field commission apogee)), w2)))
   \<and> (apogee_default_dr E dr = 17
    \<and> files w (combined_full_hash_filename E telescope field) = Some mb
    \<and> combined_file_hash (table mb) (combined_filename apogee) = Inr fh
    \<and> (flag = Some 1 \<or> files w (combined_fullfilename E telescope field apogee) = None)
    \<and> remote E (netlog w) (opener w) (Urlretrieve (combined_urlstr telescope field apogee))
        = Body b
    \<and> mismatch (sha1 b) fh = Inr True
    \<longrightarrow> combined_spectra E (Suc n) dr location field apogee telescope verbose flag w =
          (case combined_spectra E n (Some 17) location None apogee None verbose (Some 1)
                  (snd (warn corruption_msg
                     (fetched (combined_urlstr telescope field apogee)
                        (combined_fullfilename E telescope field apogee) b
                        (snd (ensure_dir (combined_fullfoldername E telescope field) w))))) of
             (Inl (HTTPError emsg), w2) \<Rightarrow>
               on_http_error E (combined_urlstr telescope field apogee)
                 (combined_fullfilename E telescope field apogee) emsg w2
           | (Inl e, w2) \<Rightarrow> (Inl e, w2)
           | (Inr v, w2) \<Rightarrow> (Inr (Path (combined_fullfilename E telescope field apogee)), w2)))
   \<and> (apogee_default_dr E dr = 17
    \<and> files w (visit_full_hash_filename E telescope field) = Some mb
    \<and> visit_file_hash (table mb) apogee = Inr fh
    \<and> (flag = Some 1
       \<or> files w (visit_fullfilename E telescope field commission apogee) = None)
    \<and> remote E (netlog w) (opener w)
        (Urlretrieve (visit_urlstr telescope field commission apogee)) = Body b
    \<and> mismatch (sha1 b) fh = Inr True
    \<longrightarrow> visit_spectra E (Suc n) dr location field apogee telescope verbose flag commission w =
          (case visit_spectra E n (Some 17) location None apogee None verbose (Some 1) False
                  (snd (warn corruption_msg
                     (fetched (visit_urlstr telescope field commission apogee)
                        (visit_fullfilename E telescope field commission apogee) b
                        (snd (ensure_dir (visit_fullfoldername E telescope field) w))))) of
             (Inl (HTTPError emsg), w2) \<Rightarrow>
               on_http_error E (visit_urlstr telescope field commission apogee)
                 (visit_fullfilename E telescope field commission apogee) emsg w2
           | (Inl e, w2) \<Rightarrow> (Inl e, w2)
           | (Inr v, w2) \<Rightarrow>
               (Inr (Path (visit_fullfilename E telescope field commission apogee)), w2)))
   \<and> (combined_urlstr telescope field apogee = combined_urlstr None None apogee)
       = (fmt telescope = ''None'' \<and> fmt field = ''None'')
   \<and> (visit_urlstr telescope field commission apogee = visit_urlstr None None False apogee)
       = (fmt telescope = ''None'' \<and> fmt field = ''None'' \<and> \<not> commission)
   \<and> (CHR ''/'' \<notin> set (fmt telescope) \<and> CHR ''/'' \<notin> set (fmt field)
      \<longrightarrow> (combined_fullfilename E telescope field apogee
              = combined_fullfilename E None None apogee)
           = (fmt telescope = ''None'' \<and> fmt field = ''None''))
   \<and> (CHR ''/'' \<notin> set (fmt telescope) \<and> CHR ''/'' \<notin> set (fmt field)
      \<longrightarrow> (visit_fullfilename E telescope field commission apogee
              = visit_fullfilename E None None False apogee)
           = (fmt telescope = ''None'' \<and> fmt field = ''None'' \<and> \<not> commission))"
proof (intro conjI impI)
  assume "apogee_default_dr E dr = 17
    \<and> files w (combined_full_hash_filename E telescope field) = Some mb
    \<and> combined_file_hash (table mb) (combined_filename apogee) = Inr fh
    \<and> files w (combined_fullfilename E telescope field apogee) = Some b
    \<and> mismatch (sha1 b) fh = Inr True"
  then show "combined_spectra E (Suc n) dr location field apogee telescope verbose None w =
          (case combined_spectra E n (Some 17) location None apogee None verbose (Some 1)
                  (recovery_state (combined_fullfoldername E telescope field) w) of
             (Inl e, w2) \<Rightarrow> (Inl e, w2)
           | (Inr v, w2) \<Rightarrow> (Inr (Path (combined_fullfilename E telescope field apogee)), w2))"
    by (intro combined_recover [where mb = mb and fh = fh and b = b]) simp_all
next
  assume "apogee_default_dr E dr = 17
    \<and> files w (visit_full_hash_filename E telescope field) = Some mb
    \<and> visit_file_hash (table mb) apogee = Inr fh
    \<and> files w (visit_fullfilename E telescope field commission apogee) = Some b
    \<and> mismatch (sha1 b) fh = Inr True"
  then show "visit_spectra E (Suc n) dr location field apogee telescope verbose None
               commission w =
          (case visit_spectra E n (Some 17) location None apogee None verbose (Some 1) False
                  (recovery_state (visit_fullfoldername E telescope field) w) of
             (Inl e, w2) \<Rightarrow> (Inl e, w2)
           | (Inr v, w2) \<Rightarrow>
               (Inr (Path (visit_fullfilename E telescope field commission apogee)), w2))"
    by (intro visit_recover [where mb = mb and fh = fh and b = b]) simp_all
next
  assume "apogee_default_dr E dr = 17
    \<and> files w (combined_full_hash_filename E telescope field) = Some mb
    \<and> combined_file_hash (table mb) (combined_filename apogee) = Inr fh
    \<and> (flag = Some 1 \<or> files w (combined_fullfilename E telescope field apogee) = None)
    \<and> remote E (netlog w) (opener w) (Urlretrieve (combined_urlstr telescope field apogee))
        = Body b
    \<and> mismatch (sha1 b) fh = Inr True"
  then show "combined_spectra E (Suc n) dr location field apogee telescope verbose flag w =
          (case combined_spectra E n (Some 17) location None apogee None verbose (Some 1)
                  (snd (warn corruption_msg
                     (fetched (combined_urlstr telescope field apogee)
                        (combined_fullfilename E telescope field apogee) b
                        (snd (ensure_dir (combined_fullfoldername E telescope field) w))))) of
             (Inl (HTTPError emsg), w2) \<Rightarrow>
               on_http_error E (combined_urlstr telescope field apogee)
                 (combined_fullfilename E telescope field apogee) emsg w2
           | (Inl e, w2) \<Rightarrow> (Inl e, w2)
           | (Inr v, w2) \<Rightarrow> (Inr (Path (combined_fullfilename E telescope field apogee)), w2))"
    by (intro combined_fetch_mismatch [where mb = mb and fh = fh and b = b]) simp_all
next
  assume "apogee_default_dr E dr = 17
    \<and> files w (visit_full_hash_filename E telescope field) = Some mb
    \<and> visit_file_hash (table mb) apogee = Inr fh
    \<and> (flag = Some 1
       \<or> files w (visit_fullfilename E telescope field commission apogee) = None)
    \<and> remote E (netlog w) (opener w)
        (Urlretrieve (visit_urlstr telescope field commission apogee)) = Body b
    \<and> mismatch (sha1 b) fh = Inr True"
  then show "visit_spectra E (Suc n) dr location field apogee telescope verbose flag
               commission w =
          (case visit_spectra E n (Some 17) location None apogee None verbose (Some 1) False
                  (snd (warn corruption_msg
                     (fetched (visit_urlstr telescope field commission apogee)
                        (visit_fullfilename E telescope field commission apogee) b
                        (snd (ensure_dir (visit_fullfoldername E telescope field) w))))) of
             (Inl (HTTPError emsg), w2) \<Rightarrow>
               on_http_error E (visit_urlstr telescope field commission apogee)
                 (visit_fullfilename E telescope field commission apogee) emsg w2
           | (Inl e, w2) \<Rightarrow> (Inl e, w2)
           | (Inr v, w2) \<Rightarrow>
               (Inr (Path (visit_fullfilename E telescope field commission apogee)), w2))"
    by (intro visit_fetch_mismatch [where mb = mb and fh = fh and b = b]) simp_all
next
  show "(combined_urlstr telescope field apogee = combined_urlstr None None apogee)
       = (fmt telescope = ''None'' \<and> fmt field = ''None'')"
    by (rule combined_urlstr_same)
next
  show "(visit_urlstr telescope field commission apogee = visit_urlstr None None False apogee)
       = (fmt telescope = ''None'' \<and> fmt field = ''None'' \<and> \<not> commission)"
    by (rule visit_urlstr_same)
next
  assume "CHR ''/'' \<notin> set (fmt telescope) \<and> CHR ''/'' \<notin> set (fmt field)"
  then show "(combined_fullfilename E telescope field apogee
              = combined_fullfilename E None None apogee)
           = (fmt telescope = ''None'' \<and> fmt field = ''None'')"
    by (intro combined_fullfilename_same) simp_all
next
  assume "CHR ''/'' \<notin> set (fmt telescope) \<and> CHR ''/'' \<notin> set (fmt field)"
  then show "(visit_fullfilename E telescope field commission apogee
              = visit_fullfilename E None None False apogee)
           = (fmt telescope = ''None'' \<and> fmt field = ''None'' \<and> \<not> commission)"
    by (intro visit_fullfilename_same) simp_all
qed

theorem refetch_targets_None_None_witness:
  "fst (combined_spectra srv404 (Suc (Suc 0)) None None (Some ''F1'') (Some ''X'')
          (Some ''apo25m'') 1 None world_corrupt_combined)
     = fst (case combined_spectra srv404 (Suc 0) (Some 17) None None (Some ''X'') None 1 (Some 1)
                  (recovery_state (combined_fullfoldername srv404 (Some ''apo25m'') (Some ''F1''))
                     world_corrupt_combined) of
             (Inl e, w2) \<Rightarrow> (Inl e, w2)
           | (Inr v, w2) \<Rightarrow>
               (Inr (Path (combined_fullfilename srv404 (Some ''apo25m'') (Some ''F1'')
                             (Some ''X''))), w2))
   \<and> fst (visit_spectra srv404 (Suc (Suc 0)) None None (Some ''F1'') (Some ''X'')
          (Some ''apo25m'') 1 None False world_corrupt_visit)
     = fst (case visit_spectra srv404 (Suc 0) (Some 17) None None (Some ''X'') None 1 (Some 1)
                  False
                  (recovery_state (visit_fullfoldername srv404 (Some ''apo25m'') (Some ''F1''))
                     world_corrupt_visit) of
             (Inl e, w2) \<Rightarrow> (Inl e, w2)
           | (Inr v, w2) \<Rightarrow>
               (Inr (Path (visit_fullfilename srv404 (Some ''apo25m'') (Some ''F1'') False
                             (Some ''X''))), w2))
   \<and> fst (combined_spectra (srv_serving corrupt_blob) (Suc (Suc 0)) None None (Some ''F1'')
            (Some ''X'') (Some ''apo25m'') 1 (Some 1) world_corrupt_combined)
     = fst (case combined_spectra (srv_serving corrupt_blob) (Suc 0) (Some 17) None None
                  (Some ''X'') None 1 (Some 1)
                  (snd (warn corruption_msg
                     (fetched (combined_urlstr (Some ''apo25m'') (Some ''F1'') (Some ''X''))
                        (combined_fullfilename (srv_serving corrupt_blob) (Some ''apo25m'')
                           (Some ''F1'') (Some ''X'')) corrupt_blob
                        (snd (ensure_dir
                           (combined_fullfoldername (srv_serving corrupt_blob)
                              (Some ''apo25m'') (Some ''F1'')) world_corrupt_combined))))) of
             (Inl (HTTPError emsg), w2) \<Rightarrow>
               on_http_error (srv_serving corrupt_blob)
                 (combined_urlstr (Some ''apo25m'') (Some ''F1'') (Some ''X''))
                 (combined_fullfilename (srv_serving corrupt_blob) (Some ''apo25m'')
                    (Some ''F1'') (Some ''X'')) emsg w2
           | (Inl e, w2) \<Rightarrow> (Inl e, w2)
           | (Inr v, w2) \<Rightarrow>
               (Inr (Path (combined_fullfilename (srv_serving corrupt_blob) (Some ''apo25m'')
                             (Some ''F1'') (Some ''X''))), w2))
   \<and> fst (visit_spectra (srv_serving corrupt_blob) (Suc (Suc 0)) None None (Some ''F1'')
            (Some ''X'') (Some ''apo25m'') 1 (Some 1) False world_corrupt_visit)
     = fst (case visit_spectra (srv_serving corrupt_blob) (Suc 0) (Some 17) None None
                  (Some ''X'') None 1 (Some 1) False
                  (snd (warn corruption_msg
                     (fetched (visit_urlstr (Some ''apo25m'') (Some ''F1'') False (Some ''X''))
                        (visit_fullfilename (srv_serving corrupt_blob) (Some ''apo25m'')
                           (Some ''F1'') False (Some ''X'')) corrupt_blob
                        (snd (ensure_dir
                           (visit_fullfoldername (srv_serving corrupt_blob)
                              (Some ''apo25m'') (Some ''F1'')) world_corrupt_visit))))) of
             (Inl (HTTPError emsg), w2) \<Rightarrow>
               on_http_error (srv_serving corrupt_blob)
                 (visit_urlstr (Some ''apo25m'') (Some ''F1'') False (Some ''X''))
                 (visit_fullfilename (srv_serving corrupt_blob) (Some ''apo25m'')
                    (Some ''F1'') False (Some ''X'')) emsg w2
           | (Inl e, w2) \<Rightarrow> (Inl e, w2)
           | (Inr v, w2) \<Rightarrow>
               (Inr (Path (visit_fullfilename (srv_serving corrupt_blob) (Some ''apo25m'')
                             (Some ''F1'') False (Some ''X''))), w2))
   \<and> combined_fullfilename srv404 (Some ''apo25m'') (Some ''F1'') (Some ''X'')
       \<noteq> combined_fullfilename srv404 None None (Some ''X'')
   \<and> visit_fullfilename srv404 (Some ''apo25m'') (Some ''F1'') False (Some ''X'')
       \<noteq> visit_fullfilename srv404 None None False (Some ''X'')"
proof -
  note T = refetch_targets_None_None
  have c: "apogee_default_dr srv404 None = 17
    \<and> files world_corrupt_combined
        (combined_full_hash_filename srv404 (Some ''apo25m'') (Some ''F1''))
        = Some combined_manifest
    \<and> combined_file_hash (table combined_manifest) (combined_filename (Some ''X''))
        = Inr [''aa'']
    \<and> files world_corrupt_combined
        (combined_fullfilename srv404 (Some ''apo25m'') (Some ''F1'') (Some ''X''))
        = Some corrupt_blob
    \<and> mismatch (sha1 corrupt_blob) [''aa''] = Inr True"
    by (simp add: run_defs scenario_defs name_defs)
  have v: "apogee_default_dr srv404 None = 17
    \<and> files world_corrupt_visit
        (visit_full_hash_filename srv404 (Some ''apo25m'') (Some ''F1''))
        = Some visit_manifest
    \<and> visit_file_hash (table visit_manifest) (Some ''X'') = Inr [''aa'']
    \<and> files world_corrupt_visit
        (visit_fullfilename srv404 (Some ''apo25m'') (Some ''F1'') False (Some ''X''))
        = Some corrupt_blob
    \<and> mismatch (sha1 corrupt_blob) [''aa''] = Inr True"
    by (simp add: run_defs scenario_defs name_defs)
  have dc: "apogee_default_dr (srv_serving corrupt_blob) None = 17
    \<and> files world_corrupt_combined
        (combined_full_hash_filename (srv_serving corrupt_blob) (Some ''apo25m'') (Some ''F1''))
        = Some combined_manifest
    \<and> combined_file_hash (table combined_manifest) (combined_filename (Some ''X''))
        = Inr [''aa'']
    \<and> (Some 1 = Some (1::int)
       \<or> files world_corrupt_combined
           (combined_fullfilename (srv_serving corrupt_blob) (Some ''apo25m'') (Some ''F1'')
              (Some ''X'')) = None)
    \<and> remote (srv_serving corrupt_blob) (netlog world_corrupt_combined)
        (opener world_corrupt_combined)
        (Urlretrieve (combined_urlstr (Some ''apo25m'') (Some ''F1'') (Some ''X'')))
        = Body corrupt_blob
    \<and> mismatch (sha1 corrupt_blob) [''aa''] = Inr True"
    by (simp add: run_defs scenario_defs scenario2_defs name_defs)
  have dv: "apogee_default_dr (srv_serving corrupt_blob) None = 17
    \<and> files world_corrupt_visit
        (visit_full_hash_filename (srv_serving corrupt_blob) (Some ''apo25m'') (Some ''F1''))
        = Some visit_manifest
    \<and> visit_file_hash (table visit_manifest) (Some ''X'') = Inr [''aa'']
    \<and> (Some 1 = Some (1::int)
       \<or> files world_corrupt_visit
           (visit_fullfilename (srv_serving corrupt_blob) (Some ''apo25m'') (Some ''F1'') False
              (Some ''X'')) = None)
    \<and> remote (srv_serving corrupt_blob) (netlog world_corrupt_visit)
        (opener world_corrupt_visit)
        (Urlretrieve (visit_urlstr (Some ''apo25m'') (Some ''F1'') False (Some ''X'')))
        = Body corrupt_blob
    \<and> mismatch (sha1 corrupt_blob) [''aa''] = Inr True"
    by (simp add: run_defs scenario_defs scenario2_defs name_defs)
  have s: "CHR ''/'' \<notin> set (fmt (Some ''apo25m'')) \<and> CHR ''/'' \<notin> set (fmt (Some ''F1''))"
    by (simp add: fmt_def)
  have ne: "\<not> (fmt (Some ''apo25m'') = ''None'' \<and> fmt (Some ''F1'') = ''None'')"
    "\<not> (fmt (Some ''apo25m'') = ''None'' \<and> fmt (Some ''F1'') = ''None'' \<and> \<not> False)"
    by (simp_all add: fmt_def)
  note rc = T [where n = "Suc 0" and location = None and verbose = 1,
      THEN conjunct1, THEN mp, OF c]
  note rv = T [where n = "Suc 0" and location = None and verbose = 1 and commission = False,
      THEN conjunct2, THEN conjunct1, THEN mp, OF v]
  note rdc = T [where n = "Suc 0" and location = None and verbose = 1,
      THEN conjunct2, THEN conjunct2, THEN conjunct1, THEN mp, OF dc]
  note rdv = T [where n = "Suc 0" and location = None and verbose = 1 and commission = False,
      THEN conjunct2, THEN conjunct2, THEN conjunct2, THEN conjunct1, THEN mp, OF dv]
  note pc = T [where E = srv404 and apogee = "Some ''X''",
      THEN conjunct2, THEN conjunct2, THEN conjunct2, THEN conjunct2, THEN conjunct2,
      THEN conjunct2, THEN conjunct1, THEN mp, OF s]
  note pv = T [where E = srv404 and apogee = "Some ''X''" and commission = False,
      THEN conjunct2, THEN conjunct2, THEN conjunct2, THEN conjunct2, THEN conjunct2,
      THEN conjunct2, THEN conjunct2, THEN mp, OF s]
  have 1: "combined_fullfilename srv404 (Some ''apo25m'') (Some ''F1'') (Some ''X'')
       \<noteq> combined_fullfilename srv404 None None (Some ''X'')"
    using pc ne(1) by blast
  have 2: "visit_fullfilename srv404 (Some ''apo25m'') (Some ''F1'') False (Some ''X'')
       \<noteq> visit_fullfilename srv404 None None False (Some ''X'')"
    using pv ne(2) by blast
  show ?thesis
    by (intro conjI arg_cong [where f = fst] rc rv rdc rdv 1 2)
qed

text \<open>
  C5. Claim: in every public download function, a download answered 401 whose
  authenticated retry is answered 401 again raises ConnectionError, the cached username
  and password having been reset to None. \<^verbatim>\<open>apogee_distances\<close> has no authenticated
  retry: its handler is a bare \<^verbatim>\<open>except urllib.error.HTTPError\<close> that warns and returns
  False for every status. On a server answering 401 it makes one request, warns that the
  file cannot be found and returns False, and the cached credentials stay as they were.
\<close>

theorem distances_401_returns_False:
  "fst (apogee_distances srv401 (Suc 0) None None world_cached) = Inr PyFalse
   \<and> cred_username (snd (apogee_distances srv401 (Suc 0) None None world_cached))
       = Some ''user''
   \<and> cred_pw (snd (apogee_distances srv401 (Suc 0) None None world_cached)) = Some ''secret''
   \<and> netlog (snd (apogee_distances srv401 (Suc 0) None None world_cached))
       = [Urlretrieve distances_urlstr]
   \<and> warned (snd (apogee_distances srv401 (Suc 0) None None world_cached))
       = [not_found_msg distances_urlstr]"
  by (simp add: run_defs scenario_defs scenario3_defs)

text \<open>
  C5, as amended. In \<^verbatim>\<open>allstar\<close>, \<^verbatim>\<open>apogee_astronn\<close>, \<^verbatim>\<open>apogee_rc\<close>,
  \<^verbatim>\<open>combined_spectra\<close> and \<^verbatim>\<open>visit_spectra\<close> (for the last two with the manifest on
  disk), when the call downloads (no local file, or \<^verbatim>\<open>flag=1\<close>), the server answers the
  download and the authenticated retry with 401, and credentials are cached or typed at
  the prompt, the call raises ConnectionError and leaves both cached credentials None.
  In \<^verbatim>\<open>apogee_distances\<close> every HTTP error of the download, 401 included, gives the
  warning that the file cannot be found and the value False, after that one request, with
  the cached credentials unchanged.
\<close>

theorem persistent_401_raises_and_clears:
  "(k \<in> {Allstar, ApogeeAstronn, ApogeeRc}
    \<and> apogee_default_dr E dr = 17
    \<and> (flag = Some 1 \<or> files w (catalog_fullfilename k E) = None)
    \<and> (\<forall>hist c. remote E hist c (Urlretrieve (catalog_url k)) = HTTPErr emsg)
    \<and> str_in ''401'' emsg
    \<and> (cred_username w \<noteq> None \<or> 2 \<le> length (typed w))
    \<longrightarrow> fst (download_catalog k E (Suc n) dr flag w)
           = Inl (ConnectionError ''Wrong username or password'')
         \<and> cred_username (snd (download_catalog k E (Suc n) dr flag w)) = None
         \<and> cred_pw (snd (download_catalog k E (Suc n) dr flag w)) = None)
   \<and> (apogee_default_dr E dr = 17
    \<and> files w (combined_full_hash_filename E telescope field) = Some mb
    \<and> combined_file_hash (table mb) (combined_filename apogee) = Inr fh
    \<and> (flag = Some 1 \<or> files w (combined_fullfilename E telescope field apogee) = None)
    \<and> (\<forall>hist c. remote E hist c (Urlretrieve (combined_urlstr telescope field apogee))
           = HTTPErr emsg)
    \<and> str_in ''401'' emsg
    \<and> (cred_username w \<noteq> None \<or> 2 \<le> length (typed w))
    \<longrightarrow> fst (combined_spectra E (Suc n) dr location field apogee telescope verbose flag w)
           = Inl (ConnectionError ''Wrong username or password'')
         \<and> cred_username (snd (combined_spectra E (Suc n) dr location field apogee telescope
                                  verbose flag w)) = None
         \<and> cred_pw (snd (combined_spectra E (Suc n) dr location field apogee telescope
                            verbose flag w)) = None)
   \<and> (apogee_default_dr E dr = 17
    \<and> files w (visit_full_hash_filename E telescope field) = Some mb
    \<and> visit_file_hash (table mb) apogee = Inr fh
    \<and> (flag = Some 1
       \<or> files w (visit_fullfilename E telescope field commission apogee) = None)
    \<and> (\<forall>hist c. remote E hist c
           (Urlretrieve (visit_urlstr telescope field commission apogee)) = HTTPErr emsg)
    \<and> str_in ''401'' emsg
    \<and> (cred_username w \<noteq> None \<or> 2 \<le> length (typed w))
    \<longrightarrow> fst (visit_spectra E (Suc n) dr location field apogee telescope verbose flag
                commission w)
           = Inl (ConnectionError ''Wrong username or password'')
         \<and> cred_username (snd (visit_spectra E (Suc n) dr location field apogee telescope
                                  verbose flag commission w)) = None
         \<and> cred_pw (snd (visit_spectra E (Suc n) dr location field apogee telescope
                            verbose flag commission w)) = None)
   \<and> (apogee_default_dr E dr = 17
    \<and> (flag = Some 1 \<or> files w (distances_fullfilename E) = None)
    \<and> (\<forall>hist c. remote E hist c (Urlretrieve distances_urlstr) = HTTPErr emsg)
    \<longrightarrow> fst (apogee_distances E (Suc n) dr flag w) = Inr PyFalse
         \<and> warned (snd (apogee_distances E (Suc n) dr flag w))
             = warned w @ [not_found_msg distances_urlstr]
         \<and> netlog (snd (apogee_distances E (Suc n) dr flag w))
             = netlog w @ [Urlretrieve distances_urlstr]
         \<and> cred_username (snd (apogee_distances E (Suc n) dr flag w)) = cred_username w
         \<and> cred_pw (snd (apogee_distances E (Suc n) dr flag w)) = cred_pw w)"
proof (intro conjI)
  show "k \<in> {Allstar, ApogeeAstronn, ApogeeRc}
    \<and> apogee_default_dr E dr = 17
    \<and> (flag = Some 1 \<or> files w (catalog_fullfilename k E) = None)
    \<and> (\<forall>hist c. remote E hist c (Urlretrieve (catalog_url k)) = HTTPErr emsg)
    \<and> str_in ''401'' emsg
    \<and> (cred_username w \<noteq> None \<or> 2 \<le> length (typed w))
    \<longrightarrow> fst (download_catalog k E (Suc n) dr flag w)
           = Inl (ConnectionError ''Wrong username or password'')
         \<and> cred_username (snd (download_catalog k E (Suc n) dr flag w)) = None
         \<and> cred_pw (snd (download_catalog k E (Suc n) dr flag w)) = None"
    by (intro impI, elim conjE, rule catalog_401; assumption)
  show "apogee_default_dr E dr = 17
    \<and> files w (combined_full_hash_filename E telescope field) = Some mb
    \<and> combined_file_hash (table mb) (combined_filename apogee) = Inr fh
    \<and> (flag = Some 1 \<or> files w (combined_fullfilename E telescope field apogee) = None)
    \<and> (\<forall>hist c. remote E hist c (Urlretrieve (combined_urlstr telescope field apogee))
           = HTTPErr emsg)
    \<and> str_in ''401'' emsg
    \<and> (cred_username w \<noteq> None \<or> 2 \<le> length (typed w))
    \<longrightarrow> fst (combined_spectra E (Suc n) dr location field apogee telescope verbose flag w)
           = Inl (ConnectionError ''Wrong username or password'')
         \<and> cred_username (snd (combined_spectra E (Suc n) dr location field apogee telescope
                                  verbose flag w)) = None
         \<and> cred_pw (snd (combined_spectra E (Suc n) dr location field apogee telescope
                            verbose flag w)) = None"
    by (intro impI, elim conjE, rule combined_401; assumption)
  show "apogee_default_dr E dr = 17
    \<and> files w (visit_full_hash_filename E telescope field) = Some mb
    \<and> visit_file_hash (table mb) apogee = Inr fh
    \<and> (flag = Some 1
       \<or> files w (visit_fullfilename E telescope field commission apogee) = None)
    \<and> (\<forall>hist c. remote E hist c
           (Urlretrieve (visit_urlstr telescope field commission apogee)) = HTTPErr emsg)
    \<and> str_in ''401'' emsg
    \<and> (cred_username w \<noteq> None \<or> 2 \<le> length (typed w))
    \<longrightarrow> fst (visit_spectra E (Suc n) dr location field apogee telescope verbose flag
                commission w)
           = Inl (ConnectionError ''Wrong username or password'')
         \<and> cred_username (snd (visit_spectra E (Suc n) dr location field apogee telescope
                                  verbose flag commission w)) = None
         \<and> cred_pw (snd (visit_spectra E (Suc n) dr location field apogee telescope
                            verbose flag commission w)) = None"
    by (intro impI, elim conjE, rule visit_401; assumption)
  show "apogee_default_dr E dr = 17
    \<and> (flag = Some 1 \<or> files w (distances_fullfilename E) = None)
    \<and> (\<forall>hist c. remote E hist c (Urlretrieve distances_urlstr) = HTTPErr emsg)
    \<longrightarrow> fst (apogee_distances E (Suc n) dr flag w) = Inr PyFalse
         \<and> warned (snd (apogee_distances E (Suc n) dr flag w))
             = warned w @ [not_found_msg distances_urlstr]
         \<and> netlog (snd (apogee_distances E (Suc n) dr flag w))
             = netlog w @ [Urlretrieve distances_urlstr]
         \<and> cred_username (snd (apogee_distances E (Suc n) dr flag w)) = cred_username w
         \<and> cred_pw (snd (apogee_distances E (Suc n) dr flag w)) = cred_pw w"
    by (intro impI, elim conjE, rule distances_skips_any_HTTPError; assumption)
qed

theorem persistent_401_raises_and_clears_witness:
  "fst (download_catalog Allstar srv401 (Suc 0) None None world_cached)
     = Inl (ConnectionError ''Wrong username or password'')
   \<and> cred_username (snd (download_catalog Allstar srv401 (Suc 0) None None world_cached)) = None
   \<and> cred_pw (snd (download_catalog Allstar srv401 (Suc 0) None None world_cached)) = None
   \<and> fst (download_catalog ApogeeRc srv401 (Suc 0) None None world_typing)
     = Inl (ConnectionError ''Wrong username or password'')
   \<and> fst (combined_spectra srv401 (Suc 0) None None (Some ''F1'') (Some ''X'')
            (Some ''apo25m'') 1 (Some 1)
            (world_corrupt_combined\<lparr>typed := [''user'', ''secret'']\<rparr>))
     = Inl (ConnectionError ''Wrong username or password'')
   \<and> fst (visit_spectra srv401 (Suc 0) None None (Some ''F1'') (Some ''X'')
            (Some ''apo25m'') 1 (Some 1) False
            (world_corrupt_visit\<lparr>typed := [''user'', ''secret'']\<rparr>))
     = Inl (ConnectionError ''Wrong username or password'')
   \<and> fst (apogee_distances srv401 (Suc 0) None None world_typing) = Inr PyFalse
   \<and> warned (snd (apogee_distances srv401 (Suc 0) None None world_typing))
       = warned world_typing @ [not_found_msg distances_urlstr]"
proof -
  note T = persistent_401_raises_and_clears
  have a: "Allstar \<in> {Allstar, ApogeeAstronn, ApogeeRc}
    \<and> apogee_default_dr srv401 None = 17
    \<and> (None = Some (1::int) \<or> files world_cached (catalog_fullfilename Allstar srv401) = None)
    \<and> (\<forall>hist c. remote srv401 hist c (Urlretrieve (catalog_url Allstar))
          = HTTPErr ''HTTP Error 401: Unauthorized'')
    \<and> str_in ''401'' ''HTTP Error 401: Unauthorized''
    \<and> (cred_username world_cached \<noteq> None \<or> 2 \<le> length (typed world_cached))"
    by (simp add: scenario_defs scenario3_defs)
  have r: "ApogeeRc \<in> {Allstar, ApogeeAstronn, ApogeeRc}
    \<and> apogee_default_dr srv401 None = 17
    \<and> (None = Some (1::int) \<or> files world_typing (catalog_fullfilename ApogeeRc srv401) = None)
    \<and> (\<forall>hist c. remote srv401 hist c (Urlretrieve (catalog_url ApogeeRc))
          = HTTPErr ''HTTP Error 401: Unauthorized'')
    \<and> str_in ''401'' ''HTTP Error 401: Unauthorized''
    \<and> (cred_username world_typing \<noteq> None \<or> 2 \<le> length (typed world_typing))"
    by (simp add: scenario_defs scenario3_defs)
  let ?wc = "world_corrupt_combined\<lparr>typed := [''user'', ''secret'']\<rparr>"
  have c: "apogee_default_dr srv401 None = 17
    \<and> files ?wc (combined_full_hash_filename srv401 (Some ''apo25m'') (Some ''F1''))
        = Some combined_manifest
    \<and> combined_file_hash (table combined_manifest) (combined_filename (Some ''X''))
        = Inr [''aa'']
    \<and> (Some 1 = Some (1::int)
       \<or> files ?wc (combined_fullfilename srv401 (Some ''apo25m'') (Some ''F1'') (Some ''X''))
           = None)
    \<and> (\<forall>hist c. remote srv401 hist c
          (Urlretrieve (combined_urlstr (Some ''apo25m'') (Some ''F1'') (Some ''X'')))
          = HTTPErr ''HTTP Error 401: Unauthorized'')
    \<and> str_in ''401'' ''HTTP Error 401: Unauthorized''
    \<and> (cred_username ?wc \<noteq> None \<or> 2 \<le> length (typed ?wc))"
    by (simp add: run_defs scenario_defs scenario3_defs name_defs)
  let ?wv = "world_corrupt_visit\<lparr>typed := [''user'', ''secret'']\<rparr>"
  have v: "apogee_default_dr srv401 None = 17
    \<and> files ?wv (visit_full_hash_filename srv401 (Some ''apo25m'') (Some ''F1''))
        = Some visit_manifest
    \<and> visit_file_hash (table visit_manifest) (Some ''X'') = Inr [''aa'']
    \<and> (Some 1 = Some (1::int)
       \<or> files ?wv (visit_fullfilename srv401 (Some ''apo25m'') (Some ''F1'') False
                      (Some ''X'')) = None)
    \<and> (\<forall>hist c. remote srv401 hist c
          (Urlretrieve (visit_urlstr (Some ''apo25m'') (Some ''F1'') False (Some ''X'')))
          = HTTPErr ''HTTP Error 401: Unauthorized'')
    \<and> str_in ''401'' ''HTTP Error 401: Unauthorized''
    \<and> (cred_username ?wv \<noteq> None \<or> 2 \<le> length (typed ?wv))"
    by (simp add: run_defs scenario_defs scenario3_defs name_defs)
  have d: "apogee_default_dr srv401 None = 17
    \<and> (None = Some (1::int) \<or> files world_typing (distances_fullfilename srv401) = None)
    \<and> (\<forall>hist c. remote srv401 hist c (Urlretrieve distances_urlstr)
          = HTTPErr ''HTTP Error 401: Unauthorized'')"
    by (simp add: scenario_defs scenario3_defs)
  note ra = T [where n = 0, THEN conjunct1, THEN mp, OF a]
  note rr = T [where n = 0, THEN conjunct1, THEN mp, OF r, THEN conjunct1]
  note rc = T [where n = 0 and location = None and verbose = 1,
      THEN conjunct2, THEN conjunct1, THEN mp, OF c, THEN conjunct1]
  note rv = T [where n = 0 and location = None and verbose = 1,
      THEN conjunct2, THEN conjunct2, THEN conjunct1, THEN mp, OF v, THEN conjunct1]
  note rd = T [where n = 0,
      THEN conjunct2, THEN conjunct2, THEN conjunct2, THEN mp, OF d]
  show ?thesis
    using ra rr rc rv rd by blast
qed



text \<open>
  C4. The first argument after the environment is the recursion limit: the number of
  nested calls allowed, a call at limit zero raising RecursionError. When every file the
  server serves has the expected checksum (for a catalogue function the constant of the
  function; for \<^verbatim>\<open>combined_spectra\<close> and \<^verbatim>\<open>visit_spectra\<close> the one that the manifest
  of the directory lists for the star, whether the manifest is on disk or is served, for
  the directory of the call and for the directory of the recursive call), a call returns
  or raises without reaching the limit as soon as the limit allows one nested call, and
  what it does is what it does at that limit: the depth of the recursion is at most one.
  Without the precondition nothing bounds it: on a server whose file is always corrupt a
  call made with \<^verbatim>\<open>flag=1\<close> reaches every limit.
\<close>

theorem valid_downloads_bound_recursion:
  "((\<forall>hist c b. remote E hist c (Urlretrieve (catalog_url k)) = Body b
        \<longrightarrow> sha1 b = catalog_file_hash k)
    \<longrightarrow> download_catalog k E (Suc (Suc n)) dr flag w
          = download_catalog k E (Suc (Suc 0)) dr flag w
      \<and> fst (download_catalog k E (Suc (Suc n)) dr flag w) \<noteq> Inl RecursionError)
   \<and> ((\<forall>mb fh b.
        (files w (combined_full_hash_filename E telescope field) = Some mb
         \<or> files w (combined_full_hash_filename E None None) = Some mb
         \<or> (\<exists>hist c. remote E hist c
               (Urlretrieve (combined_str1 telescope field
                             @ combined_hash_filename telescope field)) = Body mb)
         \<or> (\<exists>hist c. remote E hist c
               (Urlretrieve (combined_str1 None None @ combined_hash_filename None None))
               = Body mb))
        \<longrightarrow> combined_file_hash (table mb) (combined_filename apogee) = Inr fh
        \<longrightarrow> ((\<exists>hist c. remote E hist c
                 (Urlretrieve (combined_urlstr telescope field apogee)) = Body b)
             \<or> (\<exists>hist c. remote E hist c
                 (Urlretrieve (combined_urlstr None None apogee)) = Body b))
        \<longrightarrow> mismatch (sha1 b) fh \<noteq> Inr True)
    \<longrightarrow> combined_spectra E (Suc (Suc n)) dr location field apogee telescope verbose flag w
          = combined_spectra E (Suc (Suc 0)) dr location field apogee telescope verbose flag w
      \<and> fst (combined_spectra E (Suc (Suc n)) dr location field apogee telescope verbose
               flag w) \<noteq> Inl RecursionError)
   \<and> ((\<forall>mb fh b.
        (files w (visit_full_hash_filename E telescope field) = Some mb
         \<or> files w (visit_full_hash_filename E None None) = Some mb
         \<or> (\<exists>hist c. remote E hist c
               (Urlretrieve (visit_str1 telescope field
                             @ visit_hash_filename telescope field)) = Body mb)
         \<or> (\<exists>hist c. remote E hist c
               (Urlretrieve (visit_str1 None None @ visit_hash_filename None None))
               = Body mb))
        \<longrightarrow> visit_file_hash (table mb) apogee = Inr fh
        \<longrightarrow> ((\<exists>hist c. remote E hist c
                 (Urlretrieve (visit_urlstr telescope field commission apogee)) = Body b)
             \<or> (\<exists>hist c. remote E hist c
                 (Urlretrieve (visit_urlstr None None False apogee)) = Body b))
        \<longrightarrow> mismatch (sha1 b) fh \<noteq> Inr True)
    \<longrightarrow> visit_spectra E (Suc (Suc n)) dr location field apogee telescope verbose flag
          commission w
          = visit_spectra E (Suc (Suc 0)) dr location field apogee telescope verbose flag
              commission w
      \<and> fst (visit_spectra E (Suc (Suc n)) dr location field apogee telescope verbose
               flag commission w) \<noteq> Inl RecursionError)
   \<and> fst (download_catalog k (srv_serving corrupt_blob) n (Some 17) (Some 1) w)
       = Inl RecursionError
   \<and> fst (combined_spectra (srv_serving corrupt_blob) n (Some 17) location None (Some ''X'')
            None verbose (Some 1) world_refetch_combined) = Inl RecursionError
   \<and> fst (visit_spectra (srv_serving corrupt_blob) n (Some 17) location None (Some ''X'')
            None verbose (Some 1) False world_refetch_visit) = Inl RecursionError"
proof (intro conjI impI)
  assume h: "\<forall>hist c b. remote E hist c (Urlretrieve (catalog_url k)) = Body b
        \<longrightarrow> sha1 b = catalog_file_hash k"
  show "download_catalog k E (Suc (Suc n)) dr flag w
          = download_catalog k E (Suc (Suc 0)) dr flag w"
    by (rule catalog_bounded(1) [OF h])
  show "fst (download_catalog k E (Suc (Suc n)) dr flag w) \<noteq> Inl RecursionError"
    by (rule catalog_bounded(2) [OF h])
next
  assume h: "\<forall>mb fh b.
        (files w (combined_full_hash_filename E telescope field) = Some mb
         \<or> files w (combined_full_hash_filename E None None) = Some mb
         \<or> (\<exists>hist c. remote E hist c
               (Urlretrieve (combined_str1 telescope field
                             @ combined_hash_filename telescope field)) = Body mb)
         \<or> (\<exists>hist c. remote E hist c
               (Urlretrieve (combined_str1 None None @ combined_hash_filename None None))
               = Body mb))
        \<longrightarrow> combined_file_hash (table mb) (combined_filename apogee) = Inr fh
        \<longrightarrow> ((\<exists>hist c. remote E hist c
                 (Urlretrieve (combined_urlstr telescope field apogee)) = Body b)
             \<or> (\<exists>hist c. remote E hist c
                 (Urlretrieve (combined_urlstr None None apogee)) = Body b))
        \<longrightarrow> mismatch (sha1 b) fh \<noteq> Inr True"
  note r = combined_bounded [OF h, of n dr location verbose flag]
  show "combined_spectra E (Suc (Suc n)) dr location field apogee telescope verbose flag w
          = combined_spectra E (Suc (Suc 0)) dr location field apogee telescope verbose flag w"
    by (rule r [THEN conjunct1])
  show "fst (combined_spectra E (Suc (Suc n)) dr location field apogee telescope verbose
               flag w) \<noteq> Inl RecursionError"
    by (rule r [THEN conjunct2])
next
  assume h: "\<forall>mb fh b.
        (files w (visit_full_hash_filename E telescope field) = Some mb
         \<or> files w (visit_full_hash_filename E None None) = Some mb
         \<or> (\<exists>hist c. remote E hist c
               (Urlretrieve (visit_str1 telescope field
                             @ visit_hash_filename telescope field)) = Body mb)
         \<or> (\<exists>hist c. remote E hist c
               (Urlretrieve (visit_str1 None None @ visit_hash_filename None None))
               = Body mb))
        \<longrightarrow> visit_file_hash (table mb) apogee = Inr fh
        \<longrightarrow> ((\<exists>hist c. remote E hist c
                 (Urlretrieve (visit_urlstr telescope field commission apogee)) = Body b)
             \<or> (\<exists>hist c. remote E hist c
                 (Urlretrieve (visit_urlstr None None False apogee)) = Body b))
        \<longrightarrow> mismatch (sha1 b) fh \<noteq> Inr True"
  note r = visit_bounded [OF h, of n dr location verbose flag]
  show "visit_spectra E (Suc (Suc n)) dr location field apogee telescope verbose flag
          commission w
          = visit_spectra E (Suc (Suc 0)) dr location field apogee telescope verbose flag
              commission w"
    by (rule r [THEN conjunct1])
  show "fst (visit_spectra E (Suc (Suc n)) dr location field apogee telescope verbose
               flag commission w) \<noteq> Inl RecursionError"
    by (rule r [THEN conjunct2])
next
  show "fst (download_catalog k (srv_serving corrupt_blob) n (Some 17) (Some 1) w)
       = Inl RecursionError"
    by (rule catalog_unbounded; cases k)
      (simp_all add: scenario_defs scenario2_defs allstar_file_hash_def astronn_file_hash_def
        allvisit_file_hash_def rc_file_hash_def distances_file_hash_def)
next
  show "fst (combined_spectra (srv_serving corrupt_blob) n (Some 17) location None (Some ''X'')
            None verbose (Some 1) world_refetch_combined) = Inl RecursionError"
    by (rule combined_unbounded [where mb = combined_manifest and fh = "[''aa'']"])
      (simp_all add: run_defs scenario_defs scenario2_defs name_defs)
next
  show "fst (visit_spectra (srv_serving corrupt_blob) n (Some 17) location None (Some ''X'')
            None verbose (Some 1) False world_refetch_visit) = Inl RecursionError"
    by (rule visit_unbounded [where mb = visit_manifest and fh = "[''aa'']"])
      (simp_all add: run_defs scenario_defs scenario2_defs name_defs)
qed

theorem valid_downloads_bound_recursion_witness:
  "(download_catalog Allstar (srv_serving allstar_blob) (Suc (Suc (Suc 0))) None None
      world_corrupt_allstar
    = download_catalog Allstar (srv_serving allstar_blob) (Suc (Suc 0)) None None
        world_corrupt_allstar
    \<and> fst (download_catalog Allstar (srv_serving allstar_blob) (Suc (Suc (Suc 0))) None None
             world_corrupt_allstar) \<noteq> Inl RecursionError)
   \<and> (combined_spectra (srv_serving listed_blob) (Suc (Suc (Suc 0))) None None (Some ''F1'')
        (Some ''X'') (Some ''apo25m'') 1 None world_refetch_combined
      = combined_spectra (srv_serving listed_blob) (Suc (Suc 0)) None None (Some ''F1'')
          (Some ''X'') (Some ''apo25m'') 1 None world_refetch_combined
      \<and> fst (combined_spectra (srv_serving listed_blob) (Suc (Suc (Suc 0))) None None
               (Some ''F1'') (Some ''X'') (Some ''apo25m'') 1 None world_refetch_combined)
          \<noteq> Inl RecursionError)
   \<and> (visit_spectra (srv_serving listed_blob) (Suc (Suc (Suc 0))) None None (Some ''F1'')
        (Some ''X'') (Some ''apo25m'') 1 None False world_refetch_visit
      = visit_spectra (srv_serving listed_blob) (Suc (Suc 0)) None None (Some ''F1'')
          (Some ''X'') (Some ''apo25m'') 1 None False world_refetch_visit
      \<and> fst (visit_spectra (srv_serving listed_blob) (Suc (Suc (Suc 0))) None None
               (Some ''F1'') (Some ''X'') (Some ''apo25m'') 1 None False world_refetch_visit)
          \<noteq> Inl RecursionError)"
proof -
  note T = valid_downloads_bound_recursion
  have a: "\<forall>hist c b. remote (srv_serving allstar_blob) hist c (Urlretrieve (catalog_url Allstar))
             = Body b \<longrightarrow> sha1 b = catalog_file_hash Allstar"
    by (simp add: scenario2_defs)
  have c: "\<forall>mb fh b.
        (files world_refetch_combined
           (combined_full_hash_filename (srv_serving listed_blob) (Some ''apo25m'') (Some ''F1''))
           = Some mb
         \<or> files world_refetch_combined
             (combined_full_hash_filename (srv_serving listed_blob) None None) = Some mb
         \<or> (\<exists>hist c. remote (srv_serving listed_blob) hist c
               (Urlretrieve (combined_str1 (Some ''apo25m'') (Some ''F1'')
                             @ combined_hash_filename (Some ''apo25m'') (Some ''F1'')))
               = Body mb)
         \<or> (\<exists>hist c. remote (srv_serving listed_blob) hist c
               (Urlretrieve (combined_str1 None None @ combined_hash_filename None None))
               = Body mb))
        \<longrightarrow> combined_file_hash (table mb) (combined_filename (Some ''X'')) = Inr fh
        \<longrightarrow> ((\<exists>hist c. remote (srv_serving listed_blob) hist c
                 (Urlretrieve (combined_urlstr (Some ''apo25m'') (Some ''F1'') (Some ''X'')))
                 = Body b)
             \<or> (\<exists>hist c. remote (srv_serving listed_blob) hist c
                 (Urlretrieve (combined_urlstr None None (Some ''X''))) = Body b))
        \<longrightarrow> mismatch (sha1 b) fh \<noteq> Inr True"
    by (auto simp add: run_defs scenario_defs scenario2_defs name_defs)
  have v: "\<forall>mb fh b.
        (files world_refetch_visit
           (visit_full_hash_filename (srv_serving listed_blob) (Some ''apo25m'') (Some ''F1''))
           = Some mb
         \<or> files world_refetch_visit
             (visit_full_hash_filename (srv_serving listed_blob) None None) = Some mb
         \<or> (\<exists>hist c. remote (srv_serving listed_blob) hist c
               (Urlretrieve (visit_str1 (Some ''apo25m'') (Some ''F1'')
                             @ visit_hash_filename (Some ''apo25m'') (Some ''F1'')))
               = Body mb)
         \<or> (\<exists>hist c. remote (srv_serving listed_blob) hist c
               (Urlretrieve (visit_str1 None None @ visit_hash_filename None None))
               = Body mb))
        \<longrightarrow> visit_file_hash (table mb) (Some ''X'') = Inr fh
        \<longrightarrow> ((\<exists>hist c. remote (srv_serving listed_blob) hist c
                 (Urlretrieve (visit_urlstr (Some ''apo25m'') (Some ''F1'') False (Some ''X'')))
                 = Body b)
             \<or> (\<exists>hist c. remote (srv_serving listed_blob) hist c
                 (Urlretrieve (visit_urlstr None None False (Some ''X''))) = Body b))
        \<longrightarrow> mismatch (sha1 b) fh \<noteq> Inr True"
    by (auto simp add: run_defs scenario_defs scenario2_defs name_defs)
  note ra = T [where n = "Suc 0", THEN conjunct1, THEN mp, OF a]
  note rc = T [where n = "Suc 0", THEN conjunct2, THEN conjunct1, THEN mp, OF c]
  note rv = T [where n = "Suc 0", THEN conjunct2, THEN conjunct2, THEN conjunct1, THEN mp, OF v]
  show ?thesis
    by (intro conjI ra [THEN conjunct1] ra [THEN conjunct2] rc [THEN conjunct1]
        rc [THEN conjunct2] rv [THEN conjunct1] rv [THEN conjunct2])
qed


end
